theory Spec2Isabelle
  imports Complex_Main
begin

section \<open>Beam-search kernels of the batched decoder\<close>

text \<open>
  The development embeds the device code of
  \<^verbatim>\<open>onlineSoftmaxBeamsearchKernelsTemplate.h\<close>, the dispatcher
  \<^verbatim>\<open>invokeTopkSoftMax\<close> and the peer-memory setup of \<^verbatim>\<open>ipcUtils.cpp\<close>.

  Conventions of the embedding.
  \<^item> \<^verbatim>\<open>float\<close> and the template type \<^verbatim>\<open>T\<close> are read as \<^typ>\<open>real\<close>: no rounding, no
    NaN, no infinity. The constants \<^verbatim>\<open>FLT_MAX\<close> and \<^verbatim>\<open>HALF_FLT_MAX\<close> keep their values.
    The one place where the code divides by a power that can be zero, the update of the
    done flag, is modelled with the infinite values and NaN.
  \<^item> \<^verbatim>\<open>int\<close> is read as \<^typ>\<open>int\<close>; the 32-bit range is not modelled, and the C operators
    \<^verbatim>\<open>/\<close> and \<^verbatim>\<open>%\<close> truncate towards zero.
  \<^item> A device array is a total function from indices to values; the pointer fields of
    \<^verbatim>\<open>BeamHypotheses\<close> point to pairwise disjoint buffers; a pointer that may be
    \<^verbatim>\<open>nullptr\<close> is an \<^typ>\<open>'a option\<close>.
\<close>

subsection \<open>Length penalty\<close>

text \<open>
  \<^verbatim>\<open>apply_length_penalty\<close> at a length of at least 1, where
  \<^verbatim>\<open>powf(length, length_penalty)\<close> is the real power, a positive number.
\<close>

definition apply_length_penalty :: "real \<Rightarrow> int \<Rightarrow> real \<Rightarrow> real" where
  "apply_length_penalty log_prob len length_penalty =
     (if length_penalty = 0 \<or> len = 1 then log_prob
      else log_prob / (real_of_int len powr length_penalty))"

text \<open>
  At a length below 1 the quotient leaves the finite numbers. A value of type
  \<^verbatim>\<open>float\<close> that may be infinite or NaN:
\<close>

datatype float_val = Finite real | PosInf | NegInf | NaN

text \<open>
  The library function \<^verbatim>\<open>powf\<close> at a base that is an \<^verbatim>\<open>int\<close>: the power of 0 is 0 for
  a positive exponent and infinite for a negative one; the power of a negative base is
  NaN unless the exponent is an integer.
\<close>

definition powf :: "int \<Rightarrow> real \<Rightarrow> float_val" where
  "powf x y =
     (if 0 < x then Finite (real_of_int x powr y)
      else if x = 0 then (if 0 < y then Finite 0 else if y < 0 then PosInf else Finite 1)
      else if y = real_of_int \<lfloor>y\<rfloor> then Finite (real_of_int x powi \<lfloor>y\<rfloor>)
      else NaN)"

text \<open>
  The division of a finite number by such a value; a divisor 0 is the positive zero, the
  only zero that \<open>powf\<close> yields here.
\<close>

fun float_div :: "real \<Rightarrow> float_val \<Rightarrow> float_val" where
  "float_div x (Finite y) =
     (if y \<noteq> 0 then Finite (x / y)
      else if x < 0 then NegInf else if 0 < x then PosInf else NaN)"
| "float_div x PosInf = Finite 0"
| "float_div x NegInf = Finite 0"
| "float_div x NaN = NaN"

text \<open>The comparison \<^verbatim>\<open>a >= b\<close> of a finite number with such a value.\<close>

fun float_ge :: "real \<Rightarrow> float_val \<Rightarrow> bool" where
  "float_ge a (Finite b) = (a \<ge> b)"
| "float_ge a PosInf = False"
| "float_ge a NegInf = True"
| "float_ge a NaN = False"

text \<open>\<^verbatim>\<open>apply_length_penalty\<close> at any length.\<close>

definition apply_length_penalty_float :: "real \<Rightarrow> int \<Rightarrow> real \<Rightarrow> float_val" where
  "apply_length_penalty_float log_prob len length_penalty =
     (if length_penalty = 0 \<or> len = 1 then Finite log_prob
      else float_div log_prob (powf len length_penalty))"

subsection \<open>Running softmax normaliser\<close>

record MD =
  m :: real
  d :: real

definition reduce_md_op :: "MD \<Rightarrow> MD \<Rightarrow> MD" where
  "reduce_md_op a b =
     (let a_bigger = (m a > m b);
          bigger_m = (if a_bigger then a else b);
          smaller_m = (if a_bigger then b else a)
      in \<lparr> m = m bigger_m,
           d = d bigger_m + d smaller_m * exp (m smaller_m - m bigger_m) \<rparr>)"

text \<open>
  The formula of the specification, word for word:
  \<^verbatim>\<open>combine(a,b) = {m: max(a.m,b.m), d: b.d + a.d * exp(a.m - b.m)}\<close>.
\<close>

definition combine_spec :: "MD \<Rightarrow> MD \<Rightarrow> MD" where
  "combine_spec a b = \<lparr> m = max (m a) (m b), d = d b + d a * exp (m a - m b) \<rparr>"

text \<open>The state of a single logit, as the kernels build it: \<^verbatim>\<open>MD new_elem{elem, 1.0F}\<close>.\<close>

definition md_single :: "real \<Rightarrow> MD" where
  "md_single x = \<lparr> m = x, d = 1 \<rparr>"

subsection \<open>Dispatch on the beam width\<close>

datatype launch_error = Unsupported_beam_width int

text \<open>
  \<^verbatim>\<open>while (recursor >>= 1) ++log_beam_width;\<close> The shift of a signed \<^verbatim>\<open>int\<close> is
  arithmetic (division by two, rounding down), so the loop does not end on a negative
  \<^verbatim>\<open>recursor\<close>; not returning is the value \<^const>\<open>None\<close>.
\<close>

partial_function (option) log_loop :: "int \<Rightarrow> int \<Rightarrow> int option" where
  "log_loop recursor log_beam_width =
     (let recursor' = recursor div 2
      in if recursor' \<noteq> 0 then log_loop recursor' (log_beam_width + 1)
         else Some log_beam_width)"

text \<open>
  The \<^verbatim>\<open>switch\<close> of \<^verbatim>\<open>invokeTopkSoftMax\<close>. \<^verbatim>\<open>fast_build\<close> is the macro
  \<^verbatim>\<open>FAST_BUILD\<close>; \<^verbatim>\<open>Inr MAX_K\<close> is the call of
  \<^verbatim>\<open>topK_softMax_kernelLauncher<T, MAX_K>\<close>, the only path that launches kernels.
\<close>

definition CASE_K :: "bool \<Rightarrow> int \<Rightarrow> int \<Rightarrow> launch_error + int" where
  "CASE_K fast_build beam_width log_beam_width =
     (if log_beam_width = 0 \<or> log_beam_width = 1 then Inr 4
      else if log_beam_width = 2 then Inr 8
      else if \<not> fast_build \<and> log_beam_width = 3 then Inr 16
      else if \<not> fast_build \<and> log_beam_width = 4 then Inr 32
      else if \<not> fast_build \<and> log_beam_width = 5 then Inr 64
      else Inl (Unsupported_beam_width beam_width))"

definition invokeTopkSoftMax :: "bool \<Rightarrow> int \<Rightarrow> (launch_error + int) option" where
  "invokeTopkSoftMax fast_build beam_width =
     (case log_loop (beam_width - 1) 0 of
        None \<Rightarrow> None
      | Some log_beam_width \<Rightarrow> Some (CASE_K fast_build beam_width log_beam_width))"

text \<open>
  Modelled from the spec: the entry point of top-k sampling
  (\<^verbatim>\<open>invokeBatchTopKSampling\<close>) is not among the sources, only a call of it and
  the test \<^verbatim>\<open>NotSupportedLargerThanK1024\<close> are. The specification says that a top-k
  value above the supported maximum raises a configuration error and performs no
  device work.
\<close>

datatype topk_error = Unsupported_top_k int

definition max_supported_top_k :: int where
  "max_supported_top_k = 1024"

definition invokeBatchTopKSampling_check :: "int \<Rightarrow> topk_error + unit" where
  "invokeBatchTopKSampling_check maxTopK =
     (if maxTopK > max_supported_top_k then Inl (Unsupported_top_k maxTopK) else Inr ())"

subsection \<open>Peer access and peer memory\<close>

text \<open>
  The status codes of the CUDA runtime that the code tells apart; every other failure
  code is \<open>cudaErrorOther\<close> with its number.
\<close>

datatype cudaError =
    cudaSuccess
  | cudaErrorPeerAccessAlreadyEnabled
  | cudaErrorPeerAccessNotEnabled
  | cudaErrorOther int

datatype tllm_exception = TllmException cudaError

text \<open>
  Modelled from the spec: the macro \<^verbatim>\<open>TLLM_CUDA_CHECK\<close> is defined in a header that is
  not among the sources. A device or runtime error is surfaced as a structured error
  wrapping the platform's error code; success passes.
\<close>

definition TLLM_CUDA_CHECK :: "cudaError \<Rightarrow> tllm_exception + unit" where
  "TLLM_CUDA_CHECK stat = (if stat = cudaSuccess then Inr () else Inl (TllmException stat))"

text \<open>
  The runtime is outside the program: what each call returns is a parameter. A call that
  fails also records its status as the last error of the thread;
  \<^verbatim>\<open>cudaGetLastError\<close> returns that status and resets it to \<open>cudaSuccess\<close>.
\<close>

record cuda_peer_runtime =
  cudaDeviceCanAccessPeer :: "nat \<Rightarrow> nat \<Rightarrow> cudaError"
  cudaDeviceEnablePeerAccess :: "nat \<Rightarrow> cudaError"
  cudaDeviceDisablePeerAccess :: "nat \<Rightarrow> cudaError"

definition record_error :: "cudaError \<Rightarrow> cudaError \<Rightarrow> cudaError" where
  "record_error stat last_error = (if stat = cudaSuccess then last_error else stat)"

text \<open>
  One round of the loop of \<^verbatim>\<open>setPeerAccess\<close>, for \<open>destNode\<close>. The result is the
  exception thrown, or the last error of the thread after the round.
\<close>

definition setPeerAccess_body ::
  "cuda_peer_runtime \<Rightarrow> nat \<Rightarrow> bool \<Rightarrow> nat \<Rightarrow> cudaError \<Rightarrow> tllm_exception + cudaError" where
  "setPeerAccess_body rt srcNode enable destNode last_error =
     (if destNode = srcNode then Inr last_error
      else
        let stat = cudaDeviceCanAccessPeer rt srcNode destNode;
            last_error1 = record_error stat last_error
        in case TLLM_CUDA_CHECK stat of
             Inl e \<Rightarrow> Inl e
           | Inr _ \<Rightarrow>
               let stat2 = (if enable then cudaDeviceEnablePeerAccess rt destNode
                            else cudaDeviceDisablePeerAccess rt destNode);
                   error = record_error stat2 last_error1
               in if error \<noteq> cudaErrorPeerAccessAlreadyEnabled
                     \<and> error \<noteq> cudaErrorPeerAccessNotEnabled
                  then (case TLLM_CUDA_CHECK error of
                          Inl e \<Rightarrow> Inl e
                        | Inr _ \<Rightarrow> Inr cudaSuccess)
                  else Inr cudaSuccess)"

fun setPeerAccess_loop ::
  "cuda_peer_runtime \<Rightarrow> nat \<Rightarrow> bool \<Rightarrow> nat list \<Rightarrow> cudaError \<Rightarrow> tllm_exception + cudaError" where
  "setPeerAccess_loop rt srcNode enable [] last_error = Inr last_error"
| "setPeerAccess_loop rt srcNode enable (destNode # rest) last_error =
     (case setPeerAccess_body rt srcNode enable destNode last_error of
        Inl e \<Rightarrow> Inl e
      | Inr last_error' \<Rightarrow> setPeerAccess_loop rt srcNode enable rest last_error')"

text \<open>
  \<^verbatim>\<open>setPeerAccess(worldConfig, enable)\<close>: \<open>srcNode\<close> is the tensor-parallel rank,
  \<open>tp\<close> the tensor parallelism, and \<open>destNode\<close> runs from 0 to \<open>tp - 1\<close>.
\<close>

definition setPeerAccess ::
  "cuda_peer_runtime \<Rightarrow> nat \<Rightarrow> nat \<Rightarrow> bool \<Rightarrow> cudaError \<Rightarrow> tllm_exception + cudaError" where
  "setPeerAccess rt srcNode tp enable last_error =
     setPeerAccess_loop rt srcNode enable [0..<tp] last_error"

definition benign :: "cudaError \<Rightarrow> bool" where
  "benign stat = (stat = cudaSuccess \<or> stat = cudaErrorPeerAccessAlreadyEnabled
                  \<or> stat = cudaErrorPeerAccessNotEnabled)"

definition peer_status :: "cuda_peer_runtime \<Rightarrow> bool \<Rightarrow> nat \<Rightarrow> cudaError" where
  "peer_status rt enable destNode =
     (if enable then cudaDeviceEnablePeerAccess rt destNode
      else cudaDeviceDisablePeerAccess rt destNode)"

text \<open>A runtime in which the calls for device 1 return a given status.\<close>

definition example_peer_runtime :: "cudaError \<Rightarrow> cuda_peer_runtime" where
  "example_peer_runtime stat =
     \<lparr> cudaDeviceCanAccessPeer = (\<lambda>src dest. cudaSuccess),
       cudaDeviceEnablePeerAccess = (\<lambda>dest. if dest = 1 then stat else cudaSuccess),
       cudaDeviceDisablePeerAccess = (\<lambda>dest. if dest = 1 then stat else cudaSuccess) \<rparr>"

text \<open>
  Peer memory. A device pointer is a number, \<open>nullptr\<close> is 0; a memory handle is what
  \<^verbatim>\<open>cudaIpcGetMemHandle\<close> exports. The allocation, the exchange of handles
  (\<^verbatim>\<open>allgather\<close> fills slot \<open>i\<close> of the receive buffer with the handle of rank
  \<open>i\<close>) and the runtime calls are parameters.
\<close>

type_synonym device_ptr = nat
type_synonym cudaIpcMemHandle = nat

record cuda_ipc_runtime =
  gpuSync :: "nat \<Rightarrow> device_ptr"
  cudaIpcGetMemHandle :: "device_ptr \<Rightarrow> cudaError \<times> cudaIpcMemHandle"
  allgather :: "cudaIpcMemHandle \<Rightarrow> nat \<Rightarrow> cudaIpcMemHandle"
  cudaIpcOpenMemHandle :: "cudaIpcMemHandle \<Rightarrow> cudaError \<times> device_ptr"
  cudaIpcCloseMemHandle :: "device_ptr \<Rightarrow> cudaError"

record IpcMemory =
  mTpRank :: nat
  mBuffer :: device_ptr
  mCommPtrs :: "device_ptr list"

text \<open>
  The second loop of \<^verbatim>\<open>allocateIpcMemory\<close>, over the node ids still to visit.
  \<^verbatim>\<open>mCommPtrs.at(nodeId)\<close> is in range, since \<open>mCommPtrs\<close> and \<open>handles\<close> both have
  as many entries as the tensor parallelism.
\<close>

fun allocateIpcMemory_loop ::
  "cuda_ipc_runtime \<Rightarrow> nat \<Rightarrow> device_ptr \<Rightarrow> (nat \<Rightarrow> cudaIpcMemHandle) \<Rightarrow> nat list
     \<Rightarrow> device_ptr list \<Rightarrow> tllm_exception + device_ptr list" where
  "allocateIpcMemory_loop rt tpRank bufferPtr handles [] commPtrs = Inr commPtrs"
| "allocateIpcMemory_loop rt tpRank bufferPtr handles (nodeId # rest) commPtrs =
     (if nodeId = tpRank
      then allocateIpcMemory_loop rt tpRank bufferPtr handles rest (commPtrs[nodeId := bufferPtr])
      else
        (case cudaIpcOpenMemHandle rt (handles nodeId) of
           (stat, foreignBuffer) \<Rightarrow>
             (case TLLM_CUDA_CHECK stat of
                Inl e \<Rightarrow> Inl e
              | Inr _ \<Rightarrow>
                  allocateIpcMemory_loop rt tpRank bufferPtr handles rest
                    (commPtrs[nodeId := foreignBuffer]))))"

text \<open>
  The constructor of \<^verbatim>\<open>IpcMemory\<close> with \<^verbatim>\<open>allocateIpcMemory\<close>: \<open>mCommPtrs\<close> starts as
  \<open>tp\<close> null pointers.
\<close>

definition allocateIpcMemory ::
  "cuda_ipc_runtime \<Rightarrow> nat \<Rightarrow> nat \<Rightarrow> nat \<Rightarrow> tllm_exception + IpcMemory" where
  "allocateIpcMemory rt bufferSize tpRank tp =
     (let bufferPtr = gpuSync rt bufferSize
      in case cudaIpcGetMemHandle rt bufferPtr of
           (stat, localHandle) \<Rightarrow>
             (case TLLM_CUDA_CHECK stat of
                Inl e \<Rightarrow> Inl e
              | Inr _ \<Rightarrow>
                  (case allocateIpcMemory_loop rt tpRank bufferPtr (allgather rt localHandle)
                          [0..<tp] (replicate tp 0) of
                     Inl e \<Rightarrow> Inl e
                   | Inr commPtrs \<Rightarrow>
                       Inr \<lparr> mTpRank = tpRank, mBuffer = bufferPtr, mCommPtrs = commPtrs \<rparr>)))"

text \<open>
  \<^verbatim>\<open>destroyIpcMemory\<close>. The result is the list of the pointers that were passed to
  \<^verbatim>\<open>cudaIpcCloseMemHandle\<close>, in order, and the exception if one was thrown.
\<close>

fun destroyIpcMemory_loop ::
  "cuda_ipc_runtime \<Rightarrow> IpcMemory \<Rightarrow> nat list \<Rightarrow> device_ptr list
     \<Rightarrow> device_ptr list \<times> tllm_exception option" where
  "destroyIpcMemory_loop rt mem [] closedPtrs = (closedPtrs, None)"
| "destroyIpcMemory_loop rt mem (nodeId # rest) closedPtrs =
     (if nodeId \<noteq> mTpRank mem
      then (case TLLM_CUDA_CHECK (cudaIpcCloseMemHandle rt (mCommPtrs mem ! nodeId)) of
              Inl e \<Rightarrow> (closedPtrs @ [mCommPtrs mem ! nodeId], Some e)
            | Inr _ \<Rightarrow> destroyIpcMemory_loop rt mem rest (closedPtrs @ [mCommPtrs mem ! nodeId]))
      else destroyIpcMemory_loop rt mem rest closedPtrs)"

definition destroyIpcMemory ::
  "cuda_ipc_runtime \<Rightarrow> IpcMemory \<Rightarrow> device_ptr list \<times> tllm_exception option" where
  "destroyIpcMemory rt mem = destroyIpcMemory_loop rt mem [0..<length (mCommPtrs mem)] []"

text \<open>
  A runtime for a group of three: the local buffer is at 100, rank \<open>i\<close> exports the
  handle \<open>10 + i\<close>, and the handle \<open>h\<close> is mapped at \<open>200 + h\<close>.
\<close>

definition example_ipc_runtime :: cuda_ipc_runtime where
  "example_ipc_runtime =
     \<lparr> gpuSync = (\<lambda>size. 100),
       cudaIpcGetMemHandle = (\<lambda>p. (cudaSuccess, 11)),
       allgather = (\<lambda>h i. 10 + i),
       cudaIpcOpenMemHandle = (\<lambda>h. (cudaSuccess, 200 + h)),
       cudaIpcCloseMemHandle = (\<lambda>p. cudaSuccess) \<rparr>"

subsection \<open>Hypothesis selection: \<^verbatim>\<open>batch_topk_kernel\<close>\<close>

text \<open>The operators \<^verbatim>\<open>/\<close> and \<^verbatim>\<open>%\<close> of C on \<^verbatim>\<open>int\<close>, truncating towards zero.\<close>

definition c_div :: "int \<Rightarrow> int \<Rightarrow> int" where
  "c_div a b = sgn a * sgn b * (\<bar>a\<bar> div \<bar>b\<bar>)"

definition c_mod :: "int \<Rightarrow> int \<Rightarrow> int" where
  "c_mod a b = a - c_div a b * b"

definition FLT_MAX :: real where
  "FLT_MAX = 340282346638528859811704183484516925440"

definition HALF_FLT_MAX :: real where
  "HALF_FLT_MAX = 65504"

text \<open>\<^verbatim>\<open>MAX_T_VAL\<close>; the flag says whether the template type \<^verbatim>\<open>T\<close> is \<^verbatim>\<open>half\<close>.\<close>

definition MAX_T_VAL :: "bool \<Rightarrow> real" where
  "MAX_T_VAL is_half = (if is_half then HALF_FLT_MAX else FLT_MAX)"

text \<open>
  Modelled from the spec: \<^verbatim>\<open>FinishedState\<close> is declared in a header that is not among
  the sources. It tells apart not finished, finished by the end token, finished by the
  maximum length and finished by a stop word; \<^verbatim>\<open>isFinished()\<close> holds for the last three.
\<close>

datatype FinishedState = NotFinished | FinishedEos | FinishedMaxLength | FinishedStopWords

definition isFinished :: "FinishedState \<Rightarrow> bool" where
  "isFinished s = (s \<noteq> NotFinished)"

text \<open>
  \<^verbatim>\<open>BeamHypotheses\<close>: the scalars of the struct and the contents of the buffers its
  pointers address. The kernels name its fields; its declaration is not among the sources.
\<close>

record BeamHypotheses =
  ite :: int
  local_batch_size :: int
  batch_size :: int
  beam_width :: int
  vocab_size :: int
  max_seq_len :: int
  diversity_rates :: "int \<Rightarrow> real"
  length_penalties :: "int \<Rightarrow> real"
  early_stoppings :: "int \<Rightarrow> int"
  input_lengths :: "int \<Rightarrow> int"
  sequence_lengths_src :: "int \<Rightarrow> int"
  end_ids :: "int \<Rightarrow> int"
  finished :: "int \<Rightarrow> FinishedState"
  cum_log_probs_src :: "int \<Rightarrow> real"
  log_probs_src :: "(int \<Rightarrow> real) option"
  num_beams :: "(int \<Rightarrow> int) option"
  min_normed_scores :: "int \<Rightarrow> real"
  normed_scores :: "int \<Rightarrow> real"
  output_ids_tgt :: "int \<Rightarrow> int"
  output_ids_tgt_ptr :: "int \<Rightarrow> int \<Rightarrow> int"
  parent_ids_tgt_ptr :: "int \<Rightarrow> int \<Rightarrow> int"
  sequence_lengths_tgt :: "int \<Rightarrow> int"
  cum_log_probs :: "int \<Rightarrow> real"
  log_probs :: "(int \<Rightarrow> real) option"
  is_done :: "int \<Rightarrow> bool"

text \<open>\<^verbatim>\<open>cub::KeyValuePair<int, T>\<close> and \<^verbatim>\<open>cub::ArgMax\<close> (the functor \<^verbatim>\<open>arg_max\<close> of the kernels).\<close>

type_synonym cub_kvp = "int \<times> real"

definition ArgMax :: "cub_kvp \<Rightarrow> cub_kvp \<Rightarrow> cub_kvp" where
  "ArgMax a b = (if snd b > snd a \<or> (snd a = snd b \<and> fst b < fst a) then b else a)"

text \<open>
  The ids a thread visits in \<^verbatim>\<open>for (id = first; id < n; id += THREADBLOCK_SIZE)\<close>.
  The block size is a positive template argument.
\<close>

function strided :: "int \<Rightarrow> int \<Rightarrow> int \<Rightarrow> int list" where
  "strided first n THREADBLOCK_SIZE =
     (if first < n \<and> 0 < THREADBLOCK_SIZE
      then first # strided (first + THREADBLOCK_SIZE) n THREADBLOCK_SIZE
      else [])"
  by pat_completeness auto
termination
  by (relation "measure (\<lambda>(first, n, B). nat (n - first))") auto

declare strided.simps [simp del]

text \<open>The arg-max of a thread over its ids of the buffer \<open>buf_s\<close>.\<close>

definition thread_partial_topk ::
  "real \<Rightarrow> int \<Rightarrow> int \<Rightarrow> (int \<Rightarrow> real) \<Rightarrow> int \<Rightarrow> cub_kvp" where
  "thread_partial_topk MAX_T candidate_size THREADBLOCK_SIZE buf_s thread_id =
     fold (\<lambda>id partial_topk. ArgMax partial_topk (id, buf_s id))
       (strided thread_id candidate_size THREADBLOCK_SIZE)
       (candidate_size - 1, - MAX_T)"

text \<open>
  \<^verbatim>\<open>BlockReduce(temp_storage).Reduce(partial_topk, arg_max)\<close>: the partial results of
  the threads of the block, combined in the order of their ranks.
\<close>

definition BlockReduce :: "('a \<Rightarrow> 'a \<Rightarrow> 'a) \<Rightarrow> int \<Rightarrow> (int \<Rightarrow> 'a) \<Rightarrow> 'a" where
  "BlockReduce op THREADBLOCK_SIZE partial =
     fold (\<lambda>thread_id total. op total (partial thread_id)) [1..THREADBLOCK_SIZE - 1] (partial 0)"

text \<open>
  One round \<open>i\<close> of the extraction of the top \<open>2 * K\<close> candidates. The state is
  \<open>cta_topk\<close>, \<open>buf_s\<close> and the partial results of the threads.
\<close>

definition topk_round ::
  "real \<Rightarrow> int \<Rightarrow> int \<Rightarrow> int \<Rightarrow> int
     \<Rightarrow> (int \<Rightarrow> cub_kvp) \<times> (int \<Rightarrow> real) \<times> (int \<Rightarrow> cub_kvp)
     \<Rightarrow> (int \<Rightarrow> cub_kvp) \<times> (int \<Rightarrow> real) \<times> (int \<Rightarrow> cub_kvp)" where
  "topk_round MAX_T candidate_size THREADBLOCK_SIZE K i st =
     (case st of (cta_topk, buf_s, partial_topk) \<Rightarrow>
        let total_topk = BlockReduce ArgMax THREADBLOCK_SIZE partial_topk;
            cta_topk' = cta_topk(i := total_topk);
            buf_s' = buf_s(fst total_topk := - MAX_T);
            thread_requiring_update = c_mod (fst total_topk) THREADBLOCK_SIZE;
            partial_topk' =
              (if i < 2 * K - 1
               then partial_topk(thread_requiring_update :=
                      thread_partial_topk MAX_T candidate_size THREADBLOCK_SIZE buf_s'
                        thread_requiring_update)
               else partial_topk)
        in (cta_topk', buf_s', partial_topk'))"

text \<open>
  The scores of the candidates, with the diversity term, and the top \<open>2 * K\<close> of them
  in \<open>cta_topk\<close>. \<open>topk_id\<close> and \<open>topk_val\<close> are already repositioned to the current
  vector.
\<close>

definition candidate_elem :: "BeamHypotheses \<Rightarrow> int \<Rightarrow> (int \<Rightarrow> real) \<Rightarrow> int \<Rightarrow> real" where
  "candidate_elem beam_hyps global_batch_idx topk_val =
     (\<lambda>id.
      let K = beam_width beam_hyps;
          i = (if num_beams beam_hyps = None then c_mod id K else c_div (c_div id 2) K)
      in topk_val id + diversity_rates beam_hyps global_batch_idx * real_of_int i)"

definition select_cta_topk ::
  "real \<Rightarrow> int \<Rightarrow> BeamHypotheses \<Rightarrow> int \<Rightarrow> (int \<Rightarrow> real) \<Rightarrow> int \<Rightarrow> (int \<Rightarrow> cub_kvp)" where
  "select_cta_topk MAX_T THREADBLOCK_SIZE beam_hyps global_batch_idx topk_val candidate_size =
     (let K = beam_width beam_hyps;
          buf_s = candidate_elem beam_hyps global_batch_idx topk_val;
          partial_topk = thread_partial_topk MAX_T candidate_size THREADBLOCK_SIZE buf_s
      in fst (fold (topk_round MAX_T candidate_size THREADBLOCK_SIZE K) [0..2 * K - 1]
                (\<lambda>i. (0, 0), buf_s, partial_topk)))"

text \<open>
  The loop \<^verbatim>\<open>for (int j = current_step - 1; j >= 0; j--)\<close> that copies the tokens of a
  finished beam into the ledger, walking the parent ids.
\<close>

function copy_beam :: "int \<Rightarrow> int \<Rightarrow> int \<Rightarrow> int \<Rightarrow> int \<times> BeamHypotheses \<Rightarrow> int \<times> BeamHypotheses" where
  "copy_beam vector_id K tgt_id_offset j (prev_id, beam_hyps) =
     (if j \<ge> 0 then
        let src_idx = j * batch_size beam_hyps * K
                      + ite beam_hyps * local_batch_size beam_hyps * K + vector_id * K + prev_id;
            bh1 = beam_hyps\<lparr> output_ids_tgt := (output_ids_tgt beam_hyps)
                    (tgt_id_offset + j :=
                       output_ids_tgt_ptr beam_hyps vector_id
                         (prev_id * max_seq_len beam_hyps + j)) \<rparr>;
            bh2 = (if log_probs bh1 \<noteq> None \<and> log_probs_src bh1 \<noteq> None
                   then bh1\<lparr> log_probs := Some ((the (log_probs bh1))
                          (tgt_id_offset + j := the (log_probs_src bh1) src_idx)) \<rparr>
                   else bh1);
            prev_id' = parent_ids_tgt_ptr bh2 vector_id (prev_id * max_seq_len bh2 + j)
        in copy_beam vector_id K tgt_id_offset (j - 1) (prev_id', bh2)
      else (prev_id, beam_hyps))"
  by pat_completeness auto
termination
  by (relation "measure (\<lambda>(vector_id, K, tgt_id_offset, j, st). nat (j + 1))") auto

declare copy_beam.simps [simp del]

text \<open>The normalised score of the candidate of rank \<open>i\<close>.\<close>

definition candidate_normed_score ::
  "BeamHypotheses \<Rightarrow> int \<Rightarrow> int \<Rightarrow> int \<Rightarrow> real \<Rightarrow> int \<Rightarrow> real \<Rightarrow> real" where
  "candidate_normed_score beam_hyps vector_id K global_batch_idx length_penalty i current_value =
     (let seq_len = sequence_lengths_src beam_hyps (vector_id * K + i)
                    - input_lengths beam_hyps global_batch_idx;
          pad = (if \<not> isFinished (finished beam_hyps (vector_id * K + i)) then 1 else 0)
      in apply_length_penalty current_value (seq_len + pad) length_penalty)"

text \<open>
  There are already \<open>K\<close> beams and the score is not worse than the worst: find the beam
  whose score is \<open>min_normed_score\<close> and erase it. The result is \<open>beam_idx\<close> and the
  memory; \<open>beam_idx\<close> stays \<open>K\<close> when no score equals the minimum.
\<close>

definition erase_worst_beam ::
  "int \<Rightarrow> int \<Rightarrow> real \<Rightarrow> BeamHypotheses \<Rightarrow> int \<times> BeamHypotheses" where
  "erase_worst_beam K global_batch_idx normed_score beam_hyps =
     (case List.find (\<lambda>j. normed_scores beam_hyps (global_batch_idx * (K * 2) + j)
                           = min_normed_scores beam_hyps global_batch_idx) [0..K - 1] of
        None \<Rightarrow> (K, beam_hyps)
      | Some j \<Rightarrow>
          let bh1 = beam_hyps\<lparr> num_beams := Some ((the (num_beams beam_hyps))
                      (global_batch_idx := the (num_beams beam_hyps) global_batch_idx - 1)) \<rparr>;
              bh2 = bh1\<lparr> min_normed_scores :=
                      (min_normed_scores bh1)(global_batch_idx := FLT_MAX) \<rparr>;
              bh3 = bh2\<lparr> normed_scores :=
                      (normed_scores bh2)(global_batch_idx * (K * 2) + j := normed_score) \<rparr>;
              bh4 = fold (\<lambda>l bh. bh\<lparr> min_normed_scores := (min_normed_scores bh)
                            (global_batch_idx :=
                               min (min_normed_scores bh global_batch_idx)
                                   (normed_scores bh (global_batch_idx * (K * 2) + l))) \<rparr>)
                      [0..K - 1] bh3
          in (j, bh4))"

text \<open>The finished beam is written into the slot \<open>beam_idx\<close> of the ledger.\<close>

definition store_beam ::
  "(int \<Rightarrow> int) \<Rightarrow> (int \<Rightarrow> real) \<Rightarrow> (int \<Rightarrow> real) \<Rightarrow> int \<Rightarrow> int \<Rightarrow> int \<Rightarrow> int \<Rightarrow> real
     \<Rightarrow> int \<Rightarrow> BeamHypotheses \<Rightarrow> BeamHypotheses" where
  "store_beam topk_id topk_val old_cum_log_probs vector_id K global_batch_idx current_key
       normed_score beam_idx beam_hyps =
     (let tgt_id_offset =
            ((vector_id + ite beam_hyps * local_batch_size beam_hyps) * (K * 2) + beam_idx)
            * max_seq_len beam_hyps;
          prev_id = c_mod (c_div (topk_id current_key) (vocab_size beam_hyps)) K;
          current_step = sequence_lengths_src beam_hyps (vector_id * K + prev_id);
          bh1 = beam_hyps\<lparr> output_ids_tgt := (output_ids_tgt beam_hyps)
                  (tgt_id_offset + current_step := end_ids beam_hyps vector_id) \<rparr>;
          bh2 = (if log_probs bh1 \<noteq> None
                 then bh1\<lparr> log_probs := Some ((the (log_probs bh1))
                        (tgt_id_offset + current_step :=
                           topk_val current_key
                           - old_cum_log_probs
                               (c_mod (c_div (topk_id current_key) (vocab_size bh1)) K))) \<rparr>
                 else bh1);
          bh3 = snd (copy_beam vector_id K tgt_id_offset (current_step - 1) (prev_id, bh2));
          tgt_beam_idx = global_batch_idx * (K * 2) + beam_idx;
          bh4 = bh3\<lparr> sequence_lengths_tgt :=
                  (sequence_lengths_tgt bh3)(tgt_beam_idx := current_step) \<rparr>;
          bh5 = bh4\<lparr> normed_scores := (normed_scores bh4)(tgt_beam_idx := normed_score) \<rparr>;
          bh6 = bh5\<lparr> min_normed_scores := (min_normed_scores bh5)
                  (global_batch_idx := min (min_normed_scores bh5 global_batch_idx)
                                           (normed_scores bh5 tgt_beam_idx)) \<rparr>;
          bh7 = bh6\<lparr> num_beams := Some ((the (num_beams bh6))
                  (global_batch_idx := the (num_beams bh6) global_batch_idx + 1)) \<rparr>
      in bh7\<lparr> cum_log_probs := (cum_log_probs bh7)(tgt_beam_idx := topk_val current_key) \<rparr>)"

text \<open>The candidate becomes the live beam \<open>selected_beams\<close>.\<close>

definition select_beam ::
  "(int \<Rightarrow> int) \<Rightarrow> (int \<Rightarrow> real) \<Rightarrow> (int \<Rightarrow> real) \<Rightarrow> int \<Rightarrow> int \<Rightarrow> int
     \<Rightarrow> int \<times> BeamHypotheses \<Rightarrow> int \<times> BeamHypotheses" where
  "select_beam topk_id topk_val old_cum_log_probs vector_id K current_key st =
     (case st of (selected_beams, beam_hyps) \<Rightarrow>
        let current_step = sequence_lengths_src beam_hyps (vector_id * K + selected_beams);
            bh1 = beam_hyps\<lparr> output_ids_tgt_ptr := (output_ids_tgt_ptr beam_hyps)
                    (vector_id := (output_ids_tgt_ptr beam_hyps vector_id)
                       (selected_beams * max_seq_len beam_hyps + current_step :=
                          topk_id current_key)) \<rparr>;
            bh2 = (if log_probs_src bh1 \<noteq> None
                   then bh1\<lparr> log_probs_src := Some ((the (log_probs_src bh1))
                          (current_step * batch_size bh1 * K + vector_id * K + selected_beams :=
                             topk_val current_key
                             - old_cum_log_probs
                                 (c_mod (c_div (topk_id current_key) (vocab_size bh1)) K))) \<rparr>
                   else bh1);
            bh3 = bh2\<lparr> cum_log_probs_src := (cum_log_probs_src bh2)
                    (vector_id * K + selected_beams := topk_val current_key) \<rparr>
        in (selected_beams + 1, bh3))"

text \<open>
  The body of the loop of thread 0 over the candidates, for the rank \<open>i\<close>. The first
  component of the result says whether the body left the loop by \<^verbatim>\<open>break\<close>.
\<close>

definition candidate_body ::
  "(int \<Rightarrow> int) \<Rightarrow> (int \<Rightarrow> real) \<Rightarrow> (int \<Rightarrow> cub_kvp) \<Rightarrow> (int \<Rightarrow> real) \<Rightarrow> int \<Rightarrow> int \<Rightarrow> int
     \<Rightarrow> real \<Rightarrow> int \<Rightarrow> int \<times> BeamHypotheses \<Rightarrow> bool \<times> int \<times> BeamHypotheses" where
  "candidate_body topk_id topk_val cta_topk old_cum_log_probs vector_id K global_batch_idx
       length_penalty i st =
     (case st of (selected_beams, beam_hyps) \<Rightarrow>
        let current_key = fst (cta_topk i);
            current_value = snd (cta_topk i);
            is_end_token = (c_mod (topk_id current_key) (vocab_size beam_hyps)
                            = end_ids beam_hyps vector_id)
        in if i < K \<and> num_beams beam_hyps \<noteq> None \<and> is_end_token then
             let normed_score = candidate_normed_score beam_hyps vector_id K global_batch_idx
                                  length_penalty i current_value;
                 beam_idx = the (num_beams beam_hyps) global_batch_idx
             in if beam_idx = K then
                  if normed_score < min_normed_scores beam_hyps global_batch_idx
                  then (True, K, beam_hyps)
                  else
                    (case erase_worst_beam K global_batch_idx normed_score beam_hyps of
                       (beam_idx', bh') \<Rightarrow>
                         (False, selected_beams,
                          store_beam topk_id topk_val old_cum_log_probs vector_id K
                            global_batch_idx current_key normed_score beam_idx' bh'))
                else (False, selected_beams,
                      store_beam topk_id topk_val old_cum_log_probs vector_id K
                        global_batch_idx current_key normed_score beam_idx beam_hyps)
           else if i < K \<or> (num_beams beam_hyps \<noteq> None \<and> \<not> is_end_token) then
             (case select_beam topk_id topk_val old_cum_log_probs vector_id K current_key
                     (selected_beams, beam_hyps) of
                (selected_beams', bh') \<Rightarrow> (False, selected_beams', bh'))
           else (False, selected_beams, beam_hyps))"

text \<open>
  \<^verbatim>\<open>for (int i = 0; i < 2 * K; ++i)\<close> of thread 0, left by the \<^verbatim>\<open>break\<close> of the body
  and by \<^verbatim>\<open>if (selected_beams >= K) break;\<close>.
\<close>

function select_loop ::
  "(int \<Rightarrow> int) \<Rightarrow> (int \<Rightarrow> real) \<Rightarrow> (int \<Rightarrow> cub_kvp) \<Rightarrow> (int \<Rightarrow> real) \<Rightarrow> int \<Rightarrow> int \<Rightarrow> int
     \<Rightarrow> real \<Rightarrow> int \<Rightarrow> int \<times> BeamHypotheses \<Rightarrow> int \<times> BeamHypotheses" where
  "select_loop topk_id topk_val cta_topk old_cum_log_probs vector_id K global_batch_idx
       length_penalty i st =
     (if i < 2 * K then
        (case candidate_body topk_id topk_val cta_topk old_cum_log_probs vector_id K
                global_batch_idx length_penalty i st of
           (break, selected_beams', bh') \<Rightarrow>
             if break \<or> selected_beams' \<ge> K then (selected_beams', bh')
             else select_loop topk_id topk_val cta_topk old_cum_log_probs vector_id K
                    global_batch_idx length_penalty (i + 1) (selected_beams', bh'))
      else st)"
  by pat_completeness auto
termination
  by (relation "measure (\<lambda>(topk_id, topk_val, cta_topk, old, vector_id, K, g, lp, i, st).
        nat (2 * K - i))") auto

declare select_loop.simps [simp del]

text \<open>
  The update of \<^verbatim>\<open>beam_hyps.is_done\<close> at the end of the kernel. The length at which the
  score of the live beam 0 is normalised is 0 at the first generated token.
\<close>

definition update_is_done ::
  "int \<Rightarrow> int \<Rightarrow> int \<Rightarrow> real \<Rightarrow> int \<Rightarrow> BeamHypotheses \<Rightarrow> BeamHypotheses" where
  "update_is_done vector_id K global_batch_idx length_penalty early_stopping beam_hyps =
     (if num_beams beam_hyps \<noteq> None then
        if the (num_beams beam_hyps) vector_id < K
        then beam_hyps\<lparr> is_done := (is_done beam_hyps)(vector_id := False) \<rparr>
        else if early_stopping = 1
        then beam_hyps\<lparr> is_done := (is_done beam_hyps)(vector_id := True) \<rparr>
        else if early_stopping = 0
        then
          let seq_len = sequence_lengths_src beam_hyps (vector_id * K)
                        - input_lengths beam_hyps global_batch_idx;
              highest_attainable_score =
                apply_length_penalty_float (cum_log_probs_src beam_hyps (vector_id * K)) seq_len
                  length_penalty
          in beam_hyps\<lparr> is_done := (is_done beam_hyps)
               (vector_id := float_ge (min_normed_scores beam_hyps global_batch_idx)
                               highest_attainable_score) \<rparr>
        else
          let seq_len = (if length_penalty > 0
                         then max_seq_len beam_hyps - input_lengths beam_hyps global_batch_idx
                         else sequence_lengths_src beam_hyps (vector_id * K)
                              - input_lengths beam_hyps global_batch_idx);
              highest_attainable_score =
                apply_length_penalty_float (cum_log_probs_src beam_hyps (vector_id * K)) seq_len
                  length_penalty
          in beam_hyps\<lparr> is_done := (is_done beam_hyps)
               (vector_id := float_ge (min_normed_scores beam_hyps global_batch_idx)
                               highest_attainable_score) \<rparr>
      else beam_hyps)"

text \<open>
  The kernel for the block \<open>vector_id\<close>, after the check of the number of finished
  beams: extraction of the top \<open>2 * K\<close> candidates, the loop of thread 0, and the update
  of the done flag. \<open>old_cum_log_probs\<close> is the shared array that the threads below \<open>K\<close>
  fill; what no thread writes is unspecified.
\<close>

definition batch_topk_kernel_main ::
  "bool \<Rightarrow> int \<Rightarrow> (int \<Rightarrow> int) \<Rightarrow> (int \<Rightarrow> real) \<Rightarrow> (int \<Rightarrow> real) \<Rightarrow> BeamHypotheses \<Rightarrow> int \<Rightarrow> int
     \<Rightarrow> BeamHypotheses" where
  "batch_topk_kernel_main is_half THREADBLOCK_SIZE topk_id topk_val old_cum_log_probs beam_hyps
       candidate_size vector_id =
     (let global_batch_idx = ite beam_hyps * local_batch_size beam_hyps + vector_id;
          K = beam_width beam_hyps;
          length_penalty = length_penalties beam_hyps global_batch_idx;
          early_stopping = early_stoppings beam_hyps global_batch_idx;
          topk_id' = (\<lambda>i. topk_id (vector_id * candidate_size + i));
          topk_val' = (\<lambda>i. topk_val (vector_id * candidate_size + i));
          cta_topk = select_cta_topk (MAX_T_VAL is_half) THREADBLOCK_SIZE beam_hyps
                       global_batch_idx topk_val' candidate_size;
          bh1 = snd (select_loop topk_id' topk_val' cta_topk old_cum_log_probs vector_id K
                       global_batch_idx length_penalty 0 (0, beam_hyps))
      in update_is_done vector_id K global_batch_idx length_penalty early_stopping bh1)"

definition batch_topk_kernel ::
  "bool \<Rightarrow> int \<Rightarrow> (int \<Rightarrow> int) \<Rightarrow> (int \<Rightarrow> real) \<Rightarrow> BeamHypotheses \<Rightarrow> int \<Rightarrow> int
     \<Rightarrow> BeamHypotheses" where
  "batch_topk_kernel is_half THREADBLOCK_SIZE topk_id topk_val beam_hyps candidate_size
       vector_id =
     (let global_batch_idx = ite beam_hyps * local_batch_size beam_hyps + vector_id;
          K = beam_width beam_hyps;
          old_cum_log_probs =
            (\<lambda>thread_id. if 0 \<le> thread_id \<and> thread_id < K \<and> thread_id < THREADBLOCK_SIZE
                          then cum_log_probs_src beam_hyps (vector_id * K + thread_id)
                          else undefined)
      in if num_beams beam_hyps \<noteq> None then
           if the (num_beams beam_hyps) global_batch_idx = 0
           then batch_topk_kernel_main is_half THREADBLOCK_SIZE topk_id topk_val
                  old_cum_log_probs
                  (beam_hyps\<lparr> min_normed_scores :=
                     (min_normed_scores beam_hyps)(global_batch_idx := FLT_MAX) \<rparr>)
                  candidate_size vector_id
           else if the (num_beams beam_hyps) global_batch_idx = K
           then beam_hyps
           else batch_topk_kernel_main is_half THREADBLOCK_SIZE topk_id topk_val
                  old_cum_log_probs beam_hyps candidate_size vector_id
         else batch_topk_kernel_main is_half THREADBLOCK_SIZE topk_id topk_val
                old_cum_log_probs beam_hyps candidate_size vector_id)"

text \<open>
  The ledger of request \<open>global_batch_idx\<close> is consistent: the count of finished
  hypotheses lies between 0 and \<open>K\<close>, and when hypotheses are stored the recorded
  minimum is the minimum of exactly their normalised scores.
\<close>

definition ledger_ok :: "int \<Rightarrow> int \<Rightarrow> BeamHypotheses \<Rightarrow> bool" where
  "ledger_ok K global_batch_idx beam_hyps =
     (num_beams beam_hyps \<noteq> None
      \<and> 0 \<le> the (num_beams beam_hyps) global_batch_idx
      \<and> the (num_beams beam_hyps) global_batch_idx \<le> K
      \<and> (0 < the (num_beams beam_hyps) global_batch_idx \<longrightarrow>
            min_normed_scores beam_hyps global_batch_idx
              = Min ((\<lambda>j. normed_scores beam_hyps (global_batch_idx * (K * 2) + j))
                       ` {0..<the (num_beams beam_hyps) global_batch_idx})))"

text \<open>
  A request with beam width 2 and a vocabulary of 3 tokens whose end token is 0, at its
  third token. The ledger holds one hypothesis of score -3 in slot 0. Both live beams
  propose the end token: beam 0 with score -1 (candidate 0) and beam 1 with score -3
  (candidate 4); the length penalty is 0 and there is no diversity term.
\<close>

definition tie_beam_hyps :: BeamHypotheses where
  "tie_beam_hyps =
     \<lparr> ite = 0, local_batch_size = 1, batch_size = 1, beam_width = 2, vocab_size = 3,
       max_seq_len = 4,
       diversity_rates = (\<lambda>i. 0), length_penalties = (\<lambda>i. 0), early_stoppings = (\<lambda>i. 1),
       input_lengths = (\<lambda>i. 1), sequence_lengths_src = (\<lambda>i. 2), end_ids = (\<lambda>i. 0),
       finished = (\<lambda>i. NotFinished), cum_log_probs_src = (\<lambda>i. 0), log_probs_src = None,
       num_beams = Some (\<lambda>i. 1), min_normed_scores = (\<lambda>i. - 3), normed_scores = (\<lambda>i. - 3),
       output_ids_tgt = (\<lambda>i. 5), output_ids_tgt_ptr = (\<lambda>b i. 7 + i),
       parent_ids_tgt_ptr = (\<lambda>b i. if i < 4 then 0 else 1),
       sequence_lengths_tgt = (\<lambda>i. 1), cum_log_probs = (\<lambda>i. - 3), log_probs = None,
       is_done = (\<lambda>i. False) \<rparr>"

definition tie_topk_id :: "int \<Rightarrow> int" where
  "tie_topk_id i = (if i = 0 then 0 else if i = 1 then 1 else if i = 2 then 2 else if i = 3 then 2
                    else if i = 4 then 3 else if i = 5 then 4 else 5)"

definition tie_topk_val :: "int \<Rightarrow> real" where
  "tie_topk_val i = (if i = 0 then - 1 else if i = 4 then - 3 else - 10 - real_of_int i)"

text \<open>The scores of its candidates in the shared buffer, and the first partial results.\<close>

definition tie_buf_s :: "int \<Rightarrow> real" where
  "tie_buf_s = candidate_elem tie_beam_hyps 0 (\<lambda>i. tie_topk_val (0 * 8 + i))"

definition tie_partial_topk :: "int \<Rightarrow> cub_kvp" where
  "tie_partial_topk = thread_partial_topk FLT_MAX 8 32 tie_buf_s"

text \<open>The state of that request after the step.\<close>

definition tie_result :: BeamHypotheses where
  "tie_result =
     \<lparr> ite = 0, local_batch_size = 1, batch_size = 1, beam_width = 2, vocab_size = 3,
       max_seq_len = 4,
       diversity_rates = (\<lambda>i. 0), length_penalties = (\<lambda>i. 0), early_stoppings = (\<lambda>i. 1),
       input_lengths = (\<lambda>i. 1), sequence_lengths_src = (\<lambda>i. 2), end_ids = (\<lambda>i. 0),
       finished = (\<lambda>i. NotFinished), cum_log_probs_src = (\<lambda>i. 0)(0 := - 11, 1 := - 12),
       log_probs_src = None,
       num_beams = Some ((\<lambda>i. 1)(0 := 2)), min_normed_scores = (\<lambda>i. - 3)(0 := - 3),
       normed_scores = (\<lambda>i. - 3)(1 := - 1, 0 := - 3),
       output_ids_tgt = (\<lambda>i. 5)(6 := 0, 5 := 8, 4 := 7, 2 := 0, 1 := 12, 0 := 11),
       output_ids_tgt_ptr = (\<lambda>b i. 7 + i)(0 := (\<lambda>i. 7 + i)(2 := 1, 6 := 2)),
       parent_ids_tgt_ptr = (\<lambda>b i. if i < 4 then 0 else 1),
       sequence_lengths_tgt = (\<lambda>i. 1)(1 := 2, 0 := 2),
       cum_log_probs = (\<lambda>i. - 3)(1 := - 1, 0 := - 3), log_probs = None,
       is_done = (\<lambda>i. False)(0 := True) \<rparr>"

text \<open>
  The same request with a full ledger: slot 0 holds the score -3 and slot 1 the score -1.
\<close>

definition full_beam_hyps :: BeamHypotheses where
  "full_beam_hyps =
     tie_beam_hyps\<lparr> num_beams := Some (\<lambda>i. 2), normed_scores := (\<lambda>i. - 3)(1 := - 1) \<rparr>"

text \<open>
  A request with beam width 2, a diversity rate of 1 and early stopping off (mode 0). The
  ledger holds one hypothesis of score -11/4. Beam 0 proposes the end token with score -1
  (candidate 0) and token 1 with score -5/2 (candidate 1); beam 1 proposes token 1 with
  score -3 (candidate 4), which the diversity term lifts to -2.
\<close>

definition div_beam_hyps :: BeamHypotheses where
  "div_beam_hyps =
     \<lparr> ite = 0, local_batch_size = 1, batch_size = 1, beam_width = 2, vocab_size = 3,
       max_seq_len = 4,
       diversity_rates = (\<lambda>i. 1), length_penalties = (\<lambda>i. 0), early_stoppings = (\<lambda>i. 0),
       input_lengths = (\<lambda>i. 1), sequence_lengths_src = (\<lambda>i. 2), end_ids = (\<lambda>i. 0),
       finished = (\<lambda>i. NotFinished), cum_log_probs_src = (\<lambda>i. 0), log_probs_src = None,
       num_beams = Some (\<lambda>i. 1), min_normed_scores = (\<lambda>i. - 11 / 4),
       normed_scores = (\<lambda>i. - 11 / 4),
       output_ids_tgt = (\<lambda>i. 5), output_ids_tgt_ptr = (\<lambda>b i. 7 + i),
       parent_ids_tgt_ptr = (\<lambda>b i. if i < 4 then 0 else 1),
       sequence_lengths_tgt = (\<lambda>i. 1), cum_log_probs = (\<lambda>i. - 11 / 4), log_probs = None,
       is_done = (\<lambda>i. False) \<rparr>"

definition div_topk_id :: "int \<Rightarrow> int" where
  "div_topk_id i = (if i = 0 then 0 else if i = 1 then 1 else if i = 2 then 2 else if i = 3 then 2
                    else if i = 4 then 4 else 5)"

definition div_topk_val :: "int \<Rightarrow> real" where
  "div_topk_val i = (if i = 0 then - 1 else if i = 1 then - 5 / 2 else if i = 4 then - 3
                     else - 10 - real_of_int i)"

definition div_buf_s :: "int \<Rightarrow> real" where
  "div_buf_s = candidate_elem div_beam_hyps 0 (\<lambda>i. div_topk_val (0 * 8 + i))"

definition div_partial_topk :: "int \<Rightarrow> cub_kvp" where
  "div_partial_topk = thread_partial_topk FLT_MAX 8 32 div_buf_s"

text \<open>The state of that request after the step.\<close>

definition div_result :: BeamHypotheses where
  "div_result =
     \<lparr> ite = 0, local_batch_size = 1, batch_size = 1, beam_width = 2, vocab_size = 3,
       max_seq_len = 4,
       diversity_rates = (\<lambda>i. 1), length_penalties = (\<lambda>i. 0), early_stoppings = (\<lambda>i. 0),
       input_lengths = (\<lambda>i. 1), sequence_lengths_src = (\<lambda>i. 2), end_ids = (\<lambda>i. 0),
       finished = (\<lambda>i. NotFinished), cum_log_probs_src = (\<lambda>i. 0)(0 := - 3, 1 := - 5 / 2),
       log_probs_src = None,
       num_beams = Some ((\<lambda>i. 1)(0 := 2)),
       min_normed_scores = (\<lambda>i. - 11 / 4)(0 := - 11 / 4),
       normed_scores = (\<lambda>i. - 11 / 4)(1 := - 1),
       output_ids_tgt = (\<lambda>i. 5)(6 := 0, 5 := 8, 4 := 7),
       output_ids_tgt_ptr = (\<lambda>b i. 7 + i)(0 := (\<lambda>i. 7 + i)(2 := 4, 6 := 1)),
       parent_ids_tgt_ptr = (\<lambda>b i. if i < 4 then 0 else 1),
       sequence_lengths_tgt = (\<lambda>i. 1)(1 := 2),
       cum_log_probs = (\<lambda>i. - 11 / 4)(1 := - 1), log_probs = None,
       is_done = (\<lambda>i. False)(0 := True) \<rparr>"

subsection \<open>Candidate generation: the softmax and top-k kernels\<close>

text \<open>
  Modelled from the spec: the container \<^verbatim>\<open>TopK<T, MAX_K>\<close> and \<^verbatim>\<open>reduce_topk_op\<close> are
  declared in a header that is not among the sources. According to the specification the
  reduction keeps the top (id, logit) pairs: the container holds \<open>MAX_K\<close> pairs, best
  first. The kernels themselves initialise every entry to the id -1, taken here as the
  mark of an empty entry, and the value \<open>- MAX_T_VAL\<close>. \<open>insert\<close> places a pair before the
  first entry it beats (a smaller value, or an empty entry) and drops the last entry;
  \<open>reduce_topk_op a b\<close> inserts the entries of \<open>b\<close> into \<open>a\<close>.
\<close>

type_synonym TopK = "(int \<times> real) list"

fun TopK_place :: "int \<times> real \<Rightarrow> TopK \<Rightarrow> TopK" where
  "TopK_place e [] = [e]"
| "TopK_place e (x # xs) =
     (if snd e > snd x \<or> fst x = - 1 then e # x # xs else x # TopK_place e xs)"

definition TopK_insert :: "real \<Rightarrow> int \<Rightarrow> TopK \<Rightarrow> TopK" where
  "TopK_insert elem elem_id t = take (length t) (TopK_place (elem_id, elem) t)"

definition reduce_topk_op :: "TopK \<Rightarrow> TopK \<Rightarrow> TopK" where
  "reduce_topk_op a b = fold (\<lambda>e res. TopK_insert (snd e) (fst e) res) b a"

text \<open>\<^verbatim>\<open>TopKMD\<close> and \<^verbatim>\<open>reduce_topk_md_op\<close>.\<close>

type_synonym TopKMD = "MD \<times> TopK"

definition reduce_topk_md_op :: "TopKMD \<Rightarrow> TopKMD \<Rightarrow> TopKMD" where
  "reduce_topk_md_op a b = (reduce_md_op (fst a) (fst b), reduce_topk_op (snd a) (snd b))"

text \<open>
  The logit that the kernels reduce at the token \<open>id\<close> of the beam \<open>vector_id\<close>. For a
  finished beam the logits are not read. \<^verbatim>\<open>beam_online_softmax_topk_kernel\<close> adds the
  bias without a test for \<^verbatim>\<open>nullptr\<close>; the stage-1 kernels take a missing bias as 0.
\<close>

definition topk_elem ::
  "real \<Rightarrow> (int \<Rightarrow> real) \<Rightarrow> (int \<Rightarrow> real) \<Rightarrow> (int \<Rightarrow> FinishedState) \<Rightarrow> int \<Rightarrow> int \<Rightarrow> (int \<Rightarrow> int)
     \<Rightarrow> int \<Rightarrow> int \<Rightarrow> real" where
  "topk_elem MAX_T log_probs bias finished vocab_size K end_ids vector_id =
     (\<lambda>id. if isFinished (finished vector_id)
           then (if id = end_ids (c_div vector_id K) then MAX_T else - MAX_T)
           else log_probs (vector_id * vocab_size + id) + bias id)"
  for log_probs finished vocab_size end_ids


text \<open>
  The partial result of a thread of \<^verbatim>\<open>beam_online_softmax_topk_kernel\<close> and of the base
  stage-1 kernel over the ids it visits.
\<close>

definition thread_partial_topkmd :: "real \<Rightarrow> nat \<Rightarrow> (int \<Rightarrow> real) \<Rightarrow> int list \<Rightarrow> TopKMD" where
  "thread_partial_topkmd MAX_T MAX_K elem ids =
     fold (\<lambda>id partial.
             (reduce_md_op (fst partial) \<lparr> m = elem id, d = 1 \<rparr>,
              TopK_insert (elem id) id (snd partial)))
       ids (\<lparr> m = - MAX_T, d = 0 \<rparr>, replicate MAX_K (- 1, - MAX_T))"

text \<open>
  \<^verbatim>\<open>beam_online_softmax_topk_kernel\<close> for the block \<open>vector_id\<close>: the candidates
  (absolute token id, log-probability) that thread 0 writes for the beam, best first.
\<close>

definition beam_online_softmax_topk_kernel ::
  "bool \<Rightarrow> nat \<Rightarrow> int \<Rightarrow> (int \<Rightarrow> real) \<Rightarrow> (int \<Rightarrow> real) \<Rightarrow> (int \<Rightarrow> real) \<Rightarrow> (int \<Rightarrow> FinishedState)
     \<Rightarrow> int \<Rightarrow> int \<Rightarrow> (int \<Rightarrow> int) \<Rightarrow> int \<Rightarrow> (int \<times> real) list" where
  "beam_online_softmax_topk_kernel is_half MAX_K THREADBLOCK_SIZE log_probs bias cum_log_probs
       finished vocab_size K end_ids vector_id =
     (let MAX_T = MAX_T_VAL is_half;
          elem = topk_elem MAX_T log_probs bias finished vocab_size K end_ids vector_id;
          partial = (\<lambda>thread_id. thread_partial_topkmd MAX_T MAX_K elem
                       (strided thread_id vocab_size THREADBLOCK_SIZE));
          total = BlockReduce reduce_topk_md_op THREADBLOCK_SIZE partial;
          d_total_log = ln (d (fst total))
      in map (\<lambda>e. (fst e + vector_id * vocab_size,
                    snd e - m (fst total) - d_total_log + cum_log_probs vector_id))
           (take (nat K) (snd total)))"
  for log_probs cum_log_probs finished vocab_size end_ids

text \<open>
  \<^verbatim>\<open>beam_online_softmax_topk_stage1_kernel_base\<close> for the block \<open>(vector_id, blockIdx_y)\<close>
  of a grid with \<open>gridDim_y\<close> parts: the packed summary it writes, that is the ids and
  the values of the \<open>2 * K\<close> best tokens of the part, and \<open>d\<close> and \<open>m\<close>.
\<close>

definition beam_online_softmax_topk_stage1_kernel_base ::
  "bool \<Rightarrow> nat \<Rightarrow> int \<Rightarrow> (int \<Rightarrow> real) \<Rightarrow> (int \<Rightarrow> real) option \<Rightarrow> (int \<Rightarrow> FinishedState)
     \<Rightarrow> int \<Rightarrow> int \<Rightarrow> (int \<Rightarrow> int) \<Rightarrow> int \<Rightarrow> int \<Rightarrow> int \<Rightarrow> int list \<times> real list \<times> real \<times> real" where
  "beam_online_softmax_topk_stage1_kernel_base is_half MAX_K2 THREADBLOCK_SIZE log_probs bias
       finished vocab_size K end_ids vector_id blockIdx_y gridDim_y =
     (let MAX_T = MAX_T_VAL is_half;
          v_local = c_div (vocab_size + gridDim_y - 1) gridDim_y;
          section_start = v_local * blockIdx_y;
          section_end = min (section_start + v_local) vocab_size;
          elem = topk_elem MAX_T log_probs (case bias of None \<Rightarrow> (\<lambda>id. 0) | Some b \<Rightarrow> b)
                   finished vocab_size K end_ids vector_id;
          partial = (\<lambda>thread_id. thread_partial_topkmd MAX_T MAX_K2 elem
                       (strided (section_start + thread_id) section_end THREADBLOCK_SIZE));
          total = BlockReduce reduce_topk_md_op THREADBLOCK_SIZE partial;
          candidates = take (nat (2 * K)) (snd total)
      in (map (\<lambda>e. fst e + vector_id * vocab_size) candidates, map snd candidates,
          d (fst total), m (fst total)))"
  for log_probs finished vocab_size end_ids

text \<open>
  The fast stage-1 kernel keeps the logits of its part in shared memory and extracts the
  \<open>2 * K\<close> best by repeated arg-max. The arg-max of a thread over the shared logits:
\<close>

definition stage1_partial_topk ::
  "real \<Rightarrow> int \<Rightarrow> int \<Rightarrow> int \<Rightarrow> (int \<Rightarrow> real) \<Rightarrow> int \<Rightarrow> cub_kvp" where
  "stage1_partial_topk MAX_T vocab_size valid_smem_length THREADBLOCK_SIZE buf_smem_logprobs
       thread_id =
     fold (\<lambda>tid partial_topk. ArgMax partial_topk (tid, buf_smem_logprobs tid))
       (strided thread_id valid_smem_length THREADBLOCK_SIZE) (vocab_size - 1, - MAX_T)"
  for vocab_size

text \<open>
  One round \<open>i\<close> of its extraction. The state is the ids and the values written to
  \<open>buf_s\<close>, the shared logits and the partial results of the threads.
\<close>

definition stage1_round ::
  "real \<Rightarrow> int \<Rightarrow> int \<Rightarrow> int \<Rightarrow> int \<Rightarrow> int \<Rightarrow> int \<Rightarrow> int
     \<Rightarrow> (int \<Rightarrow> int) \<times> (int \<Rightarrow> real) \<times> (int \<Rightarrow> real) \<times> (int \<Rightarrow> cub_kvp)
     \<Rightarrow> (int \<Rightarrow> int) \<times> (int \<Rightarrow> real) \<times> (int \<Rightarrow> real) \<times> (int \<Rightarrow> cub_kvp)" where
  "stage1_round MAX_T vocab_size valid_smem_length THREADBLOCK_SIZE K section_start vector_id i
       st =
     (case st of (buf_s_ids, buf_s_vals, buf_smem_logprobs, partial_topk) \<Rightarrow>
        let total_topk = BlockReduce ArgMax THREADBLOCK_SIZE partial_topk;
            buf_s_ids' = buf_s_ids(i := section_start + fst total_topk + vector_id * vocab_size);
            buf_s_vals' = buf_s_vals(i := snd total_topk);
            buf_smem_logprobs' = buf_smem_logprobs(fst total_topk := - MAX_T);
            thread_requiring_update = c_mod (fst total_topk) THREADBLOCK_SIZE;
            partial_topk' =
              (if i < 2 * K - 1
               then partial_topk(thread_requiring_update :=
                      stage1_partial_topk MAX_T vocab_size valid_smem_length THREADBLOCK_SIZE
                        buf_smem_logprobs' thread_requiring_update)
               else partial_topk)
        in (buf_s_ids', buf_s_vals', buf_smem_logprobs', partial_topk'))"
  for vocab_size

text \<open>
  \<^verbatim>\<open>beam_online_softmax_topk_stage1_kernel_fast\<close> for the block \<open>(vector_id, blockIdx_y)\<close>,
  with the packed summary as for the base kernel. The entries of \<open>buf_s\<close> start as 0 here;
  the kernel writes all the entries that it packs.
\<close>

definition beam_online_softmax_topk_stage1_kernel_fast ::
  "bool \<Rightarrow> int \<Rightarrow> (int \<Rightarrow> real) \<Rightarrow> (int \<Rightarrow> real) option \<Rightarrow> (int \<Rightarrow> FinishedState)
     \<Rightarrow> int \<Rightarrow> int \<Rightarrow> (int \<Rightarrow> int) \<Rightarrow> int \<Rightarrow> int \<Rightarrow> int \<Rightarrow> int list \<times> real list \<times> real \<times> real" where
  "beam_online_softmax_topk_stage1_kernel_fast is_half THREADBLOCK_SIZE log_probs bias finished
       vocab_size K end_ids v_local vector_id blockIdx_y =
     (let MAX_T = MAX_T_VAL is_half;
          section_start = v_local * blockIdx_y;
          section_end = min (section_start + v_local) vocab_size;
          valid_smem_length = section_end - section_start;
          elem = topk_elem MAX_T log_probs (case bias of None \<Rightarrow> (\<lambda>id. 0) | Some b \<Rightarrow> b)
                   finished vocab_size K end_ids vector_id;
          partial_topk = (\<lambda>thread_id.
             fold (\<lambda>id partial_topk. ArgMax partial_topk (id - section_start, elem id))
               (strided (section_start + thread_id) section_end THREADBLOCK_SIZE)
               (vocab_size - 1, - MAX_T));
          partial_md = (\<lambda>thread_id.
             fold (\<lambda>id partial_md. reduce_md_op partial_md \<lparr> m = elem id, d = 1 \<rparr>)
               (strided (section_start + thread_id) section_end THREADBLOCK_SIZE)
               \<lparr> m = - MAX_T, d = 0 \<rparr>);
          buf_smem_logprobs = (\<lambda>smem_index. elem (section_start + smem_index));
          st = fold (stage1_round MAX_T vocab_size valid_smem_length THREADBLOCK_SIZE K
                       section_start vector_id)
                 [0..2 * K - 1] (\<lambda>i. 0, \<lambda>i. 0, buf_smem_logprobs, partial_topk);
          total_md = BlockReduce reduce_md_op THREADBLOCK_SIZE partial_md
      in (map (fst st) [0..2 * K - 1], map (fst (snd st)) [0..2 * K - 1],
          d total_md, m total_md))"
  for log_probs finished vocab_size end_ids


text \<open>
  Two auxiliary notions for the proofs about a finished beam: no entry of a container
  other than the pair \<open>e\<close> reaches the value of \<open>e\<close>, and \<open>e\<close> is its first entry.
\<close>

definition dominated_by :: "int \<times> real \<Rightarrow> TopK \<Rightarrow> bool" where
  "dominated_by e t = (\<forall>x\<in>set t. x = e \<or> snd x < snd e)"

definition led_by :: "int \<times> real \<Rightarrow> TopK \<Rightarrow> bool" where
  "led_by e t = (t \<noteq> [] \<and> hd t = e)"

text \<open>
  The same notion for a state of the extraction of the fast stage-1 kernel, where \<open>k\<close> is
  the index of the end token in the shared logits and \<open>E\<close> the id written for it: only
  the end token has the value \<open>MAX_T\<close>, in the output, in the shared logits and in the
  partial results.
\<close>

definition finished_inv ::
  "real \<Rightarrow> int \<Rightarrow> int
     \<Rightarrow> (int \<Rightarrow> int) \<times> (int \<Rightarrow> real) \<times> (int \<Rightarrow> real) \<times> (int \<Rightarrow> cub_kvp) \<Rightarrow> bool" where
  "finished_inv MAX_T E k st =
     (case st of (buf_s_ids, buf_s_vals, buf_smem_logprobs, partial_topk) \<Rightarrow>
        (\<forall>j. (buf_s_ids j = E \<and> buf_s_vals j = MAX_T) \<or> buf_s_vals j < MAX_T)
        \<and> (\<forall>i. (i = k \<and> buf_smem_logprobs i = MAX_T) \<or> buf_smem_logprobs i < MAX_T)
        \<and> (\<forall>t. partial_topk t = (k, MAX_T) \<or> snd (partial_topk t) < MAX_T))"

section \<open>Properties\<close>

subsection \<open>Length penalty\<close>



subsection \<open>Running softmax normaliser\<close>

text \<open>The quantity \<open>d * exp m\<close> of a state is the sum of exponentials it stands for.\<close>

lemma reduce_md_op_val:
  "d (reduce_md_op a b) * exp (m (reduce_md_op a b)) = d a * exp (m a) + d b * exp (m b)"
proof -
  have "exp (x - y) * exp y = exp x" for x y :: real
    by (simp flip: exp_add)
  then show ?thesis
    by (simp add: reduce_md_op_def Let_def distrib_right mult.assoc)
qed

lemma reduce_md_op_m: "m (reduce_md_op a b) = max (m a) (m b)"
  by (simp add: reduce_md_op_def Let_def max_def)

lemma MD_eqI: "m (x::MD) = m y \<Longrightarrow> d x * exp (m x) = d y * exp (m y) \<Longrightarrow> x = y"
  by (cases x, cases y) simp

lemma reduce_md_op_commute: "reduce_md_op a b = reduce_md_op b a"
proof (rule MD_eqI)
  show "m (reduce_md_op a b) = m (reduce_md_op b a)"
    by (simp add: reduce_md_op_m max.commute)
  show "d (reduce_md_op a b) * exp (m (reduce_md_op a b))
      = d (reduce_md_op b a) * exp (m (reduce_md_op b a))"
    by (simp only: reduce_md_op_val add.commute)
qed

lemma reduce_md_op_assoc:
  "reduce_md_op (reduce_md_op a b) c = reduce_md_op a (reduce_md_op b c)"
proof (rule MD_eqI)
  show "m (reduce_md_op (reduce_md_op a b) c) = m (reduce_md_op a (reduce_md_op b c))"
    by (simp add: reduce_md_op_m max.assoc)
  show "d (reduce_md_op (reduce_md_op a b) c) * exp (m (reduce_md_op (reduce_md_op a b) c))
      = d (reduce_md_op a (reduce_md_op b c)) * exp (m (reduce_md_op a (reduce_md_op b c)))"
    by (simp only: reduce_md_op_val add.assoc)
qed

lemma reduce_md_op_spec:
  "reduce_md_op a b = (if m a > m b then combine_spec b a else combine_spec a b)"
  by (simp add: reduce_md_op_def combine_spec_def Let_def max_def)

lemma foldl_reduce_md_op:
  "m (foldl reduce_md_op a (map md_single xs)) = Max (insert (m a) (set xs)) \<and>
   d (foldl reduce_md_op a (map md_single xs)) * exp (m (foldl reduce_md_op a (map md_single xs)))
     = d a * exp (m a) + (\<Sum>x\<leftarrow>xs. exp x)"
proof (induction xs arbitrary: a)
  case Nil
  show ?case by simp
next
  case (Cons x xs)
  let ?b = "reduce_md_op a (md_single x)"
  have 1: "m ?b = max (m a) x" by (simp add: reduce_md_op_m md_single_def)
  have 2: "d ?b * exp (m ?b) = d a * exp (m a) + exp x"
    by (simp only: reduce_md_op_val) (simp add: md_single_def)
  have 3: "Max (insert (max (m a) x) (set xs)) = Max (insert (m a) (set (x # xs)))"
  proof (cases "xs = []")
    case True then show ?thesis by simp
  next
    case False then show ?thesis by (simp add: max.assoc)
  qed
  let ?r = "foldl reduce_md_op ?b (map md_single xs)"
  from Cons.IH [of ?b] have A: "m ?r = Max (insert (m ?b) (set xs))"
    and B: "d ?r * exp (m ?r) = d ?b * exp (m ?b) + (\<Sum>x\<leftarrow>xs. exp x)"
    by blast+
  have r: "foldl reduce_md_op a (map md_single (x # xs)) = ?r" by simp
  have A': "m ?r = Max (insert (m a) (set (x # xs)))"
    using A 1 3 by simp
  have B': "d ?r * exp (m ?r) = d a * exp (m a) + (\<Sum>x\<leftarrow>x # xs. exp x)"
    using B 2 by simp
  show ?case unfolding r using A' B' by blast
qed

lemma foldl_reduce_md_op_single:
  "m (foldl reduce_md_op (md_single x) (map md_single xs)) = Max (set (x # xs)) \<and>
   d (foldl reduce_md_op (md_single x) (map md_single xs))
     = (\<Sum>y\<leftarrow>x # xs. exp (y - Max (set (x # xs))))"
proof -
  let ?r = "foldl reduce_md_op (md_single x) (map md_single xs)"
  let ?M = "Max (set (x # xs))"
  have s: "m (md_single x) = x" "d (md_single x) = 1"
    by (simp_all add: md_single_def)
  from foldl_reduce_md_op [of "md_single x" xs]
  have A0: "m ?r = Max (insert x (set xs))"
    and B0: "d ?r * exp (m ?r) = 1 * exp x + (\<Sum>y\<leftarrow>xs. exp y)"
    unfolding s by blast+
  have A: "m ?r = ?M"
    using A0 by simp
  have B: "d ?r * exp (m ?r) = (\<Sum>y\<leftarrow>x # xs. exp y)"
    unfolding B0 by simp
  have expand: "c = (c * exp M) * exp (- M)" for c M :: real
    by (simp add: mult.assoc flip: exp_add)
  have shift: "exp y * exp (- M) = exp (y - M)" for y M :: real
    by (simp flip: exp_add)
  have "d ?r = (d ?r * exp (m ?r)) * exp (- m ?r)"
    by (rule expand)
  also have "\<dots> = (\<Sum>y\<leftarrow>x # xs. exp y) * exp (- m ?r)"
    by (simp only: B)
  also have "\<dots> = (\<Sum>y\<leftarrow>x # xs. exp y * exp (- m ?r))"
    by (simp only: sum_list_mult_const)
  also have "\<dots> = (\<Sum>y\<leftarrow>x # xs. exp (y - m ?r))"
    by (simp only: shift)
  also have "\<dots> = (\<Sum>y\<leftarrow>x # xs. exp (y - ?M))"
    by (simp only: A)
  finally show ?thesis using A by blast
qed

text \<open>
  C4 (as amended). The combine operation of the code takes the state with the larger
  maximum as its base, \<open>d = d_big + d_small * exp (m_small - m_big)\<close>; it is the formula of
  the specification with the arguments ordered by their maxima. Over the reals it is
  commutative and associative, and folding it over singleton states gives the maximum
  and the sum of the exponentials relative to that maximum, whatever the order.
\<close>

theorem reduce_md_op_fold_order:
  "reduce_md_op a b = (if m a > m b then combine_spec b a else combine_spec a b)
   \<and> reduce_md_op a b = reduce_md_op b a
   \<and> reduce_md_op (reduce_md_op a b) c = reduce_md_op a (reduce_md_op b c)
   \<and> m (foldl reduce_md_op (md_single x) (map md_single xs)) = Max (set (x # xs))
   \<and> d (foldl reduce_md_op (md_single x) (map md_single xs))
       = (\<Sum>y\<leftarrow>x # xs. exp (y - Max (set (x # xs))))"
  using reduce_md_op_spec [of a b] reduce_md_op_commute [of a b] reduce_md_op_assoc [of a b c]
    foldl_reduce_md_op_single [of x xs]
  by blast

text \<open>
  The formula as the specification writes it is not what the code computes when the first
  state has the larger maximum, and is not commutative itself.
\<close>

theorem combine_spec_counterexample:
  "reduce_md_op \<lparr>m = 1, d = 1\<rparr> \<lparr>m = 0, d = 1\<rparr> \<noteq> combine_spec \<lparr>m = 1, d = 1\<rparr> \<lparr>m = 0, d = 1\<rparr>
   \<and> combine_spec \<lparr>m = 1, d = 1\<rparr> \<lparr>m = 0, d = 1\<rparr> \<noteq> combine_spec \<lparr>m = 0, d = 1\<rparr> \<lparr>m = 1, d = 1\<rparr>"
  by (simp add: reduce_md_op_def combine_spec_def)

subsection \<open>Dispatch on the beam width\<close>

lemma log_loop_small: "0 \<le> r \<Longrightarrow> r < 2 \<Longrightarrow> log_loop r l = Some l"
  by (subst log_loop.simps) (simp add: Let_def)

lemma log_loop_step: "2 \<le> r \<Longrightarrow> log_loop r l = log_loop (r div 2) (l + 1)"
proof -
  assume "2 \<le> r"
  then have "r div 2 \<noteq> 0" by linarith
  then show ?thesis by (subst log_loop.simps) (simp add: Let_def)
qed

lemma log_loop_bounds:
  "0 \<le> r \<Longrightarrow> \<exists>k. log_loop r l = Some (l + int k) \<and> (r < 2 \<longrightarrow> k = 0) \<and> (2 \<le> r \<longrightarrow> 2 ^ k \<le> r \<and> r < 2 ^ (k + 1))"
proof (induction "nat r" arbitrary: r l rule: less_induct)
  case less
  show ?case
  proof (cases "r < 2")
    case True
    with less.prems show ?thesis by (intro exI [of _ 0]) (simp add: log_loop_small)
  next
    case False
    then have r2: "2 \<le> r" by simp
    then have "nat (r div 2) < nat r" "0 \<le> r div 2" by linarith+
    from less.hyps [OF this, of "l + 1"] obtain k where
      k: "log_loop (r div 2) (l + 1) = Some (l + 1 + int k)"
        "r div 2 < 2 \<longrightarrow> k = 0" "2 \<le> r div 2 \<longrightarrow> 2 ^ k \<le> r div 2 \<and> r div 2 < 2 ^ (k + 1)"
      by blast
    have "2 ^ (k + 1) \<le> r \<and> r < 2 ^ (k + 1 + 1)"
    proof (cases "r div 2 < 2")
      case True
      with k(2) r2 show ?thesis by simp
    next
      case False
      with k(3) have "2 ^ k \<le> r div 2" "r div 2 < 2 ^ (k + 1)" by simp_all
      then show ?thesis by simp linarith
    qed
    with k(1) r2 show ?thesis
      by (intro exI [of _ "k + 1"]) (simp add: log_loop_step)
  qed
qed


lemma log_loop_large:
  assumes "2 ^ n \<le> r"
  shows "\<exists>k. log_loop r 0 = Some (int k) \<and> n \<le> k"
proof -
  have r0: "0 \<le> r" using assms by (smt (verit) zero_le_power)
  from log_loop_bounds [OF r0, of 0] obtain k where
    k: "log_loop r 0 = Some (int k)" "r < 2 \<longrightarrow> k = 0" "2 \<le> r \<longrightarrow> 2 ^ k \<le> r \<and> r < 2 ^ (k + 1)"
    by auto
  show ?thesis
  proof (cases "r < 2")
    case True
    with assms have "(2::int) ^ n < 2 ^ 1" by simp
    then have "n < 1" by (rule power_less_imp_less_exp [rotated]) simp
    with k(1) show ?thesis by auto
  next
    case False
    with k(3) assms have "(2::int) ^ n < 2 ^ (k + 1)" by simp
    then have "n < k + 1" by (rule power_less_imp_less_exp [rotated]) simp
    with k(1) show ?thesis by auto
  qed
qed

lemma log_loop_below:
  assumes "0 \<le> r" "r < 2 ^ (Suc n)"
  shows "\<exists>k. log_loop r 0 = Some (int k) \<and> k \<le> n \<and> r < 2 ^ (Suc k) \<and> (k = 0 \<longrightarrow> r < 4)"
proof -
  from log_loop_bounds [OF assms(1), of 0] obtain k where
    k: "log_loop r 0 = Some (int k)" "r < 2 \<longrightarrow> k = 0" "2 \<le> r \<longrightarrow> 2 ^ k \<le> r \<and> r < 2 ^ (k + 1)"
    by auto
  show ?thesis
  proof (cases "r < 2")
    case True
    with k show ?thesis by auto
  next
    case False
    with k(3) assms have "(2::int) ^ k < 2 ^ (Suc n)" by simp
    then have "k < Suc n" by (rule power_less_imp_less_exp [rotated]) simp
    with k False show ?thesis by auto
  qed
qed

lemma CASE_K_large: "6 \<le> l \<Longrightarrow> CASE_K fb bw l = Inl (Unsupported_beam_width bw)"
  by (simp add: CASE_K_def)

lemma CASE_K_fast_large: "3 \<le> l \<Longrightarrow> CASE_K True bw l = Inl (Unsupported_beam_width bw)"
  by (simp add: CASE_K_def)

lemma CASE_K_capacity:
  assumes "k \<le> 5" "bw \<le> 2 ^ (Suc k)" "k = 0 \<longrightarrow> bw \<le> 4"
  shows "\<exists>MAX_K. CASE_K False bw (int k) = Inr MAX_K \<and> bw \<le> MAX_K"
proof -
  from assms(1) consider "k = 0" | "k = 1" | "k = 2" | "k = 3" | "k = 4" | "k = 5" by linarith
  then show ?thesis using assms(2,3) by cases (simp_all add: CASE_K_def)
qed

lemma CASE_K_fast_capacity:
  assumes "k \<le> 2" "bw \<le> 2 ^ (Suc k)" "k = 0 \<longrightarrow> bw \<le> 4"
  shows "\<exists>MAX_K. CASE_K True bw (int k) = Inr MAX_K \<and> bw \<le> MAX_K"
proof -
  from assms(1) consider "k = 0" | "k = 1" | "k = 2" by linarith
  then show ?thesis using assms(2,3) by cases (simp_all add: CASE_K_def)
qed

text \<open>
  C5. A beam width above the compiled maximum (64, or 8 in the fast build) makes
  \<^verbatim>\<open>invokeTopkSoftMax\<close> throw an error that carries the beam width, and no launcher is
  called; a beam width within the range is dispatched to a launcher whose \<^verbatim>\<open>MAX_K\<close> is
  at least the beam width. A top-k value above the supported maximum of 1024, such as
  1025, raises an error.
\<close>

theorem invokeTopkSoftMax_dispatch:
  "(64 < bw \<longrightarrow> invokeTopkSoftMax False bw = Some (Inl (Unsupported_beam_width bw)))
   \<and> (8 < bw \<longrightarrow> invokeTopkSoftMax True bw = Some (Inl (Unsupported_beam_width bw)))
   \<and> (1 \<le> bw \<and> bw \<le> 64 \<longrightarrow>
        (\<exists>MAX_K. invokeTopkSoftMax False bw = Some (Inr MAX_K) \<and> bw \<le> MAX_K))
   \<and> (1 \<le> bw \<and> bw \<le> 8 \<longrightarrow>
        (\<exists>MAX_K. invokeTopkSoftMax True bw = Some (Inr MAX_K) \<and> bw \<le> MAX_K))
   \<and> (max_supported_top_k < top_k \<longrightarrow>
        invokeBatchTopKSampling_check top_k = Inl (Unsupported_top_k top_k))
   \<and> invokeBatchTopKSampling_check 1025 = Inl (Unsupported_top_k 1025)"
proof (intro conjI impI)
  assume "64 < bw"
  then have "2 ^ 6 \<le> bw - 1" by simp
  from log_loop_large [OF this] obtain k where "log_loop (bw - 1) 0 = Some (int k)" "6 \<le> k"
    by blast
  then show "invokeTopkSoftMax False bw = Some (Inl (Unsupported_beam_width bw))"
    by (simp add: invokeTopkSoftMax_def CASE_K_large)
next
  assume "8 < bw"
  then have "2 ^ 3 \<le> bw - 1" by simp
  from log_loop_large [OF this] obtain k where "log_loop (bw - 1) 0 = Some (int k)" "3 \<le> k"
    by blast
  then show "invokeTopkSoftMax True bw = Some (Inl (Unsupported_beam_width bw))"
    by (simp add: invokeTopkSoftMax_def CASE_K_fast_large)
next
  assume "1 \<le> bw \<and> bw \<le> 64"
  then have "0 \<le> bw - 1" "bw - 1 < 2 ^ (Suc 5)" by simp_all
  from log_loop_below [OF this] obtain k where
    k: "log_loop (bw - 1) 0 = Some (int k)" "k \<le> 5" "bw - 1 < 2 ^ (Suc k)" "k = 0 \<longrightarrow> bw - 1 < 4"
    by blast
  from k(3,4) have "bw \<le> 2 ^ (Suc k)" "k = 0 \<longrightarrow> bw \<le> 4" by auto
  from CASE_K_capacity [OF k(2) this] k(1)
  show "\<exists>MAX_K. invokeTopkSoftMax False bw = Some (Inr MAX_K) \<and> bw \<le> MAX_K"
    by (simp add: invokeTopkSoftMax_def)
next
  assume "1 \<le> bw \<and> bw \<le> 8"
  then have "0 \<le> bw - 1" "bw - 1 < 2 ^ (Suc 2)" by simp_all
  from log_loop_below [OF this] obtain k where
    k: "log_loop (bw - 1) 0 = Some (int k)" "k \<le> 2" "bw - 1 < 2 ^ (Suc k)" "k = 0 \<longrightarrow> bw - 1 < 4"
    by blast
  from k(3,4) have "bw \<le> 2 ^ (Suc k)" "k = 0 \<longrightarrow> bw \<le> 4" by auto
  from CASE_K_fast_capacity [OF k(2) this] k(1)
  show "\<exists>MAX_K. invokeTopkSoftMax True bw = Some (Inr MAX_K) \<and> bw \<le> MAX_K"
    by (simp add: invokeTopkSoftMax_def)
next
  assume "max_supported_top_k < top_k"
  then show "invokeBatchTopKSampling_check top_k = Inl (Unsupported_top_k top_k)"
    by (simp add: invokeBatchTopKSampling_check_def)
next
  show "invokeBatchTopKSampling_check 1025 = Inl (Unsupported_top_k 1025)"
    by (simp add: invokeBatchTopKSampling_check_def max_supported_top_k_def)
qed

theorem invokeTopkSoftMax_dispatch_witness:
  "invokeTopkSoftMax False 65 = Some (Inl (Unsupported_beam_width 65))
   \<and> invokeTopkSoftMax True 9 = Some (Inl (Unsupported_beam_width 9))
   \<and> (\<exists>MAX_K. invokeTopkSoftMax False 64 = Some (Inr MAX_K) \<and> 64 \<le> MAX_K)
   \<and> (\<exists>MAX_K. invokeTopkSoftMax True 5 = Some (Inr MAX_K) \<and> 5 \<le> MAX_K)
   \<and> invokeBatchTopKSampling_check 1025 = Inl (Unsupported_top_k 1025)"
  using invokeTopkSoftMax_dispatch [of 65 1025] invokeTopkSoftMax_dispatch [of 9 1025]
    invokeTopkSoftMax_dispatch [of 64 1025] invokeTopkSoftMax_dispatch [of 5 1025]
  by (simp add: max_supported_top_k_def)

subsection \<open>Peer access\<close>

lemma body_ok:
  assumes "last_error = cudaSuccess"
  shows "setPeerAccess_body rt src enable dest last_error =
    (if dest = src then Inr cudaSuccess
     else if cudaDeviceCanAccessPeer rt src dest \<noteq> cudaSuccess
       then Inl (TllmException (cudaDeviceCanAccessPeer rt src dest))
     else if benign (peer_status rt enable dest) then Inr cudaSuccess
     else Inl (TllmException (peer_status rt enable dest)))"
  using assms
  by (auto simp: setPeerAccess_body_def TLLM_CUDA_CHECK_def record_error_def benign_def
      peer_status_def Let_def)

lemma loop_ok:
  "setPeerAccess_loop rt src enable ds cudaSuccess =
    (case List.find (\<lambda>dest. dest \<noteq> src \<and> (cudaDeviceCanAccessPeer rt src dest \<noteq> cudaSuccess
                      \<or> \<not> benign (peer_status rt enable dest))) ds of
       None \<Rightarrow> Inr cudaSuccess
     | Some dest \<Rightarrow>
         Inl (TllmException (if cudaDeviceCanAccessPeer rt src dest \<noteq> cudaSuccess
                             then cudaDeviceCanAccessPeer rt src dest
                             else peer_status rt enable dest)))"
  by (induction ds) (simp_all add: body_ok)


text \<open>
  C8. In the configuration of peer access, the status "already enabled" of an enable call
  and the status "not enabled" of a disable call are swallowed: the round for that pair
  does not raise. Every status other than success and these two raises an exception that
  carries it, and the whole configuration raises exactly when some pair of distinct
  devices has such a status.
\<close>

theorem setPeerAccess_swallows_benign:
  "(destNode \<noteq> srcNode \<and> cudaDeviceCanAccessPeer rt srcNode destNode = cudaSuccess
      \<and> cudaDeviceEnablePeerAccess rt destNode = cudaErrorPeerAccessAlreadyEnabled
     \<longrightarrow> setPeerAccess_body rt srcNode True destNode cudaSuccess = Inr cudaSuccess)
   \<and> (destNode \<noteq> srcNode \<and> cudaDeviceCanAccessPeer rt srcNode destNode = cudaSuccess
      \<and> cudaDeviceDisablePeerAccess rt destNode = cudaErrorPeerAccessNotEnabled
     \<longrightarrow> setPeerAccess_body rt srcNode False destNode cudaSuccess = Inr cudaSuccess)
   \<and> (destNode \<noteq> srcNode \<and> cudaDeviceCanAccessPeer rt srcNode destNode = cudaSuccess
      \<and> \<not> benign (peer_status rt enable destNode)
     \<longrightarrow> setPeerAccess_body rt srcNode enable destNode cudaSuccess
           = Inl (TllmException (peer_status rt enable destNode)))
   \<and> ((\<exists>e. setPeerAccess rt srcNode tp enable cudaSuccess = Inl e)
        \<longleftrightarrow> (\<exists>dest<tp. dest \<noteq> srcNode
               \<and> (cudaDeviceCanAccessPeer rt srcNode dest \<noteq> cudaSuccess
                    \<or> \<not> benign (peer_status rt enable dest))))"
proof (intro conjI impI)
  assume "destNode \<noteq> srcNode \<and> cudaDeviceCanAccessPeer rt srcNode destNode = cudaSuccess
      \<and> cudaDeviceEnablePeerAccess rt destNode = cudaErrorPeerAccessAlreadyEnabled"
  then show "setPeerAccess_body rt srcNode True destNode cudaSuccess = Inr cudaSuccess"
    by (simp add: body_ok benign_def peer_status_def)
next
  assume "destNode \<noteq> srcNode \<and> cudaDeviceCanAccessPeer rt srcNode destNode = cudaSuccess
      \<and> cudaDeviceDisablePeerAccess rt destNode = cudaErrorPeerAccessNotEnabled"
  then show "setPeerAccess_body rt srcNode False destNode cudaSuccess = Inr cudaSuccess"
    by (simp add: body_ok benign_def peer_status_def)
next
  assume "destNode \<noteq> srcNode \<and> cudaDeviceCanAccessPeer rt srcNode destNode = cudaSuccess
      \<and> \<not> benign (peer_status rt enable destNode)"
  then show "setPeerAccess_body rt srcNode enable destNode cudaSuccess
           = Inl (TllmException (peer_status rt enable destNode))"
    by (simp add: body_ok)
next
  let ?bad = "\<lambda>dest. dest \<noteq> srcNode \<and> (cudaDeviceCanAccessPeer rt srcNode dest \<noteq> cudaSuccess
                      \<or> \<not> benign (peer_status rt enable dest))"
  have "(\<exists>e. setPeerAccess rt srcNode tp enable cudaSuccess = Inl e)
          \<longleftrightarrow> List.find ?bad [0..<tp] \<noteq> None"
    unfolding setPeerAccess_def loop_ok by (simp split: option.split)
  also have "\<dots> \<longleftrightarrow> (\<exists>dest<tp. ?bad dest)"
    by (auto simp: find_None_iff)
  finally show "(\<exists>e. setPeerAccess rt srcNode tp enable cudaSuccess = Inl e)
        \<longleftrightarrow> (\<exists>dest<tp. ?bad dest)" .
qed

theorem setPeerAccess_swallows_benign_witness:
  "setPeerAccess_body (example_peer_runtime cudaErrorPeerAccessAlreadyEnabled) 0 True 1 cudaSuccess
     = Inr cudaSuccess
   \<and> setPeerAccess_body (example_peer_runtime cudaErrorPeerAccessNotEnabled) 0 False 1 cudaSuccess
     = Inr cudaSuccess
   \<and> setPeerAccess_body (example_peer_runtime (cudaErrorOther 217)) 0 True 1 cudaSuccess
     = Inl (TllmException (cudaErrorOther 217))
   \<and> (\<exists>e. setPeerAccess (example_peer_runtime (cudaErrorOther 217)) 0 3 True cudaSuccess = Inl e)
   \<and> \<not> (\<exists>e. setPeerAccess (example_peer_runtime cudaErrorPeerAccessAlreadyEnabled) 0 3 True
            cudaSuccess = Inl e)"
proof -
  have a: "1 < (3::nat)" by simp
  note A = setPeerAccess_swallows_benign
    [of 1 0 "example_peer_runtime cudaErrorPeerAccessAlreadyEnabled" True 3]
  note B = setPeerAccess_swallows_benign
    [of 1 0 "example_peer_runtime cudaErrorPeerAccessNotEnabled" False 3]
  note C = setPeerAccess_swallows_benign
    [of 1 0 "example_peer_runtime (cudaErrorOther 217)" True 3]
  have 1: "setPeerAccess_body (example_peer_runtime cudaErrorPeerAccessAlreadyEnabled) 0 True 1
      cudaSuccess = Inr cudaSuccess"
    using A by (simp add: example_peer_runtime_def)
  have 2: "setPeerAccess_body (example_peer_runtime cudaErrorPeerAccessNotEnabled) 0 False 1
      cudaSuccess = Inr cudaSuccess"
    using B by (simp add: example_peer_runtime_def)
  have 3: "setPeerAccess_body (example_peer_runtime (cudaErrorOther 217)) 0 True 1 cudaSuccess
     = Inl (TllmException (cudaErrorOther 217))"
    using C by (simp add: example_peer_runtime_def benign_def peer_status_def)
  have "\<exists>dest<3. dest \<noteq> (0::nat) \<and>
      (cudaDeviceCanAccessPeer (example_peer_runtime (cudaErrorOther 217)) 0 dest \<noteq> cudaSuccess
        \<or> \<not> benign (peer_status (example_peer_runtime (cudaErrorOther 217)) True dest))"
    by (rule exI [of _ 1]) (simp add: example_peer_runtime_def benign_def peer_status_def)
  with C have 4: "\<exists>e. setPeerAccess (example_peer_runtime (cudaErrorOther 217)) 0 3 True
      cudaSuccess = Inl e"
    by blast
  have "\<not> (\<exists>dest<3. dest \<noteq> (0::nat) \<and>
      (cudaDeviceCanAccessPeer (example_peer_runtime cudaErrorPeerAccessAlreadyEnabled) 0 dest
          \<noteq> cudaSuccess
        \<or> \<not> benign (peer_status (example_peer_runtime cudaErrorPeerAccessAlreadyEnabled) True dest)))"
    by (simp add: example_peer_runtime_def benign_def peer_status_def)
  with A have 5: "\<not> (\<exists>e. setPeerAccess (example_peer_runtime cudaErrorPeerAccessAlreadyEnabled) 0 3
      True cudaSuccess = Inl e)"
    by blast
  from 1 2 3 4 5 show ?thesis by blast
qed

subsection \<open>Peer memory\<close>

lemma allocateIpcMemory_loop_ok:
  assumes "\<forall>j\<in>set ids. j \<noteq> tpRank \<longrightarrow> fst (cudaIpcOpenMemHandle rt (handles j)) = cudaSuccess"
  shows "allocateIpcMemory_loop rt tpRank bufferPtr handles ids commPtrs =
    Inr (fold (\<lambda>j ps. ps[j := (if j = tpRank then bufferPtr
                                else snd (cudaIpcOpenMemHandle rt (handles j)))]) ids commPtrs)"
  using assms
  by (induction ids arbitrary: commPtrs)
    (auto simp: TLLM_CUDA_CHECK_def split: prod.splits)

lemma fold_update_length:
  "length (fold (\<lambda>j ps. ps[j := f j]) ids ps) = length ps"
  by (induction ids arbitrary: ps) simp_all

lemma fold_update_nth:
  "j < length ps \<Longrightarrow>
   fold (\<lambda>j ps. ps[j := f j]) ids ps ! j = (if j \<in> set ids then f j else ps ! j)"
  by (induction ids arbitrary: ps) (auto simp: nth_list_update)

lemma destroyIpcMemory_loop_ok:
  assumes "\<forall>j\<in>set ids. j \<noteq> mTpRank mem \<longrightarrow> cudaIpcCloseMemHandle rt (mCommPtrs mem ! j) = cudaSuccess"
  shows "destroyIpcMemory_loop rt mem ids closedPtrs =
    (closedPtrs @ map (\<lambda>j. mCommPtrs mem ! j) (filter (\<lambda>j. j \<noteq> mTpRank mem) ids), None)"
  using assms
  by (induction ids arbitrary: closedPtrs) (auto simp: TLLM_CUDA_CHECK_def)

lemma length_filter_neq_upt:
  "length (filter (\<lambda>j. j \<noteq> r) [0..<n]) = (if r < n then n - 1 else n)"
  by (induction n) auto

text \<open>
  C7. In a group of \<open>tp\<close> participants whose handle imports succeed, the peer-pointer
  array of participant \<open>tpRank\<close> has exactly \<open>tp\<close> entries after setup; its own entry
  is the pointer of its local allocation and every other entry is the mapping that
  opening the exchanged handle of that rank returned. At teardown, when the runtime
  closes without error, exactly the \<open>tp - 1\<close> entries other than its own are closed, in
  order, and the local allocation is not among the closed entries' indices.
\<close>

theorem ipc_memory_setup_teardown:
  assumes rank: "tpRank < tp"
    and export: "fst (cudaIpcGetMemHandle rt (gpuSync rt bufferSize)) = cudaSuccess"
    and opens: "\<forall>j<tp. j \<noteq> tpRank \<longrightarrow>
        fst (cudaIpcOpenMemHandle rt
          (allgather rt (snd (cudaIpcGetMemHandle rt (gpuSync rt bufferSize))) j)) = cudaSuccess"
  shows "\<exists>mem. allocateIpcMemory rt bufferSize tpRank tp = Inr mem
      \<and> length (mCommPtrs mem) = tp
      \<and> mCommPtrs mem ! tpRank = gpuSync rt bufferSize
      \<and> mBuffer mem = gpuSync rt bufferSize
      \<and> (\<forall>j<tp. j \<noteq> tpRank \<longrightarrow>
            mCommPtrs mem ! j = snd (cudaIpcOpenMemHandle rt
              (allgather rt (snd (cudaIpcGetMemHandle rt (gpuSync rt bufferSize))) j)))
      \<and> ((\<forall>j<tp. j \<noteq> tpRank \<longrightarrow> cudaIpcCloseMemHandle rt (mCommPtrs mem ! j) = cudaSuccess)
           \<longrightarrow> destroyIpcMemory rt mem
                 = (map (\<lambda>j. mCommPtrs mem ! j) (filter (\<lambda>j. j \<noteq> tpRank) [0..<tp]), None)
               \<and> length (fst (destroyIpcMemory rt mem)) = tp - 1)"
proof -
  let ?buf = "gpuSync rt bufferSize"
  let ?handles = "allgather rt (snd (cudaIpcGetMemHandle rt ?buf))"
  let ?f = "\<lambda>j. if j = tpRank then ?buf else snd (cudaIpcOpenMemHandle rt (?handles j))"
  let ?ptrs = "fold (\<lambda>j ps. ps[j := ?f j]) [0..<tp] (replicate tp 0)"
  let ?mem = "\<lparr> mTpRank = tpRank, mBuffer = ?buf, mCommPtrs = ?ptrs \<rparr>"
  from opens have "\<forall>j\<in>set [0..<tp]. j \<noteq> tpRank \<longrightarrow>
      fst (cudaIpcOpenMemHandle rt (?handles j)) = cudaSuccess"
    by simp
  from allocateIpcMemory_loop_ok [OF this]
  have loop: "allocateIpcMemory_loop rt tpRank ?buf ?handles [0..<tp] (replicate tp 0) = Inr ?ptrs" .
  have alloc: "allocateIpcMemory rt bufferSize tpRank tp = Inr ?mem"
    using export loop
    by (simp add: allocateIpcMemory_def Let_def TLLM_CUDA_CHECK_def case_prod_beta)
  have len: "length ?ptrs = tp"
    by (simp add: fold_update_length)
  have nth: "?ptrs ! j = ?f j" if "j < tp" for j
    using that fold_update_nth [of j "replicate tp 0" ?f "[0..<tp]"] by simp
  have own: "?ptrs ! tpRank = ?buf"
    using nth [OF rank] by simp
  have others: "\<forall>j<tp. j \<noteq> tpRank \<longrightarrow>
      ?ptrs ! j = snd (cudaIpcOpenMemHandle rt (?handles j))"
    using nth by simp
  have teardown: "destroyIpcMemory rt ?mem
        = (map (\<lambda>j. ?ptrs ! j) (filter (\<lambda>j. j \<noteq> tpRank) [0..<tp]), None)
      \<and> length (fst (destroyIpcMemory rt ?mem)) = tp - 1"
    if closes: "\<forall>j<tp. j \<noteq> tpRank \<longrightarrow> cudaIpcCloseMemHandle rt (?ptrs ! j) = cudaSuccess"
  proof -
    from closes have "\<forall>j\<in>set [0..<tp]. j \<noteq> mTpRank ?mem \<longrightarrow>
        cudaIpcCloseMemHandle rt (mCommPtrs ?mem ! j) = cudaSuccess"
      by simp
    from destroyIpcMemory_loop_ok [OF this, of "[]"]
    have d: "destroyIpcMemory rt ?mem
        = (map (\<lambda>j. ?ptrs ! j) (filter (\<lambda>j. j \<noteq> tpRank) [0..<tp]), None)"
      by (simp add: destroyIpcMemory_def len)
    show ?thesis
      unfolding d using rank by (simp add: length_filter_neq_upt)
  qed
  have sel: "mCommPtrs ?mem = ?ptrs" "mBuffer ?mem = ?buf"
    by simp_all
  show ?thesis
  proof (rule exI [of _ ?mem], unfold sel, intro conjI)
    show "allocateIpcMemory rt bufferSize tpRank tp = Inr ?mem" by (rule alloc)
    show "length ?ptrs = tp" by (rule len)
    show "?ptrs ! tpRank = ?buf" by (rule own)
    show "?buf = ?buf" by (rule refl)
    show "\<forall>j<tp. j \<noteq> tpRank \<longrightarrow> ?ptrs ! j = snd (cudaIpcOpenMemHandle rt (?handles j))"
      by (rule others)
    show "(\<forall>j<tp. j \<noteq> tpRank \<longrightarrow> cudaIpcCloseMemHandle rt (?ptrs ! j) = cudaSuccess)
           \<longrightarrow> destroyIpcMemory rt ?mem
                 = (map (\<lambda>j. ?ptrs ! j) (filter (\<lambda>j. j \<noteq> tpRank) [0..<tp]), None)
               \<and> length (fst (destroyIpcMemory rt ?mem)) = tp - 1"
      using teardown by blast
  qed
qed

theorem ipc_memory_setup_teardown_witness:
  "(\<exists>mem. allocateIpcMemory example_ipc_runtime 64 1 3 = Inr mem
      \<and> mCommPtrs mem = [210, 100, 212]
      \<and> destroyIpcMemory example_ipc_runtime mem = ([210, 212], None))"
proof -
  have rank: "(1::nat) < 3" by simp
  have export: "fst (cudaIpcGetMemHandle example_ipc_runtime (gpuSync example_ipc_runtime 64))
      = cudaSuccess"
    by (simp add: example_ipc_runtime_def)
  have opens: "\<forall>j<3. j \<noteq> (1::nat) \<longrightarrow>
        fst (cudaIpcOpenMemHandle example_ipc_runtime
          (allgather example_ipc_runtime
             (snd (cudaIpcGetMemHandle example_ipc_runtime (gpuSync example_ipc_runtime 64))) j))
        = cudaSuccess"
    by (simp add: example_ipc_runtime_def)
  from ipc_memory_setup_teardown [OF rank export opens] obtain mem where
    mem: "allocateIpcMemory example_ipc_runtime 64 1 3 = Inr mem"
      "(\<forall>j<3. j \<noteq> 1 \<longrightarrow> cudaIpcCloseMemHandle example_ipc_runtime (mCommPtrs mem ! j) = cudaSuccess)
        \<longrightarrow> destroyIpcMemory example_ipc_runtime mem
              = (map (\<lambda>j. mCommPtrs mem ! j) (filter (\<lambda>j. j \<noteq> 1) [0..<3]), None)"
    by blast
  have "allocateIpcMemory example_ipc_runtime 64 1 3
      = Inr \<lparr> mTpRank = 1, mBuffer = 100, mCommPtrs = [210, 100, 212] \<rparr>"
    by (simp add: allocateIpcMemory_def example_ipc_runtime_def TLLM_CUDA_CHECK_def
        upt_rec numeral_3_eq_3)
  with mem(1) have ptrs: "mCommPtrs mem = [210, 100, 212]" by auto
  have "\<forall>j<3. j \<noteq> 1 \<longrightarrow> cudaIpcCloseMemHandle example_ipc_runtime (mCommPtrs mem ! j) = cudaSuccess"
    by (simp add: example_ipc_runtime_def)
  with mem(2) have "destroyIpcMemory example_ipc_runtime mem
      = (map (\<lambda>j. mCommPtrs mem ! j) (filter (\<lambda>j. j \<noteq> 1) [0..<3]), None)"
    by blast
  then have "destroyIpcMemory example_ipc_runtime mem = ([210, 212], None)"
    by (simp add: ptrs upt_rec numeral_3_eq_3)
  with mem(1) ptrs show ?thesis by blast
qed

subsection \<open>Hypothesis selection\<close>

text \<open>What the parts of the loop body leave as it is.\<close>

lemma copy_beam_frame:
  assumes "\<And>bh x. F (bh\<lparr>output_ids_tgt := x\<rparr>) = F bh"
    and "\<And>bh x. F (bh\<lparr>log_probs := x\<rparr>) = F bh"
  shows "F (snd (copy_beam vector_id K tgt_id_offset j (prev_id, beam_hyps))) = F beam_hyps"
proof (induction vector_id K tgt_id_offset j "(prev_id, beam_hyps)"
    arbitrary: prev_id beam_hyps rule: copy_beam.induct)
  case (1 vector_id K tgt_id_offset j prev_id beam_hyps)
  show ?case
  proof (cases "j \<ge> 0")
    case False
    then show ?thesis by (subst copy_beam.simps) simp
  next
    case True
    show ?thesis
      apply (subst copy_beam.simps)
      apply (simp only: True if_True Let_def)
      apply (subst "1" [OF True refl refl refl refl])
      apply (simp add: assms)
      done
  qed
qed

lemma fold_min_frame:
  assumes "\<And>bh x. F (bh\<lparr>min_normed_scores := x\<rparr>) = F bh"
  shows "F (fold (\<lambda>l bh. bh\<lparr> min_normed_scores := (min_normed_scores bh)
                    (g := min (min_normed_scores bh g) (normed_scores bh (b + l))) \<rparr>) ls beam_hyps)
         = F beam_hyps"
  by (induction ls arbitrary: beam_hyps) (simp_all add: assms)

lemma fold_min_value:
  assumes "normed_scores beam_hyps = ns"
  shows "min_normed_scores (fold (\<lambda>l bh. bh\<lparr> min_normed_scores := (min_normed_scores bh)
                    (g := min (min_normed_scores bh g) (normed_scores bh (b + l))) \<rparr>) ls beam_hyps) g
   = fold (\<lambda>l acc. min acc (ns (b + l))) ls (min_normed_scores beam_hyps g)"
  using assms
proof (induction ls arbitrary: beam_hyps)
  case Nil
  show ?case by simp
next
  case (Cons l ls)
  let ?F = "\<lambda>l bh. bh\<lparr> min_normed_scores := (min_normed_scores bh)
                    (g := min (min_normed_scores bh g) (normed_scores bh (b + l))) \<rparr>"
  have 1: "fold ?F (l # ls) beam_hyps = fold ?F ls (?F l beam_hyps)"
    by simp
  have 2: "normed_scores (?F l beam_hyps) = ns"
    using Cons.prems by simp
  have 3: "min_normed_scores (?F l beam_hyps) g
      = min (min_normed_scores beam_hyps g) (ns (b + l))"
    using Cons.prems by simp
  have 4: "fold (\<lambda>l acc. min acc (ns (b + l))) (l # ls) (min_normed_scores beam_hyps g)
      = fold (\<lambda>l acc. min acc (ns (b + l))) ls (min (min_normed_scores beam_hyps g) (ns (b + l)))"
    by simp
  show ?case
    by (simp only: 1 Cons.IH [OF 2] 3 4)
qed

lemma fold_min_other:
  "g' \<noteq> g \<Longrightarrow>
   min_normed_scores (fold (\<lambda>l bh. bh\<lparr> min_normed_scores := (min_normed_scores bh)
                    (g := min (min_normed_scores bh g) (normed_scores bh (b + l))) \<rparr>) ls beam_hyps) g'
   = min_normed_scores beam_hyps g'"
  by (induction ls arbitrary: beam_hyps) simp_all

text \<open>The minimum that the loop over \<open>l\<close> computes.\<close>

lemma upto_snoc: "0 \<le> n \<Longrightarrow> [0..n] = [0..n - 1] @ [n]"
  using upto_rec2 [of 0 n] by simp

lemma fold_min_upto:
  "fold (\<lambda>l acc. min acc (f l)) [0..int n] c = min c (Min (f ` {0..int n}))"
proof (induction n)
  case 0
  show ?case by (simp add: upto.simps)
next
  case (Suc n)
  have "[0..int (Suc n)] = [0..int n] @ [int n + 1]"
    using upto_snoc [of "int (Suc n)"] by (simp add: add.commute)
  moreover have "{0..int (Suc n)} = insert (int n + 1) {0..int n}"
    by auto
  ultimately show ?case
    using Suc.IH by (simp add: min.assoc min.commute min.left_commute)
qed

lemma fold_min_range:
  assumes "0 < K"
  shows "fold (\<lambda>l acc. min acc (f l)) [0..K - 1] c = min c (Min (f ` {0..<K}))"
proof -
  have "{0..int (nat (K - 1))} = {0..<K}" using assms by auto
  with fold_min_upto [of f "nat (K - 1)" c] assms show ?thesis by simp
qed

lemma find_first_upto:
  assumes "0 \<le> j" "j \<le> n" "P j"
  shows "\<exists>j0. List.find P [0..n] = Some j0 \<and> 0 \<le> j0 \<and> j0 \<le> n \<and> P j0"
proof (cases "List.find P [0..n]")
  case None
  with assms show ?thesis by (auto simp: find_None_iff)
next
  case (Some j0)
  then have "P j0" "j0 \<in> set [0..n]"
    by (auto simp: find_Some_iff)
  with Some show ?thesis by auto
qed


lemma copy_beam_fields:
    "ite (snd (copy_beam vector_id K tgt_id_offset j (prev_id, beam_hyps))) = ite beam_hyps"
    "local_batch_size (snd (copy_beam vector_id K tgt_id_offset j (prev_id, beam_hyps))) = local_batch_size beam_hyps"
    "batch_size (snd (copy_beam vector_id K tgt_id_offset j (prev_id, beam_hyps))) = batch_size beam_hyps"
    "beam_width (snd (copy_beam vector_id K tgt_id_offset j (prev_id, beam_hyps))) = beam_width beam_hyps"
    "vocab_size (snd (copy_beam vector_id K tgt_id_offset j (prev_id, beam_hyps))) = vocab_size beam_hyps"
    "max_seq_len (snd (copy_beam vector_id K tgt_id_offset j (prev_id, beam_hyps))) = max_seq_len beam_hyps"
    "diversity_rates (snd (copy_beam vector_id K tgt_id_offset j (prev_id, beam_hyps))) = diversity_rates beam_hyps"
    "length_penalties (snd (copy_beam vector_id K tgt_id_offset j (prev_id, beam_hyps))) = length_penalties beam_hyps"
    "early_stoppings (snd (copy_beam vector_id K tgt_id_offset j (prev_id, beam_hyps))) = early_stoppings beam_hyps"
    "input_lengths (snd (copy_beam vector_id K tgt_id_offset j (prev_id, beam_hyps))) = input_lengths beam_hyps"
    "sequence_lengths_src (snd (copy_beam vector_id K tgt_id_offset j (prev_id, beam_hyps))) = sequence_lengths_src beam_hyps"
    "end_ids (snd (copy_beam vector_id K tgt_id_offset j (prev_id, beam_hyps))) = end_ids beam_hyps"
    "finished (snd (copy_beam vector_id K tgt_id_offset j (prev_id, beam_hyps))) = finished beam_hyps"
    "cum_log_probs_src (snd (copy_beam vector_id K tgt_id_offset j (prev_id, beam_hyps))) = cum_log_probs_src beam_hyps"
    "log_probs_src (snd (copy_beam vector_id K tgt_id_offset j (prev_id, beam_hyps))) = log_probs_src beam_hyps"
    "num_beams (snd (copy_beam vector_id K tgt_id_offset j (prev_id, beam_hyps))) = num_beams beam_hyps"
    "min_normed_scores (snd (copy_beam vector_id K tgt_id_offset j (prev_id, beam_hyps))) = min_normed_scores beam_hyps"
    "normed_scores (snd (copy_beam vector_id K tgt_id_offset j (prev_id, beam_hyps))) = normed_scores beam_hyps"
    "output_ids_tgt_ptr (snd (copy_beam vector_id K tgt_id_offset j (prev_id, beam_hyps))) = output_ids_tgt_ptr beam_hyps"
    "parent_ids_tgt_ptr (snd (copy_beam vector_id K tgt_id_offset j (prev_id, beam_hyps))) = parent_ids_tgt_ptr beam_hyps"
    "sequence_lengths_tgt (snd (copy_beam vector_id K tgt_id_offset j (prev_id, beam_hyps))) = sequence_lengths_tgt beam_hyps"
    "cum_log_probs (snd (copy_beam vector_id K tgt_id_offset j (prev_id, beam_hyps))) = cum_log_probs beam_hyps"
    "is_done (snd (copy_beam vector_id K tgt_id_offset j (prev_id, beam_hyps))) = is_done beam_hyps"
  by (rule copy_beam_frame; simp)+

lemma store_beam_fields:
    "ite (store_beam topk_id topk_val old_cum_log_probs vector_id K g current_key normed_score beam_idx beam_hyps) = ite beam_hyps"
    "local_batch_size (store_beam topk_id topk_val old_cum_log_probs vector_id K g current_key normed_score beam_idx beam_hyps) = local_batch_size beam_hyps"
    "batch_size (store_beam topk_id topk_val old_cum_log_probs vector_id K g current_key normed_score beam_idx beam_hyps) = batch_size beam_hyps"
    "beam_width (store_beam topk_id topk_val old_cum_log_probs vector_id K g current_key normed_score beam_idx beam_hyps) = beam_width beam_hyps"
    "vocab_size (store_beam topk_id topk_val old_cum_log_probs vector_id K g current_key normed_score beam_idx beam_hyps) = vocab_size beam_hyps"
    "max_seq_len (store_beam topk_id topk_val old_cum_log_probs vector_id K g current_key normed_score beam_idx beam_hyps) = max_seq_len beam_hyps"
    "diversity_rates (store_beam topk_id topk_val old_cum_log_probs vector_id K g current_key normed_score beam_idx beam_hyps) = diversity_rates beam_hyps"
    "length_penalties (store_beam topk_id topk_val old_cum_log_probs vector_id K g current_key normed_score beam_idx beam_hyps) = length_penalties beam_hyps"
    "early_stoppings (store_beam topk_id topk_val old_cum_log_probs vector_id K g current_key normed_score beam_idx beam_hyps) = early_stoppings beam_hyps"
    "input_lengths (store_beam topk_id topk_val old_cum_log_probs vector_id K g current_key normed_score beam_idx beam_hyps) = input_lengths beam_hyps"
    "sequence_lengths_src (store_beam topk_id topk_val old_cum_log_probs vector_id K g current_key normed_score beam_idx beam_hyps) = sequence_lengths_src beam_hyps"
    "end_ids (store_beam topk_id topk_val old_cum_log_probs vector_id K g current_key normed_score beam_idx beam_hyps) = end_ids beam_hyps"
    "finished (store_beam topk_id topk_val old_cum_log_probs vector_id K g current_key normed_score beam_idx beam_hyps) = finished beam_hyps"
    "cum_log_probs_src (store_beam topk_id topk_val old_cum_log_probs vector_id K g current_key normed_score beam_idx beam_hyps) = cum_log_probs_src beam_hyps"
    "log_probs_src (store_beam topk_id topk_val old_cum_log_probs vector_id K g current_key normed_score beam_idx beam_hyps) = log_probs_src beam_hyps"
    "output_ids_tgt_ptr (store_beam topk_id topk_val old_cum_log_probs vector_id K g current_key normed_score beam_idx beam_hyps) = output_ids_tgt_ptr beam_hyps"
    "parent_ids_tgt_ptr (store_beam topk_id topk_val old_cum_log_probs vector_id K g current_key normed_score beam_idx beam_hyps) = parent_ids_tgt_ptr beam_hyps"
    "is_done (store_beam topk_id topk_val old_cum_log_probs vector_id K g current_key normed_score beam_idx beam_hyps) = is_done beam_hyps"
  by (simp_all add: store_beam_def Let_def copy_beam_fields)

lemma store_beam_ledger:
  "num_beams (store_beam topk_id topk_val old_cum_log_probs vector_id K g current_key
       normed_score beam_idx beam_hyps)
     = Some ((the (num_beams beam_hyps))(g := the (num_beams beam_hyps) g + 1))"
  "normed_scores (store_beam topk_id topk_val old_cum_log_probs vector_id K g current_key
       normed_score beam_idx beam_hyps)
     = (normed_scores beam_hyps)(g * (K * 2) + beam_idx := normed_score)"
  "min_normed_scores (store_beam topk_id topk_val old_cum_log_probs vector_id K g current_key
       normed_score beam_idx beam_hyps)
     = (min_normed_scores beam_hyps)(g := min (min_normed_scores beam_hyps g) normed_score)"
  "cum_log_probs (store_beam topk_id topk_val old_cum_log_probs vector_id K g current_key
       normed_score beam_idx beam_hyps)
     = (cum_log_probs beam_hyps)(g * (K * 2) + beam_idx := topk_val current_key)"
  "sequence_lengths_tgt (store_beam topk_id topk_val old_cum_log_probs vector_id K g current_key
       normed_score beam_idx beam_hyps)
     = (sequence_lengths_tgt beam_hyps)(g * (K * 2) + beam_idx :=
          sequence_lengths_src beam_hyps
            (vector_id * K + c_mod (c_div (topk_id current_key) (vocab_size beam_hyps)) K))"
  by (simp_all add: store_beam_def Let_def copy_beam_fields)

lemma select_beam_fields:
    "ite (snd (select_beam topk_id topk_val old_cum_log_probs vector_id K current_key (selected_beams, beam_hyps))) = ite beam_hyps"
    "local_batch_size (snd (select_beam topk_id topk_val old_cum_log_probs vector_id K current_key (selected_beams, beam_hyps))) = local_batch_size beam_hyps"
    "batch_size (snd (select_beam topk_id topk_val old_cum_log_probs vector_id K current_key (selected_beams, beam_hyps))) = batch_size beam_hyps"
    "beam_width (snd (select_beam topk_id topk_val old_cum_log_probs vector_id K current_key (selected_beams, beam_hyps))) = beam_width beam_hyps"
    "vocab_size (snd (select_beam topk_id topk_val old_cum_log_probs vector_id K current_key (selected_beams, beam_hyps))) = vocab_size beam_hyps"
    "max_seq_len (snd (select_beam topk_id topk_val old_cum_log_probs vector_id K current_key (selected_beams, beam_hyps))) = max_seq_len beam_hyps"
    "diversity_rates (snd (select_beam topk_id topk_val old_cum_log_probs vector_id K current_key (selected_beams, beam_hyps))) = diversity_rates beam_hyps"
    "length_penalties (snd (select_beam topk_id topk_val old_cum_log_probs vector_id K current_key (selected_beams, beam_hyps))) = length_penalties beam_hyps"
    "early_stoppings (snd (select_beam topk_id topk_val old_cum_log_probs vector_id K current_key (selected_beams, beam_hyps))) = early_stoppings beam_hyps"
    "input_lengths (snd (select_beam topk_id topk_val old_cum_log_probs vector_id K current_key (selected_beams, beam_hyps))) = input_lengths beam_hyps"
    "sequence_lengths_src (snd (select_beam topk_id topk_val old_cum_log_probs vector_id K current_key (selected_beams, beam_hyps))) = sequence_lengths_src beam_hyps"
    "end_ids (snd (select_beam topk_id topk_val old_cum_log_probs vector_id K current_key (selected_beams, beam_hyps))) = end_ids beam_hyps"
    "finished (snd (select_beam topk_id topk_val old_cum_log_probs vector_id K current_key (selected_beams, beam_hyps))) = finished beam_hyps"
    "num_beams (snd (select_beam topk_id topk_val old_cum_log_probs vector_id K current_key (selected_beams, beam_hyps))) = num_beams beam_hyps"
    "min_normed_scores (snd (select_beam topk_id topk_val old_cum_log_probs vector_id K current_key (selected_beams, beam_hyps))) = min_normed_scores beam_hyps"
    "normed_scores (snd (select_beam topk_id topk_val old_cum_log_probs vector_id K current_key (selected_beams, beam_hyps))) = normed_scores beam_hyps"
    "output_ids_tgt (snd (select_beam topk_id topk_val old_cum_log_probs vector_id K current_key (selected_beams, beam_hyps))) = output_ids_tgt beam_hyps"
    "parent_ids_tgt_ptr (snd (select_beam topk_id topk_val old_cum_log_probs vector_id K current_key (selected_beams, beam_hyps))) = parent_ids_tgt_ptr beam_hyps"
    "sequence_lengths_tgt (snd (select_beam topk_id topk_val old_cum_log_probs vector_id K current_key (selected_beams, beam_hyps))) = sequence_lengths_tgt beam_hyps"
    "cum_log_probs (snd (select_beam topk_id topk_val old_cum_log_probs vector_id K current_key (selected_beams, beam_hyps))) = cum_log_probs beam_hyps"
    "log_probs (snd (select_beam topk_id topk_val old_cum_log_probs vector_id K current_key (selected_beams, beam_hyps))) = log_probs beam_hyps"
    "is_done (snd (select_beam topk_id topk_val old_cum_log_probs vector_id K current_key (selected_beams, beam_hyps))) = is_done beam_hyps"
  by (simp_all add: select_beam_def Let_def)

lemma erase_worst_beam_fields:
    "ite (snd (erase_worst_beam K g normed_score beam_hyps)) = ite beam_hyps"
    "local_batch_size (snd (erase_worst_beam K g normed_score beam_hyps)) = local_batch_size beam_hyps"
    "batch_size (snd (erase_worst_beam K g normed_score beam_hyps)) = batch_size beam_hyps"
    "beam_width (snd (erase_worst_beam K g normed_score beam_hyps)) = beam_width beam_hyps"
    "vocab_size (snd (erase_worst_beam K g normed_score beam_hyps)) = vocab_size beam_hyps"
    "max_seq_len (snd (erase_worst_beam K g normed_score beam_hyps)) = max_seq_len beam_hyps"
    "diversity_rates (snd (erase_worst_beam K g normed_score beam_hyps)) = diversity_rates beam_hyps"
    "length_penalties (snd (erase_worst_beam K g normed_score beam_hyps)) = length_penalties beam_hyps"
    "early_stoppings (snd (erase_worst_beam K g normed_score beam_hyps)) = early_stoppings beam_hyps"
    "input_lengths (snd (erase_worst_beam K g normed_score beam_hyps)) = input_lengths beam_hyps"
    "sequence_lengths_src (snd (erase_worst_beam K g normed_score beam_hyps)) = sequence_lengths_src beam_hyps"
    "end_ids (snd (erase_worst_beam K g normed_score beam_hyps)) = end_ids beam_hyps"
    "finished (snd (erase_worst_beam K g normed_score beam_hyps)) = finished beam_hyps"
    "cum_log_probs_src (snd (erase_worst_beam K g normed_score beam_hyps)) = cum_log_probs_src beam_hyps"
    "log_probs_src (snd (erase_worst_beam K g normed_score beam_hyps)) = log_probs_src beam_hyps"
    "output_ids_tgt (snd (erase_worst_beam K g normed_score beam_hyps)) = output_ids_tgt beam_hyps"
    "output_ids_tgt_ptr (snd (erase_worst_beam K g normed_score beam_hyps)) = output_ids_tgt_ptr beam_hyps"
    "parent_ids_tgt_ptr (snd (erase_worst_beam K g normed_score beam_hyps)) = parent_ids_tgt_ptr beam_hyps"
    "sequence_lengths_tgt (snd (erase_worst_beam K g normed_score beam_hyps)) = sequence_lengths_tgt beam_hyps"
    "cum_log_probs (snd (erase_worst_beam K g normed_score beam_hyps)) = cum_log_probs beam_hyps"
    "log_probs (snd (erase_worst_beam K g normed_score beam_hyps)) = log_probs beam_hyps"
    "is_done (snd (erase_worst_beam K g normed_score beam_hyps)) = is_done beam_hyps"
  by (simp_all add: erase_worst_beam_def Let_def fold_min_frame split: option.split)


text \<open>The worst beam is found and replaced when the ledger is full and consistent.\<close>

lemma erase_worst_beam_ledger:
  assumes nb: "the (num_beams beam_hyps) g = K" and K: "0 < K"
    and mn: "min_normed_scores beam_hyps g
        = Min ((\<lambda>j. normed_scores beam_hyps (g * (K * 2) + j)) ` {0..<K})"
    and le: "normed_score \<le> FLT_MAX"
  shows "\<exists>j. 0 \<le> j \<and> j < K
    \<and> normed_scores beam_hyps (g * (K * 2) + j) = min_normed_scores beam_hyps g
    \<and> List.find (\<lambda>j. normed_scores beam_hyps (g * (K * 2) + j)
                           = min_normed_scores beam_hyps g) [0..K - 1] = Some j
    \<and> fst (erase_worst_beam K g normed_score beam_hyps) = j
    \<and> num_beams (snd (erase_worst_beam K g normed_score beam_hyps))
        = Some ((the (num_beams beam_hyps))(g := K - 1))
    \<and> normed_scores (snd (erase_worst_beam K g normed_score beam_hyps))
        = (normed_scores beam_hyps)(g * (K * 2) + j := normed_score)
    \<and> min_normed_scores (snd (erase_worst_beam K g normed_score beam_hyps))
        = (min_normed_scores beam_hyps)
            (g := Min ((\<lambda>j'. ((normed_scores beam_hyps)(g * (K * 2) + j := normed_score))
                              (g * (K * 2) + j')) ` {0..<K}))"
proof -
  let ?ns = "normed_scores beam_hyps"
  let ?P = "\<lambda>j. ?ns (g * (K * 2) + j) = min_normed_scores beam_hyps g"
  have "Min ((\<lambda>j. ?ns (g * (K * 2) + j)) ` {0..<K}) \<in> (\<lambda>j. ?ns (g * (K * 2) + j)) ` {0..<K}"
    using K by (intro Min_in) auto
  then obtain j1 where "0 \<le> j1" "j1 \<le> K - 1" "?P j1"
    unfolding mn by auto
  from find_first_upto [of j1 "K - 1" ?P, OF this] obtain j where
    j: "List.find ?P [0..K - 1] = Some j" "0 \<le> j" "j \<le> K - 1" "?P j"
    by blast
  let ?ns' = "?ns(g * (K * 2) + j := normed_score)"
  let ?bh3 = "beam_hyps\<lparr> num_beams := Some ((the (num_beams beam_hyps))
                      (g := the (num_beams beam_hyps) g - 1)),
                min_normed_scores := (min_normed_scores beam_hyps)(g := FLT_MAX),
                normed_scores := ?ns' \<rparr>"
  let ?F = "\<lambda>l bh. bh\<lparr> min_normed_scores := (min_normed_scores bh)
              (g := min (min_normed_scores bh g) (normed_scores bh (g * (K * 2) + l))) \<rparr>"
  have e: "erase_worst_beam K g normed_score beam_hyps = (j, fold ?F [0..K - 1] ?bh3)"
    using j(1) by (simp add: erase_worst_beam_def Let_def)
  have 1: "num_beams (fold ?F [0..K - 1] ?bh3) = Some ((the (num_beams beam_hyps))(g := K - 1))"
    using nb by (simp add: fold_min_frame)
  have 2: "normed_scores (fold ?F [0..K - 1] ?bh3) = ?ns'"
    by (simp add: fold_min_frame)
  have "?ns' (g * (K * 2) + j) \<in> (\<lambda>j'. ?ns' (g * (K * 2) + j')) ` {0..<K}"
    using j(2,3) by (intro imageI) simp
  then have "Min ((\<lambda>j'. ?ns' (g * (K * 2) + j')) ` {0..<K}) \<le> ?ns' (g * (K * 2) + j)"
    by (intro Min_le) auto
  then have small: "Min ((\<lambda>j'. ?ns' (g * (K * 2) + j')) ` {0..<K}) \<le> FLT_MAX"
    using le by simp
  have "min_normed_scores (fold ?F [0..K - 1] ?bh3) g
      = fold (\<lambda>l acc. min acc (?ns' (g * (K * 2) + l))) [0..K - 1] (min_normed_scores ?bh3 g)"
    by (rule fold_min_value) (simp add: fun_upd_def)
  also have "\<dots> = min FLT_MAX (Min ((\<lambda>j'. ?ns' (g * (K * 2) + j')) ` {0..<K}))"
    using fold_min_range [OF K, of "\<lambda>l. ?ns' (g * (K * 2) + l)" FLT_MAX] by simp
  also have "\<dots> = Min ((\<lambda>j'. ?ns' (g * (K * 2) + j')) ` {0..<K})"
    using small by simp
  finally have 3: "min_normed_scores (fold ?F [0..K - 1] ?bh3) g
      = Min ((\<lambda>j'. ?ns' (g * (K * 2) + j')) ` {0..<K})" .
  have 4: "min_normed_scores (fold ?F [0..K - 1] ?bh3) g' = min_normed_scores beam_hyps g'"
    if "g' \<noteq> g" for g'
    using that by (simp add: fold_min_other)
  have 5: "min_normed_scores (fold ?F [0..K - 1] ?bh3)
      = (min_normed_scores beam_hyps)(g := Min ((\<lambda>j'. ?ns' (g * (K * 2) + j')) ` {0..<K}))"
    using 3 4 by (intro ext) simp
  show ?thesis
    using j e 1 2 5 by (intro exI [of _ j]) simp
qed


lemma Min_append:
  fixes n :: int
  assumes "0 \<le> n"
  shows "Min ((\<lambda>j. (f(b + n := v)) (b + j)) ` {0..<n + 1})
    = (if n = 0 then v else min v (Min ((\<lambda>j. f (b + j)) ` {0..<n})))"
proof -
  have s: "{0..<n + 1} = insert n {0..<n}" using assms by auto
  have i: "(\<lambda>j. (f(b + n := v)) (b + j)) ` {0..<n} = (\<lambda>j. f (b + j)) ` {0..<n}"
    by (rule image_cong) auto
  have eq: "(\<lambda>j. (f(b + n := v)) (b + j)) ` {0..<n + 1}
      = insert v ((\<lambda>j. f (b + j)) ` {0..<n})"
    unfolding s image_insert i by simp
  show ?thesis
  proof (cases "n = 0")
    case True
    then show ?thesis unfolding eq by simp
  next
    case False
    with assms have "(\<lambda>j. f (b + j)) ` {0..<n} \<noteq> {}" by simp
    then have "Min (insert v ((\<lambda>j. f (b + j)) ` {0..<n}))
        = min v (Min ((\<lambda>j. f (b + j)) ` {0..<n}))"
      by (intro Min_insert) auto
    with False show ?thesis unfolding eq by simp
  qed
qed

text \<open>
  The invariant of the loop of thread 0: the ledger is consistent, an empty ledger has
  the minimum \<open>FLT_MAX\<close>, and the arrays that the normalised score reads are those of the
  entry to the loop.
\<close>

lemma candidate_body_ledger:
  assumes ok: "ledger_ok K g beam_hyps"
    and empty: "the (num_beams beam_hyps) g = 0 \<longrightarrow> min_normed_scores beam_hyps g = FLT_MAX"
    and i: "0 \<le> i"
    and bound: "i < K \<longrightarrow> candidate_normed_score beam_hyps vector_id K g length_penalty i
                 (snd (cta_topk i)) \<le> FLT_MAX"
  shows "ledger_ok K g (snd (snd (candidate_body topk_id topk_val cta_topk old_cum_log_probs
            vector_id K g length_penalty i (selected_beams, beam_hyps))))
    \<and> (the (num_beams (snd (snd (candidate_body topk_id topk_val cta_topk old_cum_log_probs
            vector_id K g length_penalty i (selected_beams, beam_hyps))))) g = 0
         \<longrightarrow> min_normed_scores (snd (snd (candidate_body topk_id topk_val cta_topk
               old_cum_log_probs vector_id K g length_penalty i (selected_beams, beam_hyps)))) g
             = FLT_MAX)"
proof -
  let ?body = "candidate_body topk_id topk_val cta_topk old_cum_log_probs vector_id K g
      length_penalty i (selected_beams, beam_hyps)"
  let ?key = "fst (cta_topk i)"
  let ?normed = "candidate_normed_score beam_hyps vector_id K g length_penalty i (snd (cta_topk i))"
  let ?end = "c_mod (topk_id ?key) (vocab_size beam_hyps) = end_ids beam_hyps vector_id"
  let ?nb = "the (num_beams beam_hyps) g"
  let ?ns = "normed_scores beam_hyps"
  let ?b = "g * (K * 2)"
  from ok have some: "num_beams beam_hyps \<noteq> None" and nb0: "0 \<le> ?nb" and nbK: "?nb \<le> K"
    and mn: "0 < ?nb \<longrightarrow> min_normed_scores beam_hyps g = Min ((\<lambda>j. ?ns (?b + j)) ` {0..<?nb})"
    by (simp_all add: ledger_ok_def)
  show ?thesis
  proof (cases "i < K \<and> ?end")
    case False
    then have "snd (snd ?body) = beam_hyps
        \<or> snd (snd ?body) = snd (select_beam topk_id topk_val old_cum_log_probs vector_id K ?key
              (selected_beams, beam_hyps))"
      using some by (auto simp: candidate_body_def Let_def split: prod.splits)
    then show ?thesis
      using ok empty by (auto simp: ledger_ok_def select_beam_fields)
  next
    case True
    then have le: "?normed \<le> FLT_MAX" using bound by simp
    show ?thesis
    proof (cases "?nb = K")
      case False
      let ?bh' = "store_beam topk_id topk_val old_cum_log_probs vector_id K g ?key ?normed ?nb
          beam_hyps"
      have body: "snd (snd ?body) = ?bh'"
        using True False some by (simp add: candidate_body_def Let_def)
      have nb': "the (num_beams ?bh') g = ?nb + 1"
        by (simp add: store_beam_ledger)
      have mn': "min_normed_scores ?bh' g = min (min_normed_scores beam_hyps g) ?normed"
        by (simp add: store_beam_ledger)
      have "Min ((\<lambda>j. normed_scores ?bh' (?b + j)) ` {0..<?nb + 1})
          = (if ?nb = 0 then ?normed else min ?normed (Min ((\<lambda>j. ?ns (?b + j)) ` {0..<?nb})))"
        unfolding store_beam_ledger by (rule Min_append [OF nb0])
      also have "\<dots> = min (min_normed_scores beam_hyps g) ?normed"
        using empty mn nb0 le by (auto simp: min.commute)
      finally have "min_normed_scores ?bh' g
          = Min ((\<lambda>j. normed_scores ?bh' (?b + j)) ` {0..<the (num_beams ?bh') g})"
        unfolding nb' mn' by simp
      moreover have "num_beams ?bh' \<noteq> None"
        by (simp add: store_beam_ledger)
      ultimately show ?thesis
        unfolding body ledger_ok_def nb' using nb0 nbK False
        by simp
    next
      case full: True
      show ?thesis
      proof (cases "?normed < min_normed_scores beam_hyps g")
        case True
        then have "snd (snd ?body) = beam_hyps"
          using \<open>i < K \<and> ?end\<close> full some by (simp add: candidate_body_def Let_def)
        then show ?thesis using ok empty by simp
      next
        case False
        from \<open>i < K \<and> ?end\<close> i have K: "0 < K" by simp
        with full mn have mnK: "min_normed_scores beam_hyps g = Min ((\<lambda>j. ?ns (?b + j)) ` {0..<K})"
          by simp
        from erase_worst_beam_ledger [OF full K mnK le] obtain j where
          j: "0 \<le> j" "j < K" "fst (erase_worst_beam K g ?normed beam_hyps) = j"
            "num_beams (snd (erase_worst_beam K g ?normed beam_hyps))
               = Some ((the (num_beams beam_hyps))(g := K - 1))"
            "normed_scores (snd (erase_worst_beam K g ?normed beam_hyps))
               = ?ns(?b + j := ?normed)"
            "min_normed_scores (snd (erase_worst_beam K g ?normed beam_hyps))
               = (min_normed_scores beam_hyps)
                   (g := Min ((\<lambda>j'. (?ns(?b + j := ?normed)) (?b + j')) ` {0..<K}))"
          by blast
        let ?e = "erase_worst_beam K g ?normed beam_hyps"
        let ?bh' = "store_beam topk_id topk_val old_cum_log_probs vector_id K g ?key ?normed j
            (snd ?e)"
        have body: "snd (snd ?body) = ?bh'"
          using \<open>i < K \<and> ?end\<close> full False some j(3)
          by (simp add: candidate_body_def Let_def case_prod_beta)
        have nb': "the (num_beams ?bh') g = K"
          by (simp add: store_beam_ledger j)
        have ns': "normed_scores ?bh' = ?ns(?b + j := ?normed)"
          by (simp add: store_beam_ledger j)
        have "(?ns(?b + j := ?normed)) (?b + j) \<in> (\<lambda>j'. (?ns(?b + j := ?normed)) (?b + j')) ` {0..<K}"
          using j(1,2) by (intro imageI) simp
        then have "Min ((\<lambda>j'. (?ns(?b + j := ?normed)) (?b + j')) ` {0..<K}) \<le> ?normed"
          using Min_le [of "(\<lambda>j'. (?ns(?b + j := ?normed)) (?b + j')) ` {0..<K}"
              "(?ns(?b + j := ?normed)) (?b + j)"]
          by simp
        then have mn': "min_normed_scores ?bh' g
            = Min ((\<lambda>j'. (?ns(?b + j := ?normed)) (?b + j')) ` {0..<K})"
          by (simp add: store_beam_ledger j)
        have "num_beams ?bh' \<noteq> None"
          by (simp add: store_beam_ledger)
        then show ?thesis
          unfolding body ledger_ok_def nb' mn' ns' using K
          by simp
      qed
    qed
  qed
qed


lemma candidate_body_fields:
    "ite (snd (snd (candidate_body topk_id topk_val cta_topk old_cum_log_probs vector_id K g length_penalty i (selected_beams, beam_hyps)))) = ite beam_hyps"
    "local_batch_size (snd (snd (candidate_body topk_id topk_val cta_topk old_cum_log_probs vector_id K g length_penalty i (selected_beams, beam_hyps)))) = local_batch_size beam_hyps"
    "batch_size (snd (snd (candidate_body topk_id topk_val cta_topk old_cum_log_probs vector_id K g length_penalty i (selected_beams, beam_hyps)))) = batch_size beam_hyps"
    "beam_width (snd (snd (candidate_body topk_id topk_val cta_topk old_cum_log_probs vector_id K g length_penalty i (selected_beams, beam_hyps)))) = beam_width beam_hyps"
    "vocab_size (snd (snd (candidate_body topk_id topk_val cta_topk old_cum_log_probs vector_id K g length_penalty i (selected_beams, beam_hyps)))) = vocab_size beam_hyps"
    "max_seq_len (snd (snd (candidate_body topk_id topk_val cta_topk old_cum_log_probs vector_id K g length_penalty i (selected_beams, beam_hyps)))) = max_seq_len beam_hyps"
    "diversity_rates (snd (snd (candidate_body topk_id topk_val cta_topk old_cum_log_probs vector_id K g length_penalty i (selected_beams, beam_hyps)))) = diversity_rates beam_hyps"
    "length_penalties (snd (snd (candidate_body topk_id topk_val cta_topk old_cum_log_probs vector_id K g length_penalty i (selected_beams, beam_hyps)))) = length_penalties beam_hyps"
    "early_stoppings (snd (snd (candidate_body topk_id topk_val cta_topk old_cum_log_probs vector_id K g length_penalty i (selected_beams, beam_hyps)))) = early_stoppings beam_hyps"
    "input_lengths (snd (snd (candidate_body topk_id topk_val cta_topk old_cum_log_probs vector_id K g length_penalty i (selected_beams, beam_hyps)))) = input_lengths beam_hyps"
    "sequence_lengths_src (snd (snd (candidate_body topk_id topk_val cta_topk old_cum_log_probs vector_id K g length_penalty i (selected_beams, beam_hyps)))) = sequence_lengths_src beam_hyps"
    "end_ids (snd (snd (candidate_body topk_id topk_val cta_topk old_cum_log_probs vector_id K g length_penalty i (selected_beams, beam_hyps)))) = end_ids beam_hyps"
    "finished (snd (snd (candidate_body topk_id topk_val cta_topk old_cum_log_probs vector_id K g length_penalty i (selected_beams, beam_hyps)))) = finished beam_hyps"
    "parent_ids_tgt_ptr (snd (snd (candidate_body topk_id topk_val cta_topk old_cum_log_probs vector_id K g length_penalty i (selected_beams, beam_hyps)))) = parent_ids_tgt_ptr beam_hyps"
    "is_done (snd (snd (candidate_body topk_id topk_val cta_topk old_cum_log_probs vector_id K g length_penalty i (selected_beams, beam_hyps)))) = is_done beam_hyps"
  by (simp_all add: candidate_body_def Let_def store_beam_fields select_beam_fields
      erase_worst_beam_fields case_prod_beta)

lemma candidate_body_some:
  "num_beams beam_hyps \<noteq> None \<Longrightarrow> num_beams (snd (snd (candidate_body topk_id topk_val cta_topk old_cum_log_probs vector_id K g length_penalty i (selected_beams, beam_hyps)))) \<noteq> None"
  by (simp add: candidate_body_def Let_def store_beam_ledger select_beam_fields case_prod_beta)

lemma select_loop_frame:
  assumes "\<And>topk_id topk_val cta_topk old_cum_log_probs vector_id K g length_penalty i
      selected_beams beam_hyps.
      F (snd (snd (candidate_body topk_id topk_val cta_topk old_cum_log_probs vector_id K g
        length_penalty i (selected_beams, beam_hyps)))) = F beam_hyps"
  shows "F (snd (select_loop topk_id topk_val cta_topk old_cum_log_probs vector_id K g length_penalty i (selected_beams, beam_hyps))) = F beam_hyps"
proof (induction topk_id topk_val cta_topk old_cum_log_probs vector_id K g length_penalty i
    "(selected_beams, beam_hyps)" arbitrary: selected_beams beam_hyps rule: select_loop.induct)
  case (1 topk_id topk_val cta_topk old_cum_log_probs vector_id K g length_penalty i)
  let ?body = "candidate_body topk_id topk_val cta_topk old_cum_log_probs vector_id K g
      length_penalty i (selected_beams, beam_hyps)"
  obtain break sel' bh' where b: "?body = (break, sel', bh')"
    by (cases ?body) auto
  have bh': "F bh' = F beam_hyps"
    using assms [of topk_id topk_val cta_topk old_cum_log_probs vector_id K g length_penalty i
        selected_beams beam_hyps] b by simp
  show ?case
  proof (cases "i < 2 * K \<and> \<not> (break \<or> sel' \<ge> K)")
    case True
    then have "select_loop topk_id topk_val cta_topk old_cum_log_probs vector_id K g
        length_penalty i (selected_beams, beam_hyps)
      = select_loop topk_id topk_val cta_topk old_cum_log_probs vector_id K g
        length_penalty (i + 1) (sel', bh')"
      by (subst select_loop.simps) (simp add: b)
    moreover have "F (snd (select_loop topk_id topk_val cta_topk old_cum_log_probs vector_id K g
        length_penalty (i + 1) (sel', bh'))) = F bh'"
      using True by (intro "1.hyps" [OF _ b [symmetric] refl]) auto
    ultimately show ?thesis using bh' by simp
  next
    case False
    then have "snd (select_loop topk_id topk_val cta_topk old_cum_log_probs vector_id K g
        length_penalty i (selected_beams, beam_hyps)) = bh' \<or>
      snd (select_loop topk_id topk_val cta_topk old_cum_log_probs vector_id K g
        length_penalty i (selected_beams, beam_hyps)) = beam_hyps"
      by (subst select_loop.simps, subst (2) select_loop.simps) (auto simp: b)
    then show ?thesis using bh' by auto
  qed
qed

lemma select_loop_fields:
    "ite (snd (select_loop topk_id topk_val cta_topk old_cum_log_probs vector_id K g length_penalty i (selected_beams, beam_hyps))) = ite beam_hyps"
    "local_batch_size (snd (select_loop topk_id topk_val cta_topk old_cum_log_probs vector_id K g length_penalty i (selected_beams, beam_hyps))) = local_batch_size beam_hyps"
    "batch_size (snd (select_loop topk_id topk_val cta_topk old_cum_log_probs vector_id K g length_penalty i (selected_beams, beam_hyps))) = batch_size beam_hyps"
    "beam_width (snd (select_loop topk_id topk_val cta_topk old_cum_log_probs vector_id K g length_penalty i (selected_beams, beam_hyps))) = beam_width beam_hyps"
    "vocab_size (snd (select_loop topk_id topk_val cta_topk old_cum_log_probs vector_id K g length_penalty i (selected_beams, beam_hyps))) = vocab_size beam_hyps"
    "max_seq_len (snd (select_loop topk_id topk_val cta_topk old_cum_log_probs vector_id K g length_penalty i (selected_beams, beam_hyps))) = max_seq_len beam_hyps"
    "diversity_rates (snd (select_loop topk_id topk_val cta_topk old_cum_log_probs vector_id K g length_penalty i (selected_beams, beam_hyps))) = diversity_rates beam_hyps"
    "length_penalties (snd (select_loop topk_id topk_val cta_topk old_cum_log_probs vector_id K g length_penalty i (selected_beams, beam_hyps))) = length_penalties beam_hyps"
    "early_stoppings (snd (select_loop topk_id topk_val cta_topk old_cum_log_probs vector_id K g length_penalty i (selected_beams, beam_hyps))) = early_stoppings beam_hyps"
    "input_lengths (snd (select_loop topk_id topk_val cta_topk old_cum_log_probs vector_id K g length_penalty i (selected_beams, beam_hyps))) = input_lengths beam_hyps"
    "sequence_lengths_src (snd (select_loop topk_id topk_val cta_topk old_cum_log_probs vector_id K g length_penalty i (selected_beams, beam_hyps))) = sequence_lengths_src beam_hyps"
    "end_ids (snd (select_loop topk_id topk_val cta_topk old_cum_log_probs vector_id K g length_penalty i (selected_beams, beam_hyps))) = end_ids beam_hyps"
    "finished (snd (select_loop topk_id topk_val cta_topk old_cum_log_probs vector_id K g length_penalty i (selected_beams, beam_hyps))) = finished beam_hyps"
    "parent_ids_tgt_ptr (snd (select_loop topk_id topk_val cta_topk old_cum_log_probs vector_id K g length_penalty i (selected_beams, beam_hyps))) = parent_ids_tgt_ptr beam_hyps"
    "is_done (snd (select_loop topk_id topk_val cta_topk old_cum_log_probs vector_id K g length_penalty i (selected_beams, beam_hyps))) = is_done beam_hyps"
  by (rule select_loop_frame, simp add: candidate_body_fields)+


lemma candidate_normed_score_cong:
  assumes "sequence_lengths_src bh' = sequence_lengths_src beam_hyps"
    and "input_lengths bh' = input_lengths beam_hyps"
    and "finished bh' = finished beam_hyps"
  shows "candidate_normed_score bh' vector_id K g length_penalty i v
    = candidate_normed_score beam_hyps vector_id K g length_penalty i v"
  using assms by (simp add: candidate_normed_score_def)

lemma select_loop_ledger:
  assumes "ledger_ok K g beam_hyps"
    and "the (num_beams beam_hyps) g = 0 \<longrightarrow> min_normed_scores beam_hyps g = FLT_MAX"
    and "0 \<le> i"
    and "\<forall>i'. 0 \<le> i' \<and> i' < K \<longrightarrow>
          candidate_normed_score beam_hyps vector_id K g length_penalty i' (snd (cta_topk i'))
            \<le> FLT_MAX"
  shows "ledger_ok K g (snd (select_loop topk_id topk_val cta_topk old_cum_log_probs vector_id
            K g length_penalty i (selected_beams, beam_hyps)))"
  using assms
proof (induction topk_id topk_val cta_topk old_cum_log_probs vector_id K g length_penalty i
    "(selected_beams, beam_hyps)" arbitrary: selected_beams beam_hyps rule: select_loop.induct)
  case (1 topk_id topk_val cta_topk old_cum_log_probs vector_id K g length_penalty i)
  let ?body = "candidate_body topk_id topk_val cta_topk old_cum_log_probs vector_id K g
      length_penalty i (selected_beams, beam_hyps)"
  obtain break sel' bh' where b: "?body = (break, sel', bh')"
    by (cases ?body) auto
  have bound_i: "i < K \<longrightarrow> candidate_normed_score beam_hyps vector_id K g length_penalty i
      (snd (cta_topk i)) \<le> FLT_MAX"
    using "1.prems"(3,4) by simp
  from candidate_body_ledger [where cta_topk = cta_topk and vector_id = vector_id
      and length_penalty = length_penalty and topk_id = topk_id and topk_val = topk_val
      and old_cum_log_probs = old_cum_log_probs and selected_beams = selected_beams,
      OF "1.prems"(1,2,3) bound_i]
  have ok': "ledger_ok K g bh'"
    and empty': "the (num_beams bh') g = 0 \<longrightarrow> min_normed_scores bh' g = FLT_MAX"
    unfolding b by simp_all
  have same: "sequence_lengths_src bh' = sequence_lengths_src beam_hyps"
    "input_lengths bh' = input_lengths beam_hyps" "finished bh' = finished beam_hyps"
    using candidate_body_fields [of topk_id topk_val cta_topk old_cum_log_probs vector_id K g
        length_penalty i selected_beams beam_hyps]
    unfolding b by simp_all
  have bound': "\<forall>i'. 0 \<le> i' \<and> i' < K \<longrightarrow>
      candidate_normed_score bh' vector_id K g length_penalty i' (snd (cta_topk i')) \<le> FLT_MAX"
    using "1.prems"(4) by (simp add: candidate_normed_score_cong [OF same])
  show ?case
  proof (cases "i < 2 * K \<and> \<not> (break \<or> sel' \<ge> K)")
    case True
    then have "select_loop topk_id topk_val cta_topk old_cum_log_probs vector_id K g
        length_penalty i (selected_beams, beam_hyps)
      = select_loop topk_id topk_val cta_topk old_cum_log_probs vector_id K g
        length_penalty (i + 1) (sel', bh')"
      by (subst select_loop.simps) (simp add: b)
    moreover have "ledger_ok K g (snd (select_loop topk_id topk_val cta_topk old_cum_log_probs
        vector_id K g length_penalty (i + 1) (sel', bh')))"
      using True "1.prems"(3) ok' empty' bound'
      by (intro "1.hyps" [OF _ b [symmetric] refl]) auto
    ultimately show ?thesis by simp
  next
    case False
    then have "snd (select_loop topk_id topk_val cta_topk old_cum_log_probs vector_id K g
        length_penalty i (selected_beams, beam_hyps)) = bh' \<or>
      snd (select_loop topk_id topk_val cta_topk old_cum_log_probs vector_id K g
        length_penalty i (selected_beams, beam_hyps)) = beam_hyps"
      by (subst select_loop.simps, subst (2) select_loop.simps) (auto simp: b)
    then show ?thesis using ok' "1.prems"(1) by auto
  qed
qed

lemma update_is_done_ledger:
  "ledger_ok K' g (update_is_done vector_id K g' length_penalty early_stopping beam_hyps)
     = ledger_ok K' g beam_hyps"
  by (simp add: update_is_done_def ledger_ok_def Let_def)

lemma select_cta_topk_cong:
  "select_cta_topk MAX_T B (beam_hyps\<lparr>min_normed_scores := x\<rparr>) g topk_val candidate_size
    = select_cta_topk MAX_T B beam_hyps g topk_val candidate_size"
  by (simp add: select_cta_topk_def candidate_elem_def)

lemma batch_topk_kernel_main_ledger:
  assumes "ledger_ok (beam_width beam_hyps) (ite beam_hyps * local_batch_size beam_hyps + vector_id) beam_hyps"
    and "the (num_beams beam_hyps) (ite beam_hyps * local_batch_size beam_hyps + vector_id) = 0
      \<longrightarrow> min_normed_scores beam_hyps (ite beam_hyps * local_batch_size beam_hyps + vector_id)
          = FLT_MAX"
    and "\<forall>i. 0 \<le> i \<and> i < beam_width beam_hyps \<longrightarrow>
        candidate_normed_score beam_hyps vector_id (beam_width beam_hyps)
          (ite beam_hyps * local_batch_size beam_hyps + vector_id)
          (length_penalties beam_hyps (ite beam_hyps * local_batch_size beam_hyps + vector_id)) i
          (snd (select_cta_topk (MAX_T_VAL is_half) THREADBLOCK_SIZE beam_hyps
                  (ite beam_hyps * local_batch_size beam_hyps + vector_id)
                  (\<lambda>i. topk_val (vector_id * candidate_size + i)) candidate_size i))
        \<le> FLT_MAX"
  shows "ledger_ok (beam_width beam_hyps) (ite beam_hyps * local_batch_size beam_hyps + vector_id)
    (batch_topk_kernel_main is_half THREADBLOCK_SIZE topk_id topk_val old_cum_log_probs
       beam_hyps candidate_size vector_id)"
  unfolding batch_topk_kernel_main_def Let_def update_is_done_ledger
  by (rule select_loop_ledger [where cta_topk = "select_cta_topk (MAX_T_VAL is_half)
        THREADBLOCK_SIZE beam_hyps (ite beam_hyps * local_batch_size beam_hyps + vector_id)
        (\<lambda>i. topk_val (vector_id * candidate_size + i)) candidate_size",
      OF assms(1,2) _ assms(3)]) simp

text \<open>
  C2. For the request of a block and the beam width \<open>K\<close>, the step preserves the
  consistency of the ledger: afterwards the count of finished hypotheses is at most \<open>K\<close>
  and, when hypotheses are stored, the recorded minimum is the minimum of the normalised
  scores of exactly the stored hypotheses. The normalised scores of the candidates among
  the first \<open>K\<close> ranks are taken to be at most \<open>FLT_MAX\<close>, as every finite
  \<^verbatim>\<open>float\<close> is.
\<close>

theorem batch_topk_kernel_ledger_invariant:
  assumes "ledger_ok (beam_width beam_hyps) (ite beam_hyps * local_batch_size beam_hyps + vector_id) beam_hyps"
    and "\<forall>i. 0 \<le> i \<and> i < beam_width beam_hyps \<longrightarrow>
        candidate_normed_score beam_hyps vector_id (beam_width beam_hyps)
          (ite beam_hyps * local_batch_size beam_hyps + vector_id)
          (length_penalties beam_hyps (ite beam_hyps * local_batch_size beam_hyps + vector_id)) i
          (snd (select_cta_topk (MAX_T_VAL is_half) THREADBLOCK_SIZE beam_hyps
                  (ite beam_hyps * local_batch_size beam_hyps + vector_id)
                  (\<lambda>i. topk_val (vector_id * candidate_size + i)) candidate_size i))
        \<le> FLT_MAX"
  shows "ledger_ok (beam_width beam_hyps) (ite beam_hyps * local_batch_size beam_hyps + vector_id)
    (batch_topk_kernel is_half THREADBLOCK_SIZE topk_id topk_val beam_hyps candidate_size
       vector_id)"
proof -
  let ?g = "ite beam_hyps * local_batch_size beam_hyps + vector_id"
  let ?K = "beam_width beam_hyps"
  let ?old = "\<lambda>thread_id. if 0 \<le> thread_id \<and> thread_id < ?K \<and> thread_id < THREADBLOCK_SIZE
                          then cum_log_probs_src beam_hyps (vector_id * ?K + thread_id)
                          else undefined"
  from assms(1) have some: "num_beams beam_hyps \<noteq> None"
    by (simp add: ledger_ok_def)
  consider (empty) "the (num_beams beam_hyps) ?g = 0"
    | (full) "the (num_beams beam_hyps) ?g \<noteq> 0" "the (num_beams beam_hyps) ?g = ?K"
    | (part) "the (num_beams beam_hyps) ?g \<noteq> 0" "the (num_beams beam_hyps) ?g \<noteq> ?K"
    by blast
  then show ?thesis
  proof cases
    case empty
    let ?bh0 = "beam_hyps\<lparr> min_normed_scores := (min_normed_scores beam_hyps)(?g := FLT_MAX) \<rparr>"
    have k: "batch_topk_kernel is_half THREADBLOCK_SIZE topk_id topk_val beam_hyps candidate_size
        vector_id
      = batch_topk_kernel_main is_half THREADBLOCK_SIZE topk_id topk_val ?old ?bh0
          candidate_size vector_id"
      using some empty by (simp add: batch_topk_kernel_def Let_def)
    have ok0: "ledger_ok (beam_width ?bh0) (ite ?bh0 * local_batch_size ?bh0 + vector_id) ?bh0"
      using assms(1) empty by (simp add: ledger_ok_def)
    have e0: "the (num_beams ?bh0) (ite ?bh0 * local_batch_size ?bh0 + vector_id) = 0
      \<longrightarrow> min_normed_scores ?bh0 (ite ?bh0 * local_batch_size ?bh0 + vector_id) = FLT_MAX"
      by simp
    have b0: "\<forall>i. 0 \<le> i \<and> i < beam_width ?bh0 \<longrightarrow>
        candidate_normed_score ?bh0 vector_id (beam_width ?bh0)
          (ite ?bh0 * local_batch_size ?bh0 + vector_id)
          (length_penalties ?bh0 (ite ?bh0 * local_batch_size ?bh0 + vector_id)) i
          (snd (select_cta_topk (MAX_T_VAL is_half) THREADBLOCK_SIZE ?bh0
                  (ite ?bh0 * local_batch_size ?bh0 + vector_id)
                  (\<lambda>i. topk_val (vector_id * candidate_size + i)) candidate_size i))
        \<le> FLT_MAX"
      using assms(2) by (simp add: select_cta_topk_cong candidate_normed_score_def)
    have sel: "beam_width ?bh0 = ?K" "ite ?bh0 = ite beam_hyps"
      "local_batch_size ?bh0 = local_batch_size beam_hyps"
      by simp_all
    from batch_topk_kernel_main_ledger [OF ok0 e0 b0, of topk_id ?old]
    show ?thesis unfolding k sel .
  next
    case full
    then have "batch_topk_kernel is_half THREADBLOCK_SIZE topk_id topk_val beam_hyps
        candidate_size vector_id = beam_hyps"
      using some by (simp add: batch_topk_kernel_def Let_def)
    with assms(1) show ?thesis by simp
  next
    case part
    then have k: "batch_topk_kernel is_half THREADBLOCK_SIZE topk_id topk_val beam_hyps
        candidate_size vector_id
      = batch_topk_kernel_main is_half THREADBLOCK_SIZE topk_id topk_val ?old beam_hyps
          candidate_size vector_id"
      using some by (simp add: batch_topk_kernel_def Let_def)
    from part have "the (num_beams beam_hyps) ?g = 0 \<longrightarrow> min_normed_scores beam_hyps ?g = FLT_MAX"
      by simp
    from batch_topk_kernel_main_ledger [OF assms(1) this assms(2), of topk_id ?old]
    show ?thesis unfolding k .
  qed
qed

subsection \<open>Evaluation of the kernel\<close>

lemma topk_round_eval:
  assumes "BlockReduce ArgMax B part = tot"
    and "thread_partial_topk M cs B (buf(fst tot := - M)) (c_mod (fst tot) B) = p"
    and "i < 2 * K - 1"
  shows "topk_round M cs B K i (cta, buf, part)
    = (cta(i := tot), buf(fst tot := - M), part(c_mod (fst tot) B := p))"
  using assms by (simp add: topk_round_def Let_def)

lemma topk_round_last:
  assumes "BlockReduce ArgMax B part = tot"
    and "\<not> i < 2 * K - 1"
  shows "topk_round M cs B K i (cta, buf, part)
    = (cta(i := tot), buf(fst tot := - M), part)"
  using assms by (simp add: topk_round_def Let_def)

lemma upto_0_3: "[0..2 * 2 - 1] = [0, 1, 2, 3::int]"
  by code_simp

lemma upto_0_1: "[0..1] = [0, 1::int]"
  by code_simp

lemma c_mod_32: "c_mod 0 32 = 0" "c_mod 4 32 = 4" "c_mod 1 32 = 1" "c_mod 2 32 = 2"
  by (simp_all add: c_mod_def c_div_def)

lemmas select_loop_unroll =
  select_loop.simps [where i = 0] select_loop.simps [where i = 1]
  select_loop.simps [where i = 2] select_loop.simps [where i = 3]

lemmas copy_beam_unroll =
  copy_beam.simps [where j = 1] copy_beam.simps [where j = 0] copy_beam.simps [where j = "- 1"]

lemma tie_round_0:
  "topk_round FLT_MAX 8 32 2 0 (\<lambda>i. (0, 0), tie_buf_s, tie_partial_topk)
     = ((\<lambda>i. (0, 0))(0 := (0, - 1)), tie_buf_s(0 := - FLT_MAX),
        tie_partial_topk(0 := (0, - FLT_MAX)))"
proof -
  have b: "BlockReduce ArgMax 32 tie_partial_topk = (0, - 1)"
    by code_simp
  have p: "thread_partial_topk FLT_MAX 8 32 (tie_buf_s(0 := - FLT_MAX)) (c_mod 0 32)
      = (0, - FLT_MAX)"
    by code_simp
  from topk_round_eval [of 32 tie_partial_topk "(0, - 1)" FLT_MAX 8 tie_buf_s "(0, - FLT_MAX)" 0 2]
    b p c_mod_32
  show ?thesis by simp
qed

lemma tie_round_1:
  "topk_round FLT_MAX 8 32 2 1
     ((\<lambda>i. (0, 0))(0 := (0, - 1)), tie_buf_s(0 := - FLT_MAX),
      tie_partial_topk(0 := (0, - FLT_MAX)))
     = ((\<lambda>i. (0, 0))(0 := (0, - 1), 1 := (4, - 3)),
        tie_buf_s(0 := - FLT_MAX, 4 := - FLT_MAX),
        tie_partial_topk(0 := (0, - FLT_MAX), 4 := (4, - FLT_MAX)))"
proof -
  have b: "BlockReduce ArgMax 32 (tie_partial_topk(0 := (0, - FLT_MAX))) = (4, - 3)"
    by code_simp
  have p: "thread_partial_topk FLT_MAX 8 32 (tie_buf_s(0 := - FLT_MAX, 4 := - FLT_MAX))
      (c_mod 4 32) = (4, - FLT_MAX)"
    by code_simp
  from topk_round_eval [of 32 "tie_partial_topk(0 := (0, - FLT_MAX))" "(4, - 3)" FLT_MAX 8
      "tie_buf_s(0 := - FLT_MAX)" "(4, - FLT_MAX)" 1 2] b p c_mod_32
  show ?thesis by simp
qed

lemma tie_round_2:
  "topk_round FLT_MAX 8 32 2 2
     ((\<lambda>i. (0, 0))(0 := (0, - 1), 1 := (4, - 3)),
      tie_buf_s(0 := - FLT_MAX, 4 := - FLT_MAX),
      tie_partial_topk(0 := (0, - FLT_MAX), 4 := (4, - FLT_MAX)))
     = ((\<lambda>i. (0, 0))(0 := (0, - 1), 1 := (4, - 3), 2 := (1, - 11)),
        tie_buf_s(0 := - FLT_MAX, 4 := - FLT_MAX, 1 := - FLT_MAX),
        tie_partial_topk(0 := (0, - FLT_MAX), 4 := (4, - FLT_MAX), 1 := (1, - FLT_MAX)))"
proof -
  have b: "BlockReduce ArgMax 32 (tie_partial_topk(0 := (0, - FLT_MAX), 4 := (4, - FLT_MAX)))
      = (1, - 11)"
    by code_simp
  have p: "thread_partial_topk FLT_MAX 8 32
      (tie_buf_s(0 := - FLT_MAX, 4 := - FLT_MAX, 1 := - FLT_MAX)) (c_mod 1 32) = (1, - FLT_MAX)"
    by code_simp
  from topk_round_eval [of 32 "tie_partial_topk(0 := (0, - FLT_MAX), 4 := (4, - FLT_MAX))"
      "(1, - 11)" FLT_MAX 8 "tie_buf_s(0 := - FLT_MAX, 4 := - FLT_MAX)" "(1, - FLT_MAX)" 2 2]
    b p c_mod_32
  show ?thesis by simp
qed

lemma tie_round_3:
  "fst (topk_round FLT_MAX 8 32 2 3
     ((\<lambda>i. (0, 0))(0 := (0, - 1), 1 := (4, - 3), 2 := (1, - 11)),
      tie_buf_s(0 := - FLT_MAX, 4 := - FLT_MAX, 1 := - FLT_MAX),
      tie_partial_topk(0 := (0, - FLT_MAX), 4 := (4, - FLT_MAX), 1 := (1, - FLT_MAX))))
     = (\<lambda>i. (0, 0))(0 := (0, - 1), 1 := (4, - 3), 2 := (1, - 11), 3 := (2, - 12))"
proof -
  have b: "BlockReduce ArgMax 32
      (tie_partial_topk(0 := (0, - FLT_MAX), 4 := (4, - FLT_MAX), 1 := (1, - FLT_MAX)))
      = (2, - 12)"
    by code_simp
  from topk_round_last [of 32
      "tie_partial_topk(0 := (0, - FLT_MAX), 4 := (4, - FLT_MAX), 1 := (1, - FLT_MAX))"
      "(2, - 12)" 3 2] b
  show ?thesis by simp
qed

text \<open>The four best candidates of the request: candidates 0, 4, 1 and 2.\<close>

lemma tie_cta_topk:
  "select_cta_topk FLT_MAX 32 tie_beam_hyps 0 (\<lambda>i. tie_topk_val (0 * 8 + i)) 8
     = (\<lambda>i. (0, 0))(0 := (0, - 1), 1 := (4, - 3), 2 := (1, - 11), 3 := (2, - 12))"
proof -
  have K: "beam_width tie_beam_hyps = 2" by (simp add: tie_beam_hyps_def)
  show ?thesis
    unfolding select_cta_topk_def Let_def K upto_0_3
    by (simp only: fold.simps o_apply id_apply tie_buf_s_def [symmetric]
        tie_partial_topk_def [symmetric] tie_round_0 tie_round_1 tie_round_2 tie_round_3)
qed

lemma tie_kernel:
  "batch_topk_kernel False 32 tie_topk_id tie_topk_val tie_beam_hyps 8 0 = tie_result"
proof -
  have nb: "num_beams tie_beam_hyps = Some (\<lambda>i. 1)" "beam_width tie_beam_hyps = 2"
    "ite tie_beam_hyps = 0" "local_batch_size tie_beam_hyps = 1"
    by (simp_all add: tie_beam_hyps_def)
  show ?thesis
    apply (simp add: batch_topk_kernel_def batch_topk_kernel_main_def Let_def nb MAX_T_VAL_def
        tie_cta_topk [simplified])
    apply (simp add: select_loop_unroll candidate_body_def Let_def tie_topk_id_def
        tie_topk_val_def c_mod_def c_div_def candidate_normed_score_def apply_length_penalty_def
        isFinished_def erase_worst_beam_def store_beam_def select_beam_def copy_beam_unroll
        update_is_done_def apply_length_penalty_float_def upto_0_1 tie_beam_hyps_def
        FLT_MAX_def tie_result_def)
    done
qed

theorem batch_topk_kernel_ledger_invariant_witness:
  "ledger_ok 2 0 tie_beam_hyps
   \<and> ledger_ok 2 0 (batch_topk_kernel False 32 tie_topk_id tie_topk_val tie_beam_hyps 8 0)
   \<and> the (num_beams (batch_topk_kernel False 32 tie_topk_id tie_topk_val tie_beam_hyps 8 0)) 0 = 2
   \<and> min_normed_scores (batch_topk_kernel False 32 tie_topk_id tie_topk_val tie_beam_hyps 8 0) 0
       = - 3"
proof -
  have f: "beam_width tie_beam_hyps = 2" "ite tie_beam_hyps = 0"
    "local_batch_size tie_beam_hyps = 1" "length_penalties tie_beam_hyps 0 = 0"
    by (simp_all add: tie_beam_hyps_def)
  have s: "{0..<1::int} = {0}" by auto
  have ok: "ledger_ok 2 0 tie_beam_hyps"
    by (simp add: ledger_ok_def tie_beam_hyps_def s)
  have bound: "\<forall>i. 0 \<le> i \<and> i < 2 \<longrightarrow>
      candidate_normed_score tie_beam_hyps 0 2 0 0 i
        (snd (select_cta_topk (MAX_T_VAL False) 32 tie_beam_hyps 0
                (\<lambda>i. tie_topk_val (0 * 8 + i)) 8 i)) \<le> FLT_MAX"
  proof (intro allI impI)
    fix i :: int
    assume "0 \<le> i \<and> i < 2"
    then have "i = 0 \<or> i = 1" by auto
    then show "candidate_normed_score tie_beam_hyps 0 2 0 0 i
        (snd (select_cta_topk (MAX_T_VAL False) 32 tie_beam_hyps 0
                (\<lambda>i. tie_topk_val (0 * 8 + i)) 8 i)) \<le> FLT_MAX"
      by (auto simp: MAX_T_VAL_def tie_cta_topk [simplified] candidate_normed_score_def
          apply_length_penalty_def) (simp_all add: FLT_MAX_def)
  qed
  from batch_topk_kernel_ledger_invariant [of tie_beam_hyps 0 False 32 tie_topk_val 8 tie_topk_id]
    ok bound
  have "ledger_ok 2 0 (batch_topk_kernel False 32 tie_topk_id tie_topk_val tie_beam_hyps 8 0)"
    by (simp add: f)
  moreover have "the (num_beams tie_result) 0 = 2" "min_normed_scores tie_result 0 = - 3"
    by (simp_all add: tie_result_def)
  ultimately show ?thesis
    using ok by (simp add: tie_kernel)
qed

subsection \<open>An end-of-sequence candidate at a full ledger\<close>

lemma erase_worst_beam_found:
  assumes "List.find (\<lambda>j. normed_scores beam_hyps (g * (K * 2) + j)
                           = min_normed_scores beam_hyps g) [0..K - 1] = Some j"
  shows "fst (erase_worst_beam K g normed_score beam_hyps) = j"
    and "num_beams (snd (erase_worst_beam K g normed_score beam_hyps))
        = Some ((the (num_beams beam_hyps))(g := the (num_beams beam_hyps) g - 1))"
  using assms by (simp_all add: erase_worst_beam_def Let_def fold_min_frame)

text \<open>
  C1 (as amended). When an end-of-sequence candidate of rank \<open>i < K\<close> is considered and
  the ledger already holds \<open>K\<close> hypotheses: if its normalised score is strictly less than
  the stored minimum, the loop stops there with the memory as it is, so that the
  candidate and all the remaining candidates of the step are discarded; otherwise, also
  when the score equals the stored minimum, the first slot whose score is the stored
  minimum is overwritten with the candidate (its score, its cumulative log-probability
  and its length), the count stays \<open>K\<close> and the loop goes on.
\<close>

theorem full_ledger_end_candidate:
  assumes "0 \<le> i" and "i < K"
    and "num_beams beam_hyps \<noteq> None" and "the (num_beams beam_hyps) g = K"
    and "c_mod (topk_id (fst (cta_topk i))) (vocab_size beam_hyps) = end_ids beam_hyps vector_id"
  shows "(candidate_normed_score beam_hyps vector_id K g length_penalty i (snd (cta_topk i))
            < min_normed_scores beam_hyps g
          \<longrightarrow> select_loop topk_id topk_val cta_topk old_cum_log_probs vector_id K g
                length_penalty i (selected_beams, beam_hyps) = (K, beam_hyps))
    \<and> (min_normed_scores beam_hyps g
            \<le> candidate_normed_score beam_hyps vector_id K g length_penalty i (snd (cta_topk i))
          \<and> List.find (\<lambda>j. normed_scores beam_hyps (g * (K * 2) + j)
                              = min_normed_scores beam_hyps g) [0..K - 1] = Some j
          \<longrightarrow> \<not> fst (candidate_body topk_id topk_val cta_topk old_cum_log_probs vector_id K g
                      length_penalty i (selected_beams, beam_hyps))
              \<and> fst (snd (candidate_body topk_id topk_val cta_topk old_cum_log_probs vector_id
                      K g length_penalty i (selected_beams, beam_hyps))) = selected_beams
              \<and> normed_scores (snd (snd (candidate_body topk_id topk_val cta_topk
                      old_cum_log_probs vector_id K g length_penalty i
                      (selected_beams, beam_hyps)))) (g * (K * 2) + j)
                  = candidate_normed_score beam_hyps vector_id K g length_penalty i
                      (snd (cta_topk i))
              \<and> cum_log_probs (snd (snd (candidate_body topk_id topk_val cta_topk
                      old_cum_log_probs vector_id K g length_penalty i
                      (selected_beams, beam_hyps)))) (g * (K * 2) + j)
                  = topk_val (fst (cta_topk i))
              \<and> sequence_lengths_tgt (snd (snd (candidate_body topk_id topk_val cta_topk
                      old_cum_log_probs vector_id K g length_penalty i
                      (selected_beams, beam_hyps)))) (g * (K * 2) + j)
                  = sequence_lengths_src beam_hyps
                      (vector_id * K
                       + c_mod (c_div (topk_id (fst (cta_topk i))) (vocab_size beam_hyps)) K)
              \<and> the (num_beams (snd (snd (candidate_body topk_id topk_val cta_topk
                      old_cum_log_probs vector_id K g length_penalty i
                      (selected_beams, beam_hyps))))) g = K)"
proof (intro conjI impI)
  let ?normed = "candidate_normed_score beam_hyps vector_id K g length_penalty i (snd (cta_topk i))"
  let ?body = "candidate_body topk_id topk_val cta_topk old_cum_log_probs vector_id K g
      length_penalty i (selected_beams, beam_hyps)"
  {
    assume "?normed < min_normed_scores beam_hyps g"
    then have "?body = (True, K, beam_hyps)"
      using assms by (simp add: candidate_body_def Let_def)
    moreover have "i < 2 * K" using assms(1,2) by simp
    ultimately show "select_loop topk_id topk_val cta_topk old_cum_log_probs vector_id K g
        length_penalty i (selected_beams, beam_hyps) = (K, beam_hyps)"
      by (subst select_loop.simps) simp
  }
  assume a: "min_normed_scores beam_hyps g \<le> ?normed
      \<and> List.find (\<lambda>j. normed_scores beam_hyps (g * (K * 2) + j)
                          = min_normed_scores beam_hyps g) [0..K - 1] = Some j"
  then have nl: "\<not> ?normed < min_normed_scores beam_hyps g" by simp
  note e = erase_worst_beam_found [of beam_hyps g K j ?normed, OF conjunct2 [OF a]]
  have body: "?body = (False, selected_beams,
      store_beam topk_id topk_val old_cum_log_probs vector_id K g (fst (cta_topk i)) ?normed j
        (snd (erase_worst_beam K g ?normed beam_hyps)))"
    using assms nl e(1) by (simp add: candidate_body_def Let_def case_prod_beta)
  show "\<not> fst ?body" "fst (snd ?body) = selected_beams"
    unfolding body by simp_all
  show "normed_scores (snd (snd ?body)) (g * (K * 2) + j) = ?normed"
    unfolding body by (simp add: store_beam_ledger)
  show "cum_log_probs (snd (snd ?body)) (g * (K * 2) + j) = topk_val (fst (cta_topk i))"
    unfolding body by (simp add: store_beam_ledger)
  show "sequence_lengths_tgt (snd (snd ?body)) (g * (K * 2) + j)
      = sequence_lengths_src beam_hyps
          (vector_id * K + c_mod (c_div (topk_id (fst (cta_topk i))) (vocab_size beam_hyps)) K)"
    unfolding body by (simp add: store_beam_ledger erase_worst_beam_fields)
  show "the (num_beams (snd (snd ?body))) g = K"
    unfolding body using assms(4) by (simp add: store_beam_ledger e(2))
qed


theorem full_ledger_end_candidate_witness:
  "select_loop tie_topk_id tie_topk_val ((\<lambda>i. (0, 0))(1 := (4, - 4))) (\<lambda>i. 0) 0 2 0 0 1
      (0, full_beam_hyps) = (2, full_beam_hyps)
   \<and> \<not> fst (candidate_body tie_topk_id tie_topk_val ((\<lambda>i. (0, 0))(1 := (4, - 3))) (\<lambda>i. 0)
            0 2 0 0 1 (0, full_beam_hyps))
   \<and> normed_scores (snd (snd (candidate_body tie_topk_id tie_topk_val
          ((\<lambda>i. (0, 0))(1 := (4, - 3))) (\<lambda>i. 0) 0 2 0 0 1 (0, full_beam_hyps)))) 0 = - 3
   \<and> sequence_lengths_tgt (snd (snd (candidate_body tie_topk_id tie_topk_val
          ((\<lambda>i. (0, 0))(1 := (4, - 3))) (\<lambda>i. 0) 0 2 0 0 1 (0, full_beam_hyps)))) 0 = 2
   \<and> the (num_beams (snd (snd (candidate_body tie_topk_id tie_topk_val
          ((\<lambda>i. (0, 0))(1 := (4, - 3))) (\<lambda>i. 0) 0 2 0 0 1 (0, full_beam_hyps))))) 0 = 2"
proof -
  have f: "num_beams full_beam_hyps \<noteq> None" "the (num_beams full_beam_hyps) 0 = 2"
    "vocab_size full_beam_hyps = 3" "end_ids full_beam_hyps 0 = 0"
    "min_normed_scores full_beam_hyps 0 = - 3"
    "sequence_lengths_src full_beam_hyps 1 = 2"
    by (simp_all add: full_beam_hyps_def tie_beam_hyps_def)
  have e: "c_mod (tie_topk_id 4) 3 = 0" "c_mod (c_div (tie_topk_id 4) 3) 2 = 1"
    by (simp_all add: tie_topk_id_def c_mod_def c_div_def)
  have n: "candidate_normed_score full_beam_hyps 0 2 0 0 1 v = v" for v
    by (simp add: candidate_normed_score_def apply_length_penalty_def)
  have find: "List.find (\<lambda>j. normed_scores full_beam_hyps (0 * (2 * 2) + j)
      = min_normed_scores full_beam_hyps 0) [0..2 - 1] = Some 0"
    by (simp add: upto_0_1 full_beam_hyps_def tie_beam_hyps_def)
  from full_ledger_end_candidate [where i = 1 and K = 2 and beam_hyps = full_beam_hyps
      and g = 0 and topk_id = tie_topk_id and cta_topk = "(\<lambda>i. (0, 0))(1 := (4, - 4))"
      and vector_id = 0 and length_penalty = 0 and topk_val = tie_topk_val
      and old_cum_log_probs = "\<lambda>i. 0" and selected_beams = 0 and j = 0]
  have 1: "select_loop tie_topk_id tie_topk_val ((\<lambda>i. (0, 0))(1 := (4, - 4))) (\<lambda>i. 0) 0 2 0 0 1
      (0, full_beam_hyps) = (2, full_beam_hyps)"
    by (simp add: f e n)
  from full_ledger_end_candidate [where i = 1 and K = 2 and beam_hyps = full_beam_hyps
      and g = 0 and topk_id = tie_topk_id and cta_topk = "(\<lambda>i. (0, 0))(1 := (4, - 3))"
      and vector_id = 0 and length_penalty = 0 and topk_val = tie_topk_val
      and old_cum_log_probs = "\<lambda>i. 0" and selected_beams = 0 and j = 0] find
  have 2: "\<not> fst (candidate_body tie_topk_id tie_topk_val ((\<lambda>i. (0, 0))(1 := (4, - 3))) (\<lambda>i. 0)
            0 2 0 0 1 (0, full_beam_hyps))
   \<and> normed_scores (snd (snd (candidate_body tie_topk_id tie_topk_val
          ((\<lambda>i. (0, 0))(1 := (4, - 3))) (\<lambda>i. 0) 0 2 0 0 1 (0, full_beam_hyps)))) 0 = - 3
   \<and> sequence_lengths_tgt (snd (snd (candidate_body tie_topk_id tie_topk_val
          ((\<lambda>i. (0, 0))(1 := (4, - 3))) (\<lambda>i. 0) 0 2 0 0 1 (0, full_beam_hyps)))) 0 = 2
   \<and> the (num_beams (snd (snd (candidate_body tie_topk_id tie_topk_val
          ((\<lambda>i. (0, 0))(1 := (4, - 3))) (\<lambda>i. 0) 0 2 0 0 1 (0, full_beam_hyps))))) 0 = 2"
    by (simp add: f e n)
  from 1 2 show ?thesis by blast
qed

text \<open>
  The claim as stated fails on a tie. In the request \<open>tie_beam_hyps\<close> the ledger holds the
  score -3 in slot 0 (length 1, first token 5). The candidate of rank 0 is the end token
  of beam 0 with score -1 and fills the ledger; the candidate of rank 1 is the end token
  of beam 1 with the normalised score -3, equal to the stored minimum. It is not rejected:
  after the step, slot 0 holds the tokens of beam 1 and the length 2. The same is seen on
  the body of the loop at the full ledger \<open>full_beam_hyps\<close>.
\<close>

theorem tie_replaces_worst_counterexample:
  "the (num_beams tie_beam_hyps) 0 = 1
   \<and> min_normed_scores tie_beam_hyps 0 = - 3
   \<and> normed_scores tie_beam_hyps 0 = - 3
   \<and> sequence_lengths_tgt tie_beam_hyps 0 = 1
   \<and> output_ids_tgt tie_beam_hyps 0 = 5
   \<and> select_cta_topk FLT_MAX 32 tie_beam_hyps 0 (\<lambda>i. tie_topk_val (0 * 8 + i)) 8 1 = (4, - 3)
   \<and> c_mod (tie_topk_id 4) (vocab_size tie_beam_hyps) = end_ids tie_beam_hyps 0
   \<and> candidate_normed_score tie_beam_hyps 0 2 0 0 1 (- 3) = - 3
   \<and> sequence_lengths_tgt
        (batch_topk_kernel False 32 tie_topk_id tie_topk_val tie_beam_hyps 8 0) 0 = 2
   \<and> output_ids_tgt
        (batch_topk_kernel False 32 tie_topk_id tie_topk_val tie_beam_hyps 8 0) 0 = 11
   \<and> the (num_beams
        (batch_topk_kernel False 32 tie_topk_id tie_topk_val tie_beam_hyps 8 0)) 0 = 2
   \<and> the (num_beams full_beam_hyps) 0 = beam_width full_beam_hyps
   \<and> candidate_normed_score full_beam_hyps 0 2 0 0 1 (- 3) = min_normed_scores full_beam_hyps 0
   \<and> sequence_lengths_tgt full_beam_hyps 0 = 1
   \<and> \<not> fst (candidate_body tie_topk_id tie_topk_val ((\<lambda>i. (0, 0))(1 := (4, - 3))) (\<lambda>i. 0)
            0 2 0 0 1 (0, full_beam_hyps))
   \<and> sequence_lengths_tgt (snd (snd (candidate_body tie_topk_id tie_topk_val
          ((\<lambda>i. (0, 0))(1 := (4, - 3))) (\<lambda>i. 0) 0 2 0 0 1 (0, full_beam_hyps)))) 0 = 2"
proof -
  have entry: "the (num_beams tie_beam_hyps) 0 = 1" "min_normed_scores tie_beam_hyps 0 = - 3"
    "normed_scores tie_beam_hyps 0 = - 3" "sequence_lengths_tgt tie_beam_hyps 0 = 1"
    "output_ids_tgt tie_beam_hyps 0 = 5"
    "c_mod (tie_topk_id 4) (vocab_size tie_beam_hyps) = end_ids tie_beam_hyps 0"
    "candidate_normed_score tie_beam_hyps 0 2 0 0 1 (- 3) = - 3"
    by (simp_all add: tie_beam_hyps_def tie_topk_id_def c_mod_def c_div_def
        candidate_normed_score_def apply_length_penalty_def)
  have rank1: "select_cta_topk FLT_MAX 32 tie_beam_hyps 0 (\<lambda>i. tie_topk_val (0 * 8 + i)) 8 1
      = (4, - 3)"
    by (simp add: tie_cta_topk [simplified])
  have after: "sequence_lengths_tgt tie_result 0 = 2" "output_ids_tgt tie_result 0 = 11"
    "the (num_beams tie_result) 0 = 2"
    by (simp_all add: tie_result_def)
  have full: "the (num_beams full_beam_hyps) 0 = beam_width full_beam_hyps"
    "candidate_normed_score full_beam_hyps 0 2 0 0 1 (- 3) = min_normed_scores full_beam_hyps 0"
    "sequence_lengths_tgt full_beam_hyps 0 = 1"
    by (simp_all add: full_beam_hyps_def tie_beam_hyps_def candidate_normed_score_def
        apply_length_penalty_def)
  have body: "\<not> fst (candidate_body tie_topk_id tie_topk_val ((\<lambda>i. (0, 0))(1 := (4, - 3)))
        (\<lambda>i. 0) 0 2 0 0 1 (0, full_beam_hyps))
    \<and> sequence_lengths_tgt (snd (snd (candidate_body tie_topk_id tie_topk_val
          ((\<lambda>i. (0, 0))(1 := (4, - 3))) (\<lambda>i. 0) 0 2 0 0 1 (0, full_beam_hyps)))) 0 = 2"
    by (simp add: candidate_body_def Let_def tie_topk_id_def tie_topk_val_def c_mod_def c_div_def
        candidate_normed_score_def apply_length_penalty_def isFinished_def erase_worst_beam_def
        store_beam_def copy_beam_unroll upto_0_1 full_beam_hyps_def tie_beam_hyps_def
        FLT_MAX_def)
  show ?thesis
    unfolding tie_kernel using entry rank1 after full body by blast
qed

subsection \<open>A request whose ledger is full at entry\<close>

text \<open>
  C9. If at entry to the step the request already holds \<open>beam_width\<close> finished
  hypotheses, the kernel returns at once and the whole memory is as before: the ledger,
  the cumulative log-probabilities of the live beams, the output tokens and the done flag.
\<close>

theorem batch_topk_kernel_full_at_entry:
  assumes "num_beams beam_hyps \<noteq> None" and "0 < beam_width beam_hyps"
    and "the (num_beams beam_hyps) (ite beam_hyps * local_batch_size beam_hyps + vector_id)
          = beam_width beam_hyps"
  shows "batch_topk_kernel is_half THREADBLOCK_SIZE topk_id topk_val beam_hyps candidate_size
           vector_id = beam_hyps"
  using assms by (simp add: batch_topk_kernel_def Let_def)

theorem batch_topk_kernel_full_at_entry_witness:
  "batch_topk_kernel False 32 tie_topk_id tie_topk_val full_beam_hyps 8 0 = full_beam_hyps"
proof -
  have "num_beams full_beam_hyps \<noteq> None" "0 < beam_width full_beam_hyps"
    "the (num_beams full_beam_hyps) (ite full_beam_hyps * local_batch_size full_beam_hyps + 0)
      = beam_width full_beam_hyps"
    by (simp_all add: full_beam_hyps_def tie_beam_hyps_def)
  then show ?thesis by (rule batch_topk_kernel_full_at_entry)
qed

subsection \<open>The done flag\<close>

lemma div_round_0:
  "topk_round FLT_MAX 8 32 2 0 (\<lambda>i. (0, 0), div_buf_s, div_partial_topk)
     = ((\<lambda>i. (0, 0))(0 := (0, - 1)), div_buf_s(0 := - FLT_MAX),
        div_partial_topk(0 := (0, - FLT_MAX)))"
proof -
  have b: "BlockReduce ArgMax 32 div_partial_topk = (0, - 1)"
    by code_simp
  have p: "thread_partial_topk FLT_MAX 8 32 (div_buf_s(0 := - FLT_MAX)) (c_mod 0 32)
      = (0, - FLT_MAX)"
    by code_simp
  from topk_round_eval [of 32 div_partial_topk "(0, - 1)" FLT_MAX 8 div_buf_s "(0, - FLT_MAX)" 0 2]
    b p c_mod_32
  show ?thesis by simp
qed

lemma div_round_1:
  "topk_round FLT_MAX 8 32 2 1
     ((\<lambda>i. (0, 0))(0 := (0, - 1)), div_buf_s(0 := - FLT_MAX),
      div_partial_topk(0 := (0, - FLT_MAX)))
     = ((\<lambda>i. (0, 0))(0 := (0, - 1), 1 := (4, - 2)),
        div_buf_s(0 := - FLT_MAX, 4 := - FLT_MAX),
        div_partial_topk(0 := (0, - FLT_MAX), 4 := (4, - FLT_MAX)))"
proof -
  have b: "BlockReduce ArgMax 32 (div_partial_topk(0 := (0, - FLT_MAX))) = (4, - 2)"
    by code_simp
  have p: "thread_partial_topk FLT_MAX 8 32 (div_buf_s(0 := - FLT_MAX, 4 := - FLT_MAX))
      (c_mod 4 32) = (4, - FLT_MAX)"
    by code_simp
  from topk_round_eval [of 32 "div_partial_topk(0 := (0, - FLT_MAX))" "(4, - 2)" FLT_MAX 8
      "div_buf_s(0 := - FLT_MAX)" "(4, - FLT_MAX)" 1 2] b p c_mod_32
  show ?thesis by simp
qed

lemma div_round_2:
  "topk_round FLT_MAX 8 32 2 2
     ((\<lambda>i. (0, 0))(0 := (0, - 1), 1 := (4, - 2)),
      div_buf_s(0 := - FLT_MAX, 4 := - FLT_MAX),
      div_partial_topk(0 := (0, - FLT_MAX), 4 := (4, - FLT_MAX)))
     = ((\<lambda>i. (0, 0))(0 := (0, - 1), 1 := (4, - 2), 2 := (1, - 5 / 2)),
        div_buf_s(0 := - FLT_MAX, 4 := - FLT_MAX, 1 := - FLT_MAX),
        div_partial_topk(0 := (0, - FLT_MAX), 4 := (4, - FLT_MAX), 1 := (1, - FLT_MAX)))"
proof -
  have b: "BlockReduce ArgMax 32 (div_partial_topk(0 := (0, - FLT_MAX), 4 := (4, - FLT_MAX)))
      = (1, - 5 / 2)"
    by code_simp
  have p: "thread_partial_topk FLT_MAX 8 32
      (div_buf_s(0 := - FLT_MAX, 4 := - FLT_MAX, 1 := - FLT_MAX)) (c_mod 1 32) = (1, - FLT_MAX)"
    by code_simp
  from topk_round_eval [of 32 "div_partial_topk(0 := (0, - FLT_MAX), 4 := (4, - FLT_MAX))"
      "(1, - 5 / 2)" FLT_MAX 8 "div_buf_s(0 := - FLT_MAX, 4 := - FLT_MAX)" "(1, - FLT_MAX)" 2 2]
    b p c_mod_32
  show ?thesis by simp
qed

lemma div_round_3:
  "fst (topk_round FLT_MAX 8 32 2 3
     ((\<lambda>i. (0, 0))(0 := (0, - 1), 1 := (4, - 2), 2 := (1, - 5 / 2)),
      div_buf_s(0 := - FLT_MAX, 4 := - FLT_MAX, 1 := - FLT_MAX),
      div_partial_topk(0 := (0, - FLT_MAX), 4 := (4, - FLT_MAX), 1 := (1, - FLT_MAX))))
     = (\<lambda>i. (0, 0))(0 := (0, - 1), 1 := (4, - 2), 2 := (1, - 5 / 2), 3 := (2, - 12))"
proof -
  have b: "BlockReduce ArgMax 32
      (div_partial_topk(0 := (0, - FLT_MAX), 4 := (4, - FLT_MAX), 1 := (1, - FLT_MAX)))
      = (2, - 12)"
    by code_simp
  from topk_round_last [of 32
      "div_partial_topk(0 := (0, - FLT_MAX), 4 := (4, - FLT_MAX), 1 := (1, - FLT_MAX))"
      "(2, - 12)" 3 2] b
  show ?thesis by simp
qed

text \<open>The four best candidates of the request: candidates 0, 4, 1 and 2.\<close>

lemma div_cta_topk:
  "select_cta_topk FLT_MAX 32 div_beam_hyps 0 (\<lambda>i. div_topk_val (0 * 8 + i)) 8
     = (\<lambda>i. (0, 0))(0 := (0, - 1), 1 := (4, - 2), 2 := (1, - 5 / 2), 3 := (2, - 12))"
proof -
  have K: "beam_width div_beam_hyps = 2" by (simp add: div_beam_hyps_def)
  show ?thesis
    unfolding select_cta_topk_def Let_def K upto_0_3
    by (simp only: fold.simps o_apply id_apply div_buf_s_def [symmetric]
        div_partial_topk_def [symmetric] div_round_0 div_round_1 div_round_2 div_round_3)
qed

lemma div_kernel:
  "batch_topk_kernel False 32 div_topk_id div_topk_val div_beam_hyps 8 0 = div_result"
proof -
  have nb: "num_beams div_beam_hyps = Some (\<lambda>i. 1)" "beam_width div_beam_hyps = 2"
    "ite div_beam_hyps = 0" "local_batch_size div_beam_hyps = 1"
    by (simp_all add: div_beam_hyps_def)
  show ?thesis
    apply (simp add: batch_topk_kernel_def batch_topk_kernel_main_def Let_def nb MAX_T_VAL_def
        div_cta_topk [simplified])
    apply (simp add: select_loop_unroll candidate_body_def Let_def div_topk_id_def
        div_topk_val_def c_mod_def c_div_def candidate_normed_score_def apply_length_penalty_def
        isFinished_def erase_worst_beam_def store_beam_def select_beam_def copy_beam_unroll
        update_is_done_def apply_length_penalty_float_def upto_0_1 div_beam_hyps_def
        FLT_MAX_def div_result_def)
    done
qed

text \<open>The two readings of \<^verbatim>\<open>apply_length_penalty\<close> agree at a length of at least 1.\<close>

lemma apply_length_penalty_float_finite:
  assumes "1 \<le> len \<or> length_penalty = 0"
  shows "apply_length_penalty_float log_prob len length_penalty
    = Finite (apply_length_penalty log_prob len length_penalty)"
proof (cases "length_penalty = 0 \<or> len = 1")
  case True
  then show ?thesis by (simp add: apply_length_penalty_float_def apply_length_penalty_def)
next
  case False
  with assms have "0 < len" by simp
  then have "real_of_int len powr length_penalty \<noteq> 0" by simp
  with False \<open>0 < len\<close> show ?thesis
    by (simp add: apply_length_penalty_float_def apply_length_penalty_def powf_def)
qed

text \<open>
  At the first generated token the length is 0: with a positive penalty a negative score
  becomes minus infinity, which every stored score reaches.
\<close>

lemma apply_length_penalty_float_first_token:
  "apply_length_penalty_float (- 11) 0 1 = NegInf \<and> float_ge (- 3) (apply_length_penalty_float (- 11) 0 1)"
  by (simp add: apply_length_penalty_float_def powf_def)

text \<open>
  C3. A request is to be marked done, with early stopping off, only once no live beam can
  still exceed the worst stored hypothesis at the live beam's current length. The kernel
  compares the worst stored score with the score of the live beam 0 alone, which is the
  best live beam only without a diversity term. In the request \<open>div_beam_hyps\<close> (mode 0)
  the end token of beam 0 fills the ledger, whose worst score stays -11/4. The diversity
  term ranks the continuation of beam 1 (score -3) before that of beam 0 (score -5/2),
  so the new live beam 0 has the cumulative log-probability -3 and the new live beam 1
  has -5/2. The request is marked done, although the live beam 1, normalised at its
  current generated length, exceeds the worst stored score.
\<close>

theorem done_while_live_beam_exceeds:
  "early_stoppings div_beam_hyps 0 = 0
   \<and> the (num_beams (batch_topk_kernel False 32 div_topk_id div_topk_val div_beam_hyps 8 0)) 0
       = beam_width div_beam_hyps
   \<and> is_done (batch_topk_kernel False 32 div_topk_id div_topk_val div_beam_hyps 8 0) 0
   \<and> min_normed_scores (batch_topk_kernel False 32 div_topk_id div_topk_val div_beam_hyps 8 0) 0
       = - 11 / 4
   \<and> cum_log_probs_src (batch_topk_kernel False 32 div_topk_id div_topk_val div_beam_hyps 8 0) 0
       = - 3
   \<and> cum_log_probs_src (batch_topk_kernel False 32 div_topk_id div_topk_val div_beam_hyps 8 0) 1
       = - 5 / 2
   \<and> apply_length_penalty
        (cum_log_probs_src (batch_topk_kernel False 32 div_topk_id div_topk_val div_beam_hyps 8 0) 1)
        (sequence_lengths_src
           (batch_topk_kernel False 32 div_topk_id div_topk_val div_beam_hyps 8 0) 1
         - input_lengths (batch_topk_kernel False 32 div_topk_id div_topk_val div_beam_hyps 8 0) 0)
        (length_penalties div_beam_hyps 0)
       > min_normed_scores
           (batch_topk_kernel False 32 div_topk_id div_topk_val div_beam_hyps 8 0) 0"
  unfolding div_kernel
  by (simp add: div_result_def div_beam_hyps_def apply_length_penalty_def)

subsection \<open>Candidates of a finished beam\<close>

lemma strided_member:
  assumes "0 < B" and "first \<le> i" and "i < n" and "(i - first) mod B = 0"
  shows "i \<in> set (strided first n B)"
  using assms
proof (induction first n B rule: strided.induct)
  case (1 first n B)
  show ?case
  proof (cases "i = first")
    case True
    with "1.prems" show ?thesis by (subst strided.simps) simp
  next
    case False
    with "1.prems" have lt: "first < i" by simp
    from "1.prems"(4) have "B dvd (i - first)" by (simp add: dvd_eq_mod_eq_0)
    with lt have "B \<le> i - first" by (intro zdvd_imp_le) simp_all
    then have ge: "first + B \<le> i" by simp
    have "i - (first + B) = (i - first) - B" by simp
    then have "(i - (first + B)) mod B = 0"
      using "1.prems"(4) by (simp only: minus_mod_self2)
    from "1.IH" [OF _ "1.prems"(1) ge "1.prems"(3) this] "1.prems" lt
    show ?thesis by (subst strided.simps) simp
  qed
qed

text \<open>The functor \<^verbatim>\<open>arg_max\<close>, folded over a list.\<close>

lemma fold_ArgMax:
  "(fold (\<lambda>x acc. ArgMax acc (f x)) xs a = a \<or> fold (\<lambda>x acc. ArgMax acc (f x)) xs a \<in> f ` set xs)
   \<and> snd a \<le> snd (fold (\<lambda>x acc. ArgMax acc (f x)) xs a)
   \<and> (\<forall>x\<in>set xs. snd (f x) \<le> snd (fold (\<lambda>x acc. ArgMax acc (f x)) xs a))"
proof (induction xs arbitrary: a)
  case Nil
  show ?case by simp
next
  case (Cons x xs)
  let ?a = "ArgMax a (f x)"
  have a: "(?a = a \<or> ?a = f x) \<and> snd a \<le> snd ?a \<and> snd (f x) \<le> snd ?a"
    by (auto simp: ArgMax_def)
  from Cons.IH [of ?a] a show ?case
    by (simp del: ArgMax_def) (metis order_trans)
qed

text \<open>A list of items with one item \<open>e\<close> of the largest value: the fold finds it.\<close>

lemma fold_ArgMax_top:
  assumes all: "\<forall>x\<in>set xs. snd (f x) < snd e \<or> f x = e"
    and a: "snd a < snd e \<or> a = e"
  shows "snd (fold (\<lambda>x acc. ArgMax acc (f x)) xs a) < snd e
      \<or> fold (\<lambda>x acc. ArgMax acc (f x)) xs a = e"
    and "a = e \<or> e \<in> f ` set xs \<Longrightarrow> fold (\<lambda>x acc. ArgMax acc (f x)) xs a = e"
proof -
  let ?r = "fold (\<lambda>x acc. ArgMax acc (f x)) xs a"
  from fold_ArgMax [of f xs a] have r: "?r = a \<or> ?r \<in> f ` set xs"
    and ge: "snd a \<le> snd ?r" "\<forall>x\<in>set xs. snd (f x) \<le> snd ?r"
    by blast+
  from r all a show 1: "snd ?r < snd e \<or> ?r = e" by auto
  assume "a = e \<or> e \<in> f ` set xs"
  with ge have "snd e \<le> snd ?r" by auto
  with 1 show "?r = e" by auto
qed

lemma BlockReduce_ArgMax_top:
  assumes B: "0 < B" and t: "0 \<le> t" "t < B" and top: "partial t = e"
    and all: "\<forall>t. snd (partial t) < snd e \<or> partial t = e"
  shows "BlockReduce ArgMax B partial = e"
proof -
  have "t = 0 \<or> t \<in> set [1..B - 1]" using t by auto
  then have "partial 0 = e \<or> e \<in> partial ` set [1..B - 1]"
    using top by auto
  from fold_ArgMax_top(2) [of "[1..B - 1]" partial e "partial 0", OF _ _ this] all
  show ?thesis by (simp add: BlockReduce_def)
qed


text \<open>The arg-max returns one of the items.\<close>

lemma fold_ArgMax_pred:
  assumes "P a" and "\<forall>x\<in>set xs. P (f x)"
  shows "P (fold (\<lambda>x acc. ArgMax acc (f x)) xs a)"
proof -
  from fold_ArgMax [of f xs a]
  have "fold (\<lambda>x acc. ArgMax acc (f x)) xs a = a
      \<or> fold (\<lambda>x acc. ArgMax acc (f x)) xs a \<in> f ` set xs"
    by blast
  with assms show ?thesis by auto
qed

lemma BlockReduce_ArgMax_pred:
  assumes "\<forall>t. P (partial t)"
  shows "P (BlockReduce ArgMax B partial)"
  unfolding BlockReduce_def
  by (rule fold_ArgMax_pred [where P = P and f = partial]) (simp_all add: assms)

text \<open>The container of the best pairs, when one pair \<open>e\<close> has the largest value.\<close>

lemma set_TopK_place: "set (TopK_place x t) = insert x (set t)"
  by (induction t) auto

lemma length_TopK_place: "length (TopK_place x t) = Suc (length t)"
  by (induction t) auto

lemma length_TopK_insert: "length (TopK_insert v i t) = length t"
  by (simp add: TopK_insert_def length_TopK_place)

lemma dominated_TopK_insert:
  assumes "dominated_by e t" and "(i, v) = e \<or> v < snd e"
  shows "dominated_by e (TopK_insert v i t)"
proof -
  have "set (TopK_insert v i t) \<subseteq> insert (i, v) (set t)"
    unfolding TopK_insert_def using set_take_subset [of "length t" "TopK_place (i, v) t"]
    by (simp add: set_TopK_place)
  with assms show ?thesis by (auto simp: dominated_by_def)
qed

lemma hd_TopK_place_keep:
  assumes "led_by e t" and "fst e \<noteq> - 1" and "x = e \<or> snd x < snd e"
  shows "hd (TopK_place x t) = e"
  using assms by (cases t) (auto simp: led_by_def)

lemma hd_TopK_place_new:
  assumes "dominated_by e t" and "fst e \<noteq> - 1"
  shows "hd (TopK_place e t) = e"
proof (cases t)
  case Nil
  then show ?thesis by simp
next
  case (Cons y ys)
  with assms(1) have "y = e \<or> snd y < snd e" by (simp add: dominated_by_def)
  with Cons assms(2) show ?thesis by auto
qed

lemma led_TopK_insert:
  assumes "dominated_by e t" and "fst e \<noteq> - 1" and "t \<noteq> []"
    and "(i, v) = e \<or> (led_by e t \<and> v < snd e)"
  shows "led_by e (TopK_insert v i t)"
proof -
  have "hd (TopK_place (i, v) t) = e"
    using assms hd_TopK_place_new [of e t] hd_TopK_place_keep [of e t "(i, v)"] by auto
  moreover have "TopK_place (i, v) t \<noteq> []"
    using length_TopK_place [of "(i, v)" t] by auto
  moreover have "0 < length t" using assms(3) by simp
  ultimately show ?thesis
    by (simp add: led_by_def TopK_insert_def hd_take)
qed

lemma fold_TopK_insert:
  assumes "dominated_by e t" and "fst e \<noteq> - 1" and "t \<noteq> []"
    and "\<forall>x\<in>set xs. x = e \<or> snd x < snd e"
  shows "dominated_by e (fold (\<lambda>x res. TopK_insert (snd x) (fst x) res) xs t)
    \<and> length (fold (\<lambda>x res. TopK_insert (snd x) (fst x) res) xs t) = length t
    \<and> (led_by e t \<or> e \<in> set xs
          \<longrightarrow> led_by e (fold (\<lambda>x res. TopK_insert (snd x) (fst x) res) xs t))"
  using assms
proof (induction xs arbitrary: t)
  case Nil
  then show ?case by simp
next
  case (Cons x xs)
  let ?t = "TopK_insert (snd x) (fst x) t"
  from Cons.prems(4) have x: "x = e \<or> snd x < snd e" by simp
  then have x': "(fst x, snd x) = e \<or> snd x < snd e" by simp
  have d: "dominated_by e ?t"
    using dominated_TopK_insert [OF Cons.prems(1) x'] .
  have l: "length ?t = length t" by (rule length_TopK_insert)
  with Cons.prems(3) have ne: "?t \<noteq> []" by auto
  have led: "led_by e ?t" if "led_by e t \<or> x = e"
    using that x led_TopK_insert [OF Cons.prems(1,2,3), of "fst x" "snd x"] by auto
  from Cons.IH [OF d Cons.prems(2) ne] Cons.prems(4) l led
  show ?case by auto
qed

lemma reduce_topk_op_led:
  assumes "dominated_by e a" and "dominated_by e b" and "fst e \<noteq> - 1" and "a \<noteq> []"
  shows "dominated_by e (reduce_topk_op a b)
    \<and> length (reduce_topk_op a b) = length a
    \<and> (led_by e a \<or> led_by e b \<longrightarrow> led_by e (reduce_topk_op a b))"
proof -
  have "led_by e b \<longrightarrow> e \<in> set b" by (auto simp: led_by_def)
  with fold_TopK_insert [OF assms(1,3,4), of b] assms(2) show ?thesis
    by (auto simp: reduce_topk_op_def dominated_by_def)
qed

lemma snd_thread_partial_topkmd:
  "snd (thread_partial_topkmd MAX_T MAX_K elem ids)
    = fold (\<lambda>x res. TopK_insert (snd x) (fst x) res) (map (\<lambda>i. (i, elem i)) ids)
        (replicate MAX_K (- 1, - MAX_T))"
proof -
  have "snd (fold (\<lambda>id partial.
             (reduce_md_op (fst partial) \<lparr> m = elem id, d = 1 \<rparr>,
              TopK_insert (elem id) id (snd partial))) ids a)
    = fold (\<lambda>x res. TopK_insert (snd x) (fst x) res) (map (\<lambda>i. (i, elem i)) ids) (snd a)" for a
    by (induction ids arbitrary: a) simp_all
  then show ?thesis by (simp add: thread_partial_topkmd_def)
qed

lemma thread_partial_finished:
  assumes "0 < MAX_T" and "0 \<le> end_id" and "0 < MAX_K"
    and "elem = (\<lambda>i. if i = end_id then MAX_T else - MAX_T)"
  shows "dominated_by (end_id, MAX_T) (snd (thread_partial_topkmd MAX_T MAX_K elem ids))
    \<and> length (snd (thread_partial_topkmd MAX_T MAX_K elem ids)) = MAX_K
    \<and> (end_id \<in> set ids
          \<longrightarrow> led_by (end_id, MAX_T) (snd (thread_partial_topkmd MAX_T MAX_K elem ids)))"
proof -
  let ?e = "(end_id, MAX_T)"
  let ?t = "replicate MAX_K (- 1 :: int, - MAX_T)"
  have d: "dominated_by ?e ?t" using assms(1) by (simp add: dominated_by_def)
  have e: "fst ?e \<noteq> - 1" using assms(2) by simp
  have ne: "?t \<noteq> []" using assms(3) by simp
  have xs: "\<forall>x\<in>set (map (\<lambda>i. (i, elem i)) ids). x = ?e \<or> snd x < snd ?e"
    using assms(1,4) by auto
  have "end_id \<in> set ids \<longrightarrow> ?e \<in> set (map (\<lambda>i. (i, elem i)) ids)"
    using assms(4) by force
  with fold_TopK_insert [OF d e ne xs] show ?thesis
    unfolding snd_thread_partial_topkmd by simp
qed

lemma fold_reduce_topk_md_op:
  assumes e: "fst e \<noteq> - 1"
    and all: "\<forall>t. dominated_by e (snd (partial t)) \<and> snd (partial t) \<noteq> []"
    and a: "dominated_by e (snd a)" "snd a \<noteq> []"
  shows "dominated_by e (snd (fold (\<lambda>t tot. reduce_topk_md_op tot (partial t)) ts a))
      \<and> snd (fold (\<lambda>t tot. reduce_topk_md_op tot (partial t)) ts a) \<noteq> []
      \<and> (led_by e (snd a) \<or> (\<exists>t\<in>set ts. led_by e (snd (partial t)))
            \<longrightarrow> led_by e (snd (fold (\<lambda>t tot. reduce_topk_md_op tot (partial t)) ts a)))"
  using a
proof (induction ts arbitrary: a)
  case Nil
  then show ?case by simp
next
  case (Cons u ts)
  let ?a = "reduce_topk_md_op a (partial u)"
  from reduce_topk_op_led [OF Cons.prems(1) _ e Cons.prems(2), of "snd (partial u)"] all
  have r: "dominated_by e (snd ?a)" "length (snd ?a) = length (snd a)"
    "led_by e (snd a) \<or> led_by e (snd (partial u)) \<longrightarrow> led_by e (snd ?a)"
    by (simp_all add: reduce_topk_md_op_def)
  from r(2) Cons.prems(2) have ne: "snd ?a \<noteq> []" by auto
  from Cons.IH [OF r(1) ne] r(3) show ?case by auto
qed

lemma BlockReduce_topk_md_dominated:
  assumes e: "fst e \<noteq> - 1"
    and all: "\<forall>t. dominated_by e (snd (partial t)) \<and> snd (partial t) \<noteq> []"
  shows "dominated_by e (snd (BlockReduce reduce_topk_md_op B partial))"
  using fold_reduce_topk_md_op [OF e all, of "partial 0" "[1..B - 1]"] all
  unfolding BlockReduce_def by blast

lemma BlockReduce_topk_md_led:
  assumes B: "0 < B" and t: "0 \<le> t" "t < B" and e: "fst e \<noteq> - 1"
    and led: "led_by e (snd (partial t))"
    and all: "\<forall>t. dominated_by e (snd (partial t)) \<and> snd (partial t) \<noteq> []"
  shows "led_by e (snd (BlockReduce reduce_topk_md_op B partial))"
proof -
  have "t = 0 \<or> t \<in> set [1..B - 1]" using t by auto
  then have "led_by e (snd (partial 0)) \<or> (\<exists>t\<in>set [1..B - 1]. led_by e (snd (partial t)))"
    using led by auto
  with fold_reduce_topk_md_op [OF e all, of "partial 0" "[1..B - 1]"] all show ?thesis
    unfolding BlockReduce_def by blast
qed


lemma MAX_T_VAL_pos: "0 < MAX_T_VAL is_half"
  by (simp add: MAX_T_VAL_def HALF_FLT_MAX_def FLT_MAX_def)

lemma topk_elem_finished:
  fixes log_probs :: "int \<Rightarrow> real" and finished :: "int \<Rightarrow> FinishedState"
    and vocab_size :: int and end_ids :: "int \<Rightarrow> int"
  assumes "isFinished (finished vector_id)"
  shows "topk_elem MAX_T log_probs bias finished vocab_size K end_ids vector_id
    = (\<lambda>i. if i = end_ids (c_div vector_id K) then MAX_T else - MAX_T)"
  using assms by (simp add: topk_elem_def)

lemma mod_thread:
  fixes B :: int
  assumes "0 < B" and "s \<le> i"
  shows "0 \<le> (i - s) mod B" and "(i - s) mod B < B" and "s + (i - s) mod B \<le> i"
    and "(i - (s + (i - s) mod B)) mod B = 0"
proof -
  show "0 \<le> (i - s) mod B" "(i - s) mod B < B" using assms(1) by simp_all
  have "(i - s) mod B \<le> i - s" using assms by (intro zmod_le_nonneg_dividend) simp
  then show "s + (i - s) mod B \<le> i" by simp
  have "i - (s + (i - s) mod B) = (i - s) - (i - s) mod B" by simp
  also have "\<dots> = B * ((i - s) div B)" by (simp add: minus_mod_eq_mult_div)
  finally show "(i - (s + (i - s) mod B)) mod B = 0" by simp
qed

text \<open>The block-wide reduction of the single-pass and base kernels for a finished beam.\<close>

lemma finished_total_led:
  assumes M: "0 < MAX_T" and B: "0 < B" and K: "0 < MAX_K"
    and e: "0 \<le> end_id" and sec: "section_start \<le> end_id" "end_id < section_end"
    and elem: "elem = (\<lambda>i. if i = end_id then MAX_T else - MAX_T)"
  shows "led_by (end_id, MAX_T)
    (snd (BlockReduce reduce_topk_md_op B
       (\<lambda>thread_id. thread_partial_topkmd MAX_T MAX_K elem
           (strided (section_start + thread_id) section_end B))))"
proof -
  let ?t = "(end_id - section_start) mod B"
  let ?partial = "\<lambda>thread_id. thread_partial_topkmd MAX_T MAX_K elem
      (strided (section_start + thread_id) section_end B)"
  note th = mod_thread [OF B sec(1)]
  have mem: "end_id \<in> set (strided (section_start + ?t) section_end B)"
    using strided_member [OF B th(3) sec(2) th(4)] .
  have led: "led_by (end_id, MAX_T) (snd (?partial ?t))"
    using thread_partial_finished [OF M e K elem] mem by blast
  have all: "\<forall>t. dominated_by (end_id, MAX_T) (snd (?partial t)) \<and> snd (?partial t) \<noteq> []"
  proof
    fix t
    from thread_partial_finished [OF M e K elem,
        of "strided (section_start + t) section_end B"]
    have "dominated_by (end_id, MAX_T) (snd (?partial t))"
      "length (snd (?partial t)) = MAX_K"
      by blast+
    with K show "dominated_by (end_id, MAX_T) (snd (?partial t)) \<and> snd (?partial t) \<noteq> []"
      by auto
  qed
  have "fst (end_id, MAX_T) \<noteq> - 1" using e by simp
  from BlockReduce_topk_md_led [of B ?t "(end_id, MAX_T)" ?partial, OF B th(1,2) this led all]
  show ?thesis .
qed

lemma finished_total_dominated:
  assumes M: "0 < MAX_T" and K: "0 < MAX_K" and e: "0 \<le> end_id"
    and elem: "elem = (\<lambda>i. if i = end_id then MAX_T else - MAX_T)"
  shows "dominated_by (end_id, MAX_T)
    (snd (BlockReduce reduce_topk_md_op B
       (\<lambda>thread_id. thread_partial_topkmd MAX_T MAX_K elem
           (strided (section_start + thread_id) section_end B))))"
proof -
  let ?partial = "\<lambda>thread_id. thread_partial_topkmd MAX_T MAX_K elem
      (strided (section_start + thread_id) section_end B)"
  have all: "\<forall>t. dominated_by (end_id, MAX_T) (snd (?partial t)) \<and> snd (?partial t) \<noteq> []"
  proof
    fix t
    from thread_partial_finished [OF M e K elem,
        of "strided (section_start + t) section_end B"]
    have "dominated_by (end_id, MAX_T) (snd (?partial t))"
      "length (snd (?partial t)) = MAX_K"
      by blast+
    with K show "dominated_by (end_id, MAX_T) (snd (?partial t)) \<and> snd (?partial t) \<noteq> []"
      by auto
  qed
  have "fst (end_id, MAX_T) \<noteq> - 1" using e by simp
  from BlockReduce_topk_md_dominated [of "(end_id, MAX_T)" ?partial, OF this all]
  show ?thesis .
qed

text \<open>The first round of the fast stage-1 kernel for a finished beam.\<close>

lemma finished_total_topk:
  fixes vocab_size :: int
  assumes M: "0 < MAX_T" and B: "0 < B"
    and sec: "section_start \<le> end_id" "end_id < section_end"
    and elem: "elem = (\<lambda>i. if i = end_id then MAX_T else - MAX_T)"
  shows "BlockReduce ArgMax B
     (\<lambda>thread_id. fold (\<lambda>id partial_topk. ArgMax partial_topk (id - section_start, elem id))
         (strided (section_start + thread_id) section_end B) (vocab_size - 1, - MAX_T))
    = (end_id - section_start, MAX_T)"
proof -
  let ?e = "(end_id - section_start, MAX_T)"
  let ?f = "\<lambda>id. (id - section_start, elem id)"
  let ?partial = "\<lambda>thread_id. fold (\<lambda>id partial_topk. ArgMax partial_topk (?f id))
      (strided (section_start + thread_id) section_end B) (vocab_size - 1, - MAX_T)"
  let ?t = "(end_id - section_start) mod B"
  note th = mod_thread [OF B sec(1)]
  have items: "\<forall>x\<in>set xs. snd (?f x) < snd ?e \<or> ?f x = ?e" for xs
    using M elem by auto
  have init: "snd (vocab_size - 1, - MAX_T) < snd ?e \<or> (vocab_size - 1, - MAX_T) = ?e"
    using M by simp
  have all: "\<forall>t. snd (?partial t) < snd ?e \<or> ?partial t = ?e"
    using fold_ArgMax_top(1) [of _ ?f ?e "(vocab_size - 1, - MAX_T)", OF items init] by blast
  have "end_id \<in> set (strided (section_start + ?t) section_end B)"
    using strided_member [OF B th(3) sec(2) th(4)] .
  then have "?e \<in> ?f ` set (strided (section_start + ?t) section_end B)"
    using elem by force
  then have top: "?partial ?t = ?e"
    using fold_ArgMax_top(2) [of _ ?f ?e "(vocab_size - 1, - MAX_T)", OF items init] by blast
  from BlockReduce_ArgMax_top [of B ?t ?partial ?e, OF B th(1,2) top all]
  show ?thesis .
qed

lemma stage1_round_other:
  fixes vocab_size :: int
  assumes "i \<noteq> j"
  shows "fst (stage1_round MAX_T vocab_size n B K section_start vector_id i st) j = fst st j"
    and "fst (snd (stage1_round MAX_T vocab_size n B K section_start vector_id i st)) j
         = fst (snd st) j"
  using assms by (simp_all add: stage1_round_def Let_def case_prod_beta)

lemma fold_stage1_round_other:
  fixes vocab_size :: int
  assumes "j \<notin> set xs"
  shows "fst (fold (stage1_round MAX_T vocab_size n B K section_start vector_id) xs st) j
         = fst st j
    \<and> fst (snd (fold (stage1_round MAX_T vocab_size n B K section_start vector_id) xs st)) j
         = fst (snd st) j"
  using assms
proof (induction xs arbitrary: st)
  case Nil
  show ?case by simp
next
  case (Cons i xs)
  then have "i \<noteq> j" "j \<notin> set xs" by auto
  from Cons.IH [OF this(2)] stage1_round_other [OF this(1)] show ?case by simp
qed

lemma stage1_rounds_first:
  fixes vocab_size :: int
  assumes K: "0 < K"
    and tot: "BlockReduce ArgMax B partial_topk = tot"
  shows "fst (fold (stage1_round MAX_T vocab_size n B K section_start vector_id) [0..2 * K - 1]
            (ids, vals, buf, partial_topk)) 0
          = section_start + fst tot + vector_id * vocab_size"
    and "fst (snd (fold (stage1_round MAX_T vocab_size n B K section_start vector_id)
            [0..2 * K - 1] (ids, vals, buf, partial_topk))) 0 = snd tot"
proof -
  have l: "[0..2 * K - 1] = 0 # [1..2 * K - 1]"
    using K by (subst upto.simps) simp
  have n: "(0::int) \<notin> set [1..2 * K - 1]" by simp
  let ?st = "stage1_round MAX_T vocab_size n B K section_start vector_id 0
      (ids, vals, buf, partial_topk)"
  have r: "fst ?st 0 = section_start + fst tot + vector_id * vocab_size"
    "fst (snd ?st) 0 = snd tot"
    using tot by (simp_all add: stage1_round_def Let_def)
  from fold_stage1_round_other [OF n, of MAX_T vocab_size n B K section_start vector_id ?st] r
  show "fst (fold (stage1_round MAX_T vocab_size n B K section_start vector_id) [0..2 * K - 1]
            (ids, vals, buf, partial_topk)) 0
          = section_start + fst tot + vector_id * vocab_size"
    and "fst (snd (fold (stage1_round MAX_T vocab_size n B K section_start vector_id)
            [0..2 * K - 1] (ids, vals, buf, partial_topk))) 0 = snd tot"
    unfolding l by simp_all
qed


text \<open>In every round of the extraction only the end token has the value \<open>MAX_T\<close>.\<close>

lemma stage1_round_finished:
  fixes vocab_size :: int
  assumes M: "0 < MAX_T" and E: "E = section_start + k + vector_id * vocab_size"
    and inv: "finished_inv MAX_T E k st"
  shows "finished_inv MAX_T E k
     (stage1_round MAX_T vocab_size n B K section_start vector_id i st)"
proof -
  obtain ids vals smem partial_topk where st: "st = (ids, vals, smem, partial_topk)"
    by (cases st) auto
  define tot where "tot = BlockReduce ArgMax B partial_topk"
  define smem' where "smem' = smem(fst tot := - MAX_T)"
  define thr where "thr = c_mod (fst tot) B"
  from inv have ids: "(ids j = E \<and> vals j = MAX_T) \<or> vals j < MAX_T"
    and smem: "(a = k \<and> smem a = MAX_T) \<or> smem a < MAX_T"
    and part: "partial_topk t = (k, MAX_T) \<or> snd (partial_topk t) < MAX_T" for j a t
    unfolding st finished_inv_def prod.case by blast+
  have "\<forall>t. partial_topk t = (k, MAX_T) \<or> snd (partial_topk t) < MAX_T"
    using part by blast
  then have tot: "tot = (k, MAX_T) \<or> snd tot < MAX_T"
    unfolding tot_def by (rule BlockReduce_ArgMax_pred)
  have smem': "(a = k \<and> smem' a = MAX_T) \<or> smem' a < MAX_T" for a
    using smem [of a] M by (cases "a = fst tot") (simp_all add: smem'_def)
  have new: "stage1_partial_topk MAX_T vocab_size n B smem' t = (k, MAX_T)
      \<or> snd (stage1_partial_topk MAX_T vocab_size n B smem' t) < MAX_T" for t
    unfolding stage1_partial_topk_def
  proof (rule fold_ArgMax_pred [where P = "\<lambda>p. p = (k, MAX_T) \<or> snd p < MAX_T"])
    show "(vocab_size - 1, - MAX_T) = (k, MAX_T) \<or> snd (vocab_size - 1, - MAX_T) < MAX_T"
      using M by simp
    show "\<forall>x\<in>set (strided t n B). (x, smem' x) = (k, MAX_T) \<or> snd (x, smem' x) < MAX_T"
    proof
      fix x
      from smem' [of x] show "(x, smem' x) = (k, MAX_T) \<or> snd (x, smem' x) < MAX_T"
        by (simp only: prod.inject snd_conv)
    qed
  qed
  have out: "((ids(i := section_start + fst tot + vector_id * vocab_size)) j = E
        \<and> (vals(i := snd tot)) j = MAX_T) \<or> (vals(i := snd tot)) j < MAX_T" for j
  proof (cases "j = i")
    case True
    from tot show ?thesis
    proof
      assume "tot = (k, MAX_T)"
      with True E show ?thesis by simp
    next
      assume "snd tot < MAX_T"
      with True show ?thesis by simp
    qed
  next
    case False
    with ids [of j] show ?thesis by simp
  qed
  have part': "(if i < 2 * K - 1
       then partial_topk(thr := stage1_partial_topk MAX_T vocab_size n B smem' thr)
       else partial_topk) t = (k, MAX_T)
     \<or> snd ((if i < 2 * K - 1
       then partial_topk(thr := stage1_partial_topk MAX_T vocab_size n B smem' thr)
       else partial_topk) t) < MAX_T" for t
  proof (cases "i < 2 * K - 1 \<and> t = thr")
    case True
    with new [of thr] show ?thesis by simp
  next
    case False
    with part [of t] show ?thesis by auto
  qed
  have "stage1_round MAX_T vocab_size n B K section_start vector_id i st
      = (ids(i := section_start + fst tot + vector_id * vocab_size), vals(i := snd tot), smem',
         if i < 2 * K - 1
         then partial_topk(thr := stage1_partial_topk MAX_T vocab_size n B smem' thr)
         else partial_topk)"
    unfolding st stage1_round_def Let_def prod.case tot_def smem'_def thr_def ..
  then show ?thesis
    unfolding finished_inv_def by (simp only: prod.case) (intro conjI allI out smem' part')
qed

lemma fold_stage1_round_finished:
  fixes vocab_size :: int
  assumes M: "0 < MAX_T" and E: "E = section_start + k + vector_id * vocab_size"
    and inv: "finished_inv MAX_T E k st"
  shows "finished_inv MAX_T E k
     (fold (stage1_round MAX_T vocab_size n B K section_start vector_id) xs st)"
  using inv
proof (induction xs arbitrary: st)
  case Nil
  then show ?case by simp
next
  case (Cons i xs)
  from Cons.IH [OF stage1_round_finished [OF M E Cons.prems]] show ?case by simp
qed

lemma stage1_finished_init:
  fixes vocab_size :: int
  assumes M: "0 < MAX_T"
    and elem: "elem = (\<lambda>i. if i = end_id then MAX_T else - MAX_T)"
  shows "finished_inv MAX_T E (end_id - section_start)
     (\<lambda>i. 0, \<lambda>i. 0, \<lambda>smem_index. elem (section_start + smem_index),
      \<lambda>thread_id. fold (\<lambda>id partial_topk. ArgMax partial_topk (id - section_start, elem id))
         (strided (section_start + thread_id) section_end B) (vocab_size - 1, - MAX_T))"
proof -
  let ?k = "end_id - section_start"
  have part: "fold (\<lambda>id partial_topk. ArgMax partial_topk (id - section_start, elem id)) xs
        (vocab_size - 1, - MAX_T) = (?k, MAX_T)
      \<or> snd (fold (\<lambda>id partial_topk. ArgMax partial_topk (id - section_start, elem id)) xs
        (vocab_size - 1, - MAX_T)) < MAX_T" for xs
  proof (rule fold_ArgMax_pred [where P = "\<lambda>p. p = (?k, MAX_T) \<or> snd p < MAX_T"])
    show "(vocab_size - 1, - MAX_T) = (?k, MAX_T) \<or> snd (vocab_size - 1, - MAX_T) < MAX_T"
      using M by simp
    show "\<forall>x\<in>set xs. (x - section_start, elem x) = (?k, MAX_T)
        \<or> snd (x - section_start, elem x) < MAX_T"
      using M elem by simp
  qed
  have smem: "(a = ?k \<and> elem (section_start + a) = MAX_T) \<or> elem (section_start + a) < MAX_T"
    for a
    using M by (cases "a = ?k") (simp_all add: elem)
  have out: "((0::int) = E \<and> (0::real) = MAX_T) \<or> 0 < MAX_T"
    using M by simp
  show ?thesis
    unfolding finished_inv_def by (simp only: prod.case) (intro conjI allI out smem part)
qed

lemma take_1_led:
  assumes "led_by e t" and "0 < n"
  shows "take (Suc 0) (take n t) = [e]"
  using assms by (cases t; cases n) (simp_all add: led_by_def)


lemma zip_map_same: "zip (map f xs) (map g xs) = map (\<lambda>x. (f x, g x)) xs"
  by (induction xs) simp_all


text \<open>
  C10. For a beam whose state reads finished, each of the three reductions replaces the
  logits entirely: the end token of the beam's request gets the value \<open>MAX_T_VAL\<close> and
  every other token \<open>- MAX_T_VAL\<close>, so that the result does not depend on the logits or
  the bias. The first candidate that the single-pass kernel writes for the beam is the
  end token (as an absolute id). In the stage-1 kernels, base and fast, no candidate of
  any part of the vocabulary other than the end token reaches the value \<open>MAX_T_VAL\<close>, and
  the first candidate of the part that contains the end token is the end token, with
  the value \<open>MAX_T_VAL\<close>. The end token is a token of the vocabulary.
\<close>

theorem finished_beam_top_candidate:
  fixes log_probs log_probs' cum_log_probs :: "int \<Rightarrow> real"
    and finished :: "int \<Rightarrow> FinishedState" and vocab_size :: int and end_ids :: "int \<Rightarrow> int"
  assumes fin: "isFinished (finished vector_id)"
    and B: "0 < THREADBLOCK_SIZE" and MAX_K: "0 < MAX_K" and K: "0 < K"
    and e0: "0 \<le> end_ids (c_div vector_id K)"
    and ev: "end_ids (c_div vector_id K) < vocab_size"
  shows "topk_elem (MAX_T_VAL is_half) log_probs bias finished vocab_size K end_ids vector_id
      = (\<lambda>i. if i = end_ids (c_div vector_id K) then MAX_T_VAL is_half else - MAX_T_VAL is_half)
    \<and> beam_online_softmax_topk_kernel is_half MAX_K THREADBLOCK_SIZE log_probs bias cum_log_probs finished vocab_size K end_ids vector_id
      = beam_online_softmax_topk_kernel is_half MAX_K THREADBLOCK_SIZE log_probs' bias' cum_log_probs finished vocab_size K end_ids vector_id
    \<and> map fst (take 1 (beam_online_softmax_topk_kernel is_half MAX_K THREADBLOCK_SIZE log_probs bias cum_log_probs finished vocab_size K end_ids vector_id))
      = [end_ids (c_div vector_id K) + vector_id * vocab_size]
    \<and> beam_online_softmax_topk_stage1_kernel_base is_half MAX_K THREADBLOCK_SIZE log_probs obias finished vocab_size K end_ids vector_id blockIdx_y gridDim_y
      = beam_online_softmax_topk_stage1_kernel_base is_half MAX_K THREADBLOCK_SIZE log_probs' obias' finished vocab_size K end_ids vector_id blockIdx_y gridDim_y
    \<and> (\<forall>p\<in>set (zip (fst (beam_online_softmax_topk_stage1_kernel_base is_half MAX_K THREADBLOCK_SIZE log_probs obias finished vocab_size K end_ids vector_id blockIdx_y gridDim_y))
                    (fst (snd (beam_online_softmax_topk_stage1_kernel_base is_half MAX_K THREADBLOCK_SIZE log_probs obias finished vocab_size K end_ids vector_id blockIdx_y gridDim_y)))).
          p = (end_ids (c_div vector_id K) + vector_id * vocab_size, MAX_T_VAL is_half)
          \<or> snd p < MAX_T_VAL is_half)
    \<and> (c_div (vocab_size + gridDim_y - 1) gridDim_y * blockIdx_y \<le> end_ids (c_div vector_id K)
        \<and> end_ids (c_div vector_id K)
            < c_div (vocab_size + gridDim_y - 1) gridDim_y * blockIdx_y
              + c_div (vocab_size + gridDim_y - 1) gridDim_y
       \<longrightarrow> take 1 (fst (beam_online_softmax_topk_stage1_kernel_base is_half MAX_K THREADBLOCK_SIZE log_probs obias finished vocab_size K end_ids vector_id blockIdx_y gridDim_y))
             = [end_ids (c_div vector_id K) + vector_id * vocab_size]
           \<and> take 1 (fst (snd (beam_online_softmax_topk_stage1_kernel_base is_half MAX_K THREADBLOCK_SIZE log_probs obias finished vocab_size K end_ids vector_id blockIdx_y gridDim_y)))
             = [MAX_T_VAL is_half])
    \<and> beam_online_softmax_topk_stage1_kernel_fast is_half THREADBLOCK_SIZE log_probs obias finished vocab_size K end_ids v_local vector_id blockIdx_y
      = beam_online_softmax_topk_stage1_kernel_fast is_half THREADBLOCK_SIZE log_probs' obias' finished vocab_size K end_ids v_local vector_id blockIdx_y
    \<and> (\<forall>p\<in>set (zip (fst (beam_online_softmax_topk_stage1_kernel_fast is_half THREADBLOCK_SIZE log_probs obias finished vocab_size K end_ids v_local vector_id blockIdx_y))
                    (fst (snd (beam_online_softmax_topk_stage1_kernel_fast is_half THREADBLOCK_SIZE log_probs obias finished vocab_size K end_ids v_local vector_id blockIdx_y)))).
          p = (end_ids (c_div vector_id K) + vector_id * vocab_size, MAX_T_VAL is_half)
          \<or> snd p < MAX_T_VAL is_half)
    \<and> (v_local * blockIdx_y \<le> end_ids (c_div vector_id K)
        \<and> end_ids (c_div vector_id K) < v_local * blockIdx_y + v_local
       \<longrightarrow> take 1 (fst (beam_online_softmax_topk_stage1_kernel_fast is_half THREADBLOCK_SIZE log_probs obias finished vocab_size K end_ids v_local vector_id blockIdx_y))
             = [end_ids (c_div vector_id K) + vector_id * vocab_size]
           \<and> take 1 (fst (snd (beam_online_softmax_topk_stage1_kernel_fast is_half THREADBLOCK_SIZE log_probs obias finished vocab_size K end_ids v_local vector_id blockIdx_y)))
             = [MAX_T_VAL is_half])"
proof (intro conjI impI ballI)
  let ?M = "MAX_T_VAL is_half"
  let ?end = "end_ids (c_div vector_id K)"
  let ?elem = "\<lambda>i. if i = ?end then ?M else - ?M"
  note M = MAX_T_VAL_pos [of is_half]
  have elem: "topk_elem ?M lp b finished vocab_size K end_ids vector_id = ?elem" for lp b
    using fin by (rule topk_elem_finished)
  show "topk_elem ?M log_probs bias finished vocab_size K end_ids vector_id = ?elem"
    by (rule elem)
  show "beam_online_softmax_topk_kernel is_half MAX_K THREADBLOCK_SIZE log_probs bias cum_log_probs finished vocab_size K end_ids vector_id
      = beam_online_softmax_topk_kernel is_half MAX_K THREADBLOCK_SIZE log_probs' bias' cum_log_probs finished vocab_size K end_ids vector_id"
    by (simp add: beam_online_softmax_topk_kernel_def elem)
  show "beam_online_softmax_topk_stage1_kernel_base is_half MAX_K THREADBLOCK_SIZE log_probs obias finished vocab_size K end_ids vector_id blockIdx_y gridDim_y
      = beam_online_softmax_topk_stage1_kernel_base is_half MAX_K THREADBLOCK_SIZE log_probs' obias' finished vocab_size K end_ids vector_id blockIdx_y gridDim_y"
    by (simp add: beam_online_softmax_topk_stage1_kernel_base_def elem)
  show "beam_online_softmax_topk_stage1_kernel_fast is_half THREADBLOCK_SIZE log_probs obias finished vocab_size K end_ids v_local vector_id blockIdx_y
      = beam_online_softmax_topk_stage1_kernel_fast is_half THREADBLOCK_SIZE log_probs' obias' finished vocab_size K end_ids v_local vector_id blockIdx_y"
    by (simp add: beam_online_softmax_topk_stage1_kernel_fast_def elem)
  have Kn: "0 < nat K" "0 < nat (2 * K)" using K by simp_all
  {
    let ?total = "BlockReduce reduce_topk_md_op THREADBLOCK_SIZE
       (\<lambda>thread_id. thread_partial_topkmd ?M MAX_K ?elem
           (strided thread_id vocab_size THREADBLOCK_SIZE))"
    from finished_total_led [OF M B MAX_K e0 _ ev refl, of 0] e0
    have "led_by (?end, ?M) (snd ?total)" by simp
    from take_1_led [OF this Kn(1)]
    show "map fst (take 1 (beam_online_softmax_topk_kernel is_half MAX_K THREADBLOCK_SIZE log_probs bias cum_log_probs finished vocab_size K end_ids vector_id))
        = [?end + vector_id * vocab_size]"
      by (simp add: beam_online_softmax_topk_kernel_def elem Let_def take_map)
  }
  {
    let ?v = "c_div (vocab_size + gridDim_y - 1) gridDim_y"
    let ?total = "BlockReduce reduce_topk_md_op THREADBLOCK_SIZE
       (\<lambda>thread_id. thread_partial_topkmd ?M MAX_K ?elem
           (strided (?v * blockIdx_y + thread_id) (min (?v * blockIdx_y + ?v) vocab_size)
              THREADBLOCK_SIZE))"
    {
      fix p
      assume "p \<in> set (zip (fst (beam_online_softmax_topk_stage1_kernel_base is_half MAX_K THREADBLOCK_SIZE log_probs obias finished vocab_size K end_ids vector_id blockIdx_y gridDim_y))
                    (fst (snd (beam_online_softmax_topk_stage1_kernel_base is_half MAX_K THREADBLOCK_SIZE log_probs obias finished vocab_size K end_ids vector_id blockIdx_y gridDim_y))))"
      then obtain e where e: "e \<in> set (take (nat (2 * K)) (snd ?total))"
        and p: "p = (fst e + vector_id * vocab_size, snd e)"
        by (auto simp: beam_online_softmax_topk_stage1_kernel_base_def elem Let_def
            zip_map_same)
      from e have "e \<in> set (snd ?total)" by (rule in_set_takeD)
      with finished_total_dominated [OF M MAX_K e0 refl, of THREADBLOCK_SIZE "?v * blockIdx_y"
          "min (?v * blockIdx_y + ?v) vocab_size"]
      have "e = (?end, ?M) \<or> snd e < ?M" by (simp add: dominated_by_def)
      with p show "p = (?end + vector_id * vocab_size, ?M) \<or> snd p < ?M" by auto
    }
    assume a: "?v * blockIdx_y \<le> ?end \<and> ?end < ?v * blockIdx_y + ?v"
    from a ev have "?v * blockIdx_y \<le> ?end" "?end < min (?v * blockIdx_y + ?v) vocab_size"
      by simp_all
    from finished_total_led [OF M B MAX_K e0 this refl]
    have "led_by (?end, ?M) (snd ?total)" .
    note t = take_1_led [OF this Kn(2)]
    from t show "take 1 (fst (beam_online_softmax_topk_stage1_kernel_base is_half MAX_K THREADBLOCK_SIZE log_probs obias finished vocab_size K end_ids vector_id blockIdx_y gridDim_y))
        = [?end + vector_id * vocab_size]"
      by (simp add: beam_online_softmax_topk_stage1_kernel_base_def elem Let_def take_map)
    from t show "take 1 (fst (snd (beam_online_softmax_topk_stage1_kernel_base is_half MAX_K THREADBLOCK_SIZE log_probs obias finished vocab_size K end_ids vector_id blockIdx_y gridDim_y)))
        = [?M]"
      by (simp add: beam_online_softmax_topk_stage1_kernel_base_def elem Let_def take_map)
  }
  {
    let ?s = "v_local * blockIdx_y"
    let ?n = "min (?s + v_local) vocab_size"
    let ?partial = "\<lambda>thread_id. fold (\<lambda>id partial_topk. ArgMax partial_topk (id - ?s, ?elem id))
         (strided (?s + thread_id) ?n THREADBLOCK_SIZE) (vocab_size - 1, - ?M)"
    let ?st = "fold (stage1_round ?M vocab_size (?n - ?s) THREADBLOCK_SIZE K ?s vector_id)
        [0..2 * K - 1] (\<lambda>i. 0, \<lambda>i. 0, \<lambda>smem_index. ?elem (?s + smem_index), ?partial)"
    have out: "beam_online_softmax_topk_stage1_kernel_fast is_half THREADBLOCK_SIZE log_probs obias finished vocab_size K end_ids v_local vector_id blockIdx_y
        = (map (fst ?st) [0..2 * K - 1], map (fst (snd ?st)) [0..2 * K - 1],
           snd (snd (beam_online_softmax_topk_stage1_kernel_fast is_half THREADBLOCK_SIZE log_probs obias finished vocab_size K end_ids v_local vector_id blockIdx_y)))"
      by (simp add: beam_online_softmax_topk_stage1_kernel_fast_def elem Let_def)
    {
      fix p
      assume "p \<in> set (zip (fst (beam_online_softmax_topk_stage1_kernel_fast is_half THREADBLOCK_SIZE log_probs obias finished vocab_size K end_ids v_local vector_id blockIdx_y))
                    (fst (snd (beam_online_softmax_topk_stage1_kernel_fast is_half THREADBLOCK_SIZE log_probs obias finished vocab_size K end_ids v_local vector_id blockIdx_y))))"
      then have "p \<in> set (zip (map (fst ?st) [0..2 * K - 1]) (map (fst (snd ?st)) [0..2 * K - 1]))"
        by (subst (asm) (1 2) out) (simp only: fst_conv snd_conv)
      then obtain j where p: "p = (fst ?st j, fst (snd ?st) j)"
        by (auto simp: zip_map_same)
      have "finished_inv ?M (?s + (?end - ?s) + vector_id * vocab_size) (?end - ?s) ?st"
        by (intro fold_stage1_round_finished stage1_finished_init M refl)
      then have "(fst ?st j = ?end + vector_id * vocab_size \<and> fst (snd ?st) j = ?M)
          \<or> fst (snd ?st) j < ?M"
        unfolding finished_inv_def case_prod_beta by simp
      with p show "p = (?end + vector_id * vocab_size, ?M) \<or> snd p < ?M" by auto
    }
    assume a: "?s \<le> ?end \<and> ?end < ?s + v_local"
    from a ev have sec: "?s \<le> ?end" "?end < ?n" by simp_all
    from finished_total_topk [OF M B sec refl, of vocab_size]
    have tot: "BlockReduce ArgMax THREADBLOCK_SIZE ?partial = (?end - ?s, ?M)" .
    have "[0..2 * K - 1] = 0 # [1..2 * K - 1]"
      using K by (subst upto.simps) simp
    then have l: "take 1 (map f [0..2 * K - 1]) = [f 0]" for f :: "int \<Rightarrow> 'b"
      by simp
    note first = stage1_rounds_first [OF K tot, of ?M vocab_size "?n - ?s" ?s vector_id
        "\<lambda>i. 0" "\<lambda>i. 0" "\<lambda>smem_index. ?elem (?s + smem_index)"]
    show "take 1 (fst (beam_online_softmax_topk_stage1_kernel_fast is_half THREADBLOCK_SIZE log_probs obias finished vocab_size K end_ids v_local vector_id blockIdx_y))
        = [?end + vector_id * vocab_size]"
      by (subst out) (simp only: fst_conv l first, simp)
    show "take 1 (fst (snd (beam_online_softmax_topk_stage1_kernel_fast is_half THREADBLOCK_SIZE log_probs obias finished vocab_size K end_ids v_local vector_id blockIdx_y)))
        = [?M]"
      by (subst out) (simp only: fst_conv snd_conv l first)
  }
qed

text \<open>
  A vocabulary of four tokens with the end token 2, one beam per request, and the beam 1
  finished; the stage-1 kernels work on the second of two parts of the vocabulary. The
  first candidate is the token 2 of the beam 1, whose absolute id is 6.
\<close>

theorem finished_beam_top_candidate_witness:
  "isFinished FinishedEos
    \<and> beam_online_softmax_topk_kernel False 2 2 (\<lambda>i. 0) (\<lambda>i. 0) (\<lambda>i. 0) (\<lambda>i. if i = 1 then FinishedEos else NotFinished) 4 1 (\<lambda>i. 2) 1
      = beam_online_softmax_topk_kernel False 2 2 (\<lambda>i. real_of_int i) (\<lambda>i. 1) (\<lambda>i. 0) (\<lambda>i. if i = 1 then FinishedEos else NotFinished) 4 1 (\<lambda>i. 2) 1
    \<and> map fst (take 1 (beam_online_softmax_topk_kernel False 2 2 (\<lambda>i. 0) (\<lambda>i. 0) (\<lambda>i. 0) (\<lambda>i. if i = 1 then FinishedEos else NotFinished) 4 1 (\<lambda>i. 2) 1)) = [6]
    \<and> beam_online_softmax_topk_stage1_kernel_base False 2 2 (\<lambda>i. 0) None (\<lambda>i. if i = 1 then FinishedEos else NotFinished) 4 1 (\<lambda>i. 2) 1 1 2
      = beam_online_softmax_topk_stage1_kernel_base False 2 2 (\<lambda>i. real_of_int i) (Some (\<lambda>i. 1)) (\<lambda>i. if i = 1 then FinishedEos else NotFinished) 4 1 (\<lambda>i. 2) 1 1 2
    \<and> take 1 (fst (beam_online_softmax_topk_stage1_kernel_base False 2 2 (\<lambda>i. 0) None (\<lambda>i. if i = 1 then FinishedEos else NotFinished) 4 1 (\<lambda>i. 2) 1 1 2)) = [6]
    \<and> take 1 (fst (snd (beam_online_softmax_topk_stage1_kernel_base False 2 2 (\<lambda>i. 0) None (\<lambda>i. if i = 1 then FinishedEos else NotFinished) 4 1 (\<lambda>i. 2) 1 1 2))) = [FLT_MAX]
    \<and> beam_online_softmax_topk_stage1_kernel_fast False 2 (\<lambda>i. 0) None (\<lambda>i. if i = 1 then FinishedEos else NotFinished) 4 1 (\<lambda>i. 2) 2 1 1
      = beam_online_softmax_topk_stage1_kernel_fast False 2 (\<lambda>i. real_of_int i) (Some (\<lambda>i. 1)) (\<lambda>i. if i = 1 then FinishedEos else NotFinished) 4 1 (\<lambda>i. 2) 2 1 1
    \<and> take 1 (fst (beam_online_softmax_topk_stage1_kernel_fast False 2 (\<lambda>i. 0) None (\<lambda>i. if i = 1 then FinishedEos else NotFinished) 4 1 (\<lambda>i. 2) 2 1 1)) = [6]
    \<and> take 1 (fst (snd (beam_online_softmax_topk_stage1_kernel_fast False 2 (\<lambda>i. 0) None (\<lambda>i. if i = 1 then FinishedEos else NotFinished) 4 1 (\<lambda>i. 2) 2 1 1))) = [FLT_MAX]"
proof -
  have a: "isFinished FinishedEos" by (simp add: isFinished_def)
  note t = finished_beam_top_candidate [where finished = "\<lambda>i. if i = 1 then FinishedEos else NotFinished"
      and vector_id = 1 and K = 1 and end_ids = "\<lambda>i. 2" and vocab_size = 4
      and THREADBLOCK_SIZE = 2 and MAX_K = 2 and is_half = False
      and log_probs = "\<lambda>i. 0" and log_probs' = "\<lambda>i. real_of_int i"
      and bias = "\<lambda>i. 0" and bias' = "\<lambda>i. 1" and obias = None and obias' = "Some (\<lambda>i. 1)"
      and cum_log_probs = "\<lambda>i. 0" and blockIdx_y = 1 and gridDim_y = 2 and v_local = 2,
      unfolded c_div_def MAX_T_VAL_def, simplified, OF a]
  from a t show ?thesis unfolding One_nat_def by blast
qed

end
